theory Spec2Isabelle
  imports Complex_Main
begin

section \<open>Numbers and vectors (vectorMath.tsx)\<close>

text \<open>
  The numbers of the program are modelled as real numbers: no rounding and no overflow.
  The one operation of vectorMath that leaves the finite numbers is the division by zero
  of \<open>divide\<close>; its result is an option, and \<open>None\<close> stands for a vector whose
  components are not finite (for \<open>unitVector\<close> of the zero vector: 0/0 twice).
\<close>

type_synonym vector2d = "real \<times> real"

definition add :: "vector2d \<Rightarrow> vector2d \<Rightarrow> vector2d" where
  "add a b = (fst a + fst b, snd a + snd b)"

definition rotate_vec :: "vector2d \<Rightarrow> real \<Rightarrow> vector2d" where
  "rotate_vec v angle =
     (fst v * cos angle - snd v * sin angle, fst v * sin angle + snd v * cos angle)"

definition subtract :: "vector2d \<Rightarrow> vector2d \<Rightarrow> vector2d" where
  "subtract a b = (fst a - fst b, snd a - snd b)"

definition magnitude :: "vector2d \<Rightarrow> real" where
  "magnitude a = sqrt ((fst a)\<^sup>2 + (snd a)\<^sup>2)"

definition divide_vec :: "vector2d \<Rightarrow> real \<Rightarrow> vector2d option" where
  "divide_vec v b = (if b = 0 then None else Some (fst v / b, snd v / b))"

definition multiply :: "vector2d \<Rightarrow> real \<Rightarrow> vector2d" where
  "multiply v b = (fst v * b, snd v * b)"

definition unitVector :: "vector2d \<Rightarrow> vector2d option" where
  "unitVector a = divide_vec a (magnitude a)"

definition clipMagnitude :: "vector2d \<Rightarrow> real \<Rightarrow> vector2d option" where
  "clipMagnitude a maxMagnitude =
     (if magnitude a > maxMagnitude
      then (case unitVector a of None \<Rightarrow> None | Some u \<Rightarrow> Some (multiply u maxMagnitude))
      else Some a)"

text \<open>
  The remainder operator \<open>%\<close> of the language truncates the quotient towards zero, so
  the result has the sign of the dividend.
\<close>

definition trunc :: "real \<Rightarrow> int" where
  "trunc x = (if 0 \<le> x then \<lfloor>x\<rfloor> else \<lceil>x\<rceil>)"

definition remainder :: "real \<Rightarrow> real \<Rightarrow> real" where
  "remainder x m = x - m * of_int (trunc (x / m))"

section \<open>Orbital geometry (geometry.tsx)\<close>

datatype shape = Circle real | Ellipse real real

definition ellipse_calcRotationalPoint :: "real \<times> real \<Rightarrow> real \<Rightarrow> vector2d" where
  "ellipse_calcRotationalPoint ab t = (fst ab * cos t, snd ab * sin t)"

definition circle_calcRotationalPoint :: "real \<Rightarrow> real \<Rightarrow> vector2d" where
  "circle_calcRotationalPoint radius t = (radius * cos t, radius * sin t)"

definition convertRotationalVelocityToEuclideanVelocity :: "real \<Rightarrow> real \<Rightarrow> real \<Rightarrow> vector2d" where
  "convertRotationalVelocityToEuclideanVelocity radius rot rotVelocity =
     subtract (circle_calcRotationalPoint radius (rot + rotVelocity))
              (circle_calcRotationalPoint radius rot)"

section \<open>World state (world.tsx)\<close>

text \<open>
  Objects are shared by reference (an orbit's target, a cloud's friends, the entries of
  the cloud list), so the world carries a store. A reference is a natural number;
  \<open>objects\<close> holds the CelestialObject members of every object and \<open>cloudParts\<close>
  the members a Cloud adds (mass, state, friends). Each object owns its Orbit.
  \<open>nextRef\<close> is the first reference not yet allocated.
\<close>

type_synonym ref = nat

record orbit =
  orbit_rotation :: real
  orbit_rotationalVelocity :: real
  target :: ref
  orbit_shape :: shape

record celestialObject =
  location :: vector2d
  rotation :: real
  orbit :: "orbit option"
  shape :: shape
  rotationalVelocity :: real

datatype cloudState = Floating | Raining

record cloudPart =
  mass :: real
  state :: cloudState
  friends :: "ref list"

record rain =
  rain_location :: vector2d
  velocity :: vector2d

text \<open>A point of a plant's extent is \<open>None\<close> once it is not finite.\<close>

datatype plantPart =
  PlantPart (extent: "vector2d option \<times> vector2d option") (children: "plantPart list")
    (depth: real) (lastGrowths: "(vector2d \<times> vector2d) list")

record plant =
  plant_rotation :: real
  trunk :: plantPart

record worldState =
  lastTick :: int
  tick :: real
  planet :: ref
  sun :: ref
  clouds :: "ref list"
  rain :: "rain list"
  ground :: real
  plants :: "plant list"
  objects :: "ref \<Rightarrow> celestialObject"
  cloudParts :: "ref \<Rightarrow> cloudPart"
  nextRef :: ref

datatype error =
  CloudsOnlyAroundCircular
  | CloudMustHaveTuple
  | NonCircularCloudOrbit
  | PlantPlanetNotCircular
  | TypeError

text \<open>A loop over an array whose body can throw: the first error ends the loop.\<close>

fun foldE :: "('a \<Rightarrow> 's \<Rightarrow> error + 's) \<Rightarrow> 'a list \<Rightarrow> 's \<Rightarrow> error + 's" where
  "foldE f [] s = Inr s"
| "foldE f (x # xs) s = (case f x s of Inl e \<Rightarrow> Inl e | Inr s' \<Rightarrow> foldE f xs s')"

fun mapE :: "('a \<Rightarrow> error + 'b) \<Rightarrow> 'a list \<Rightarrow> error + 'b list" where
  "mapE f [] = Inr []"
| "mapE f (x # xs) =
     (case f x of Inl e \<Rightarrow> Inl e
      | Inr y \<Rightarrow> (case mapE f xs of Inl e \<Rightarrow> Inl e | Inr ys \<Rightarrow> Inr (y # ys)))"

text \<open>\<open>Set.add\<close>: a set keeps insertion order and holds an element once.\<close>

definition setAdd :: "'a \<Rightarrow> 'a list \<Rightarrow> 'a list" where
  "setAdd x xs = (if x \<in> set xs then xs else xs @ [x])"

section \<open>The engine (tickWorld.tsx)\<close>

subsection \<open>Creating clouds and the initial world\<close>

text \<open>
  \<open>Math.random()\<close> is an input: \<open>rnd k\<close> is the value of the \<open>k\<close>-th draw, and the
  functions that draw say how many draws they have consumed. The clock is an input too:
  \<open>now\<close> is the number of milliseconds \<open>new Date()\<close> reads.
\<close>

definition ticksInADay :: real where "ticksInADay = 10000"
definition ticksInAYear :: real where "ticksInAYear = 2000"
definition sunOrbitEllipse :: "real \<times> real" where "sunOrbitEllipse = (175, 200)"

definition createRandomCloud ::
  "(nat \<Rightarrow> real) \<Rightarrow> nat \<Rightarrow> celestialObject \<Rightarrow> ref \<Rightarrow> error + (celestialObject \<times> cloudPart)" where
  "createRandomCloud rnd k planetObject planetRef =
     (case shape planetObject of
        Ellipse a b \<Rightarrow> Inl CloudsOnlyAroundCircular
      | Circle planetShape \<Rightarrow>
          (let initialRotation = rnd k * 2 * pi;
               minimumCloudHeight = 1;
               orbitalRadius = planetShape * 2 + minimumCloudHeight + rnd (k + 1) * 1;
               direction = (if rotationalVelocity planetObject > 0 then 1 else - 1);
               rotationalVelocityCoefficient = rnd (k + 2) * 700 + 800
           in Inr
             (\<lparr>location = circle_calcRotationalPoint orbitalRadius initialRotation,
               rotation = 0,
               orbit = Some
                 \<lparr>orbit_rotation = initialRotation,
                  orbit_rotationalVelocity = (direction * (2 * pi)) / rotationalVelocityCoefficient,
                  target = planetRef,
                  orbit_shape = Circle orbitalRadius\<rparr>,
               shape = Ellipse (0.6 + rnd (k + 3) * 0.2) (0.4 + rnd (k + 4) * 0.2),
               rotationalVelocity = 0\<rparr>,
              \<lparr>mass = 5, state = Floating, friends = []\<rparr>)))"

text \<open>A new object takes the next free reference.\<close>

definition allocCloud :: "worldState \<Rightarrow> celestialObject \<times> cloudPart \<Rightarrow> worldState" where
  "allocCloud ws new =
     ws\<lparr>objects := (objects ws)(nextRef ws := fst new),
        cloudParts := (cloudParts ws)(nextRef ws := snd new),
        nextRef := Suc (nextRef ws)\<rparr>"

definition createInitialCloud :: "(nat \<Rightarrow> real) \<Rightarrow> nat \<Rightarrow> worldState \<Rightarrow> error + worldState" where
  "createInitialCloud rnd i ws =
     (case createRandomCloud rnd (5 * i) (objects ws (planet ws)) (planet ws) of
        Inl e \<Rightarrow> Inl e
      | Inr new \<Rightarrow> Inr ((allocCloud ws new)\<lparr>clouds := clouds ws @ [nextRef ws]\<rparr>))"

definition createInitialWorldState :: "int \<Rightarrow> (nat \<Rightarrow> real) \<Rightarrow> error + worldState" where
  "createInitialWorldState now rnd =
     (let planetObject =
            \<lparr>location = (0, 0), rotation = 0, orbit = None, shape = Circle 3,
             rotationalVelocity = (2 * pi) / ticksInADay\<rparr>;
          unset = \<lparr>mass = 0, state = Floating, friends = []\<rparr>;
          ws0 = \<lparr>lastTick = now, tick = 0, planet = 0, sun = 0, clouds = [], rain = [],
                 ground = 0, plants = [], objects = (\<lambda>r. planetObject),
                 cloudParts = (\<lambda>r. unset), nextRef = 1\<rparr>
      in case foldE (createInitialCloud rnd) [0..<20] ws0 of
           Inl e \<Rightarrow> Inl e
         | Inr ws1 \<Rightarrow>
             Inr (ws1\<lparr>sun := nextRef ws1,
                      objects := (objects ws1)(nextRef ws1 :=
                        \<lparr>location = ellipse_calcRotationalPoint sunOrbitEllipse 0,
                         rotation = 0,
                         orbit = Some
                           \<lparr>orbit_rotation = 0,
                            orbit_rotationalVelocity = (2 * pi) / ticksInAYear,
                            target = planet ws1,
                            orbit_shape = Ellipse (fst sunOrbitEllipse) (snd sunOrbitEllipse)\<rparr>,
                         shape = Circle 20,
                         rotationalVelocity = 0\<rparr>),
                      nextRef := Suc (nextRef ws1)\<rparr>))"

subsection \<open>Pass 1: tickCelestialObjects\<close>

definition tickCelestial ::
  "real \<Rightarrow> ref \<Rightarrow> (ref \<Rightarrow> celestialObject) \<Rightarrow> (ref \<Rightarrow> celestialObject)" where
  "tickCelestial elapsedWorldTime c h =
     (let c1 = (h c)\<lparr>rotation :=
                 remainder (rotation (h c) + rotationalVelocity (h c) * elapsedWorldTime) (pi * 2)\<rparr>
      in case orbit c1 of
           None \<Rightarrow> h(c := c1)
         | Some ob \<Rightarrow>
             (let ob1 = ob\<lparr>orbit_rotation :=
                          remainder (orbit_rotation ob + orbit_rotationalVelocity ob * elapsedWorldTime)
                            (pi * 2)\<rparr>;
                  h1 = h(c := c1\<lparr>orbit := Some ob1\<rparr>);
                  newLocationRelativeToTarget =
                    (case orbit_shape ob1 of
                       Circle r \<Rightarrow> circle_calcRotationalPoint r (orbit_rotation ob1)
                     | Ellipse a b \<Rightarrow> ellipse_calcRotationalPoint (a, b) (orbit_rotation ob1))
              in h1(c := (h1 c)\<lparr>location :=
                     add newLocationRelativeToTarget (location (h1 (target ob1)))\<rparr>)))"

fun tickCelestialObjects ::
  "ref list \<Rightarrow> real \<Rightarrow> (ref \<Rightarrow> celestialObject) \<Rightarrow> (ref \<Rightarrow> celestialObject)" where
  "tickCelestialObjects [] elapsedWorldTime h = h"
| "tickCelestialObjects (c # cs) elapsedWorldTime h =
     tickCelestialObjects cs elapsedWorldTime (tickCelestial elapsedWorldTime c h)"

subsection \<open>Pass 3: tickRain\<close>

definition gravity :: real where "gravity = 0.1"
definition maxRainVelocity :: real where "maxRainVelocity = 0.1"

text \<open>
  \<open>distance > planet.shape\<close>: a pair of semi-axes on the right converts to no number,
  and the comparison is false.
\<close>

definition greaterThanShape :: "real \<Rightarrow> shape \<Rightarrow> bool" where
  "greaterThanShape d s = (case s of Circle r \<Rightarrow> d > r | Ellipse a b \<Rightarrow> False)"

text \<open>
  One iteration of the loop of tickRain; \<open>None\<close> when the particle is not pushed to
  \<open>rainToRetain\<close>. Nothing checks the vector handed to \<open>unitVector\<close>: for a particle
  at the planet's centre the direction is not finite, then so are the particle's velocity,
  location and distance, the comparison with the planet's shape is false and the particle
  is not retained.
\<close>

definition tickRainDrop :: "celestialObject \<Rightarrow> real \<Rightarrow> rain \<Rightarrow> rain option" where
  "tickRainDrop planetObject elapsedWorldTime r =
     (case unitVector (subtract (location planetObject) (rain_location r)) of
        None \<Rightarrow> None
      | Some centerOfEarthDirection \<Rightarrow>
          (let changeInVelocity = multiply centerOfEarthDirection (gravity * elapsedWorldTime)
           in case clipMagnitude (add (velocity r) changeInVelocity) maxRainVelocity of
                None \<Rightarrow> None
              | Some v \<Rightarrow>
                  (let loc = add (rain_location r) (multiply v elapsedWorldTime);
                       distance = magnitude (subtract loc (location planetObject))
                   in if greaterThanShape distance (shape planetObject)
                      then Some \<lparr>rain_location = loc, velocity = v\<rparr>
                      else None)))"

definition tickRain :: "worldState \<Rightarrow> ref \<Rightarrow> real \<Rightarrow> worldState" where
  "tickRain ws planetRef elapsedWorldTime =
     ws\<lparr>rain := List.map_filter (tickRainDrop (objects ws planetRef) elapsedWorldTime) (rain ws)\<rparr>"

subsection \<open>Pass 2: tickClouds\<close>

definition rainThreshold :: real where "rainThreshold = 30"
definition cloudRangeCount :: nat where "cloudRangeCount = 10"

definition cloudRange :: "nat \<Rightarrow> real \<times> real" where
  "cloudRange i =
     (let rangeWidth = (pi * 2) / real cloudRangeCount;
          begin = rangeWidth * real i;
          fuzzAmount = rangeWidth / 2;
          finish = begin + rangeWidth;
          fuzzyBegin = (if i = 0 then pi * 2 - fuzzAmount else begin - fuzzAmount);
          fuzzyEnd = (if i = cloudRangeCount - 1 then fuzzAmount else finish + fuzzAmount)
      in (fuzzyBegin, fuzzyEnd))"

definition cloudRanges :: "(real \<times> real) list" where
  "cloudRanges = map cloudRange [0..<cloudRangeCount]"

definition inCloudRange :: "real \<times> real \<Rightarrow> real \<Rightarrow> bool" where
  "inCloudRange r rot =
     ((snd r < fst r \<and> (rot > fst r \<or> rot < snd r)) \<or> (rot > fst r \<and> rot < snd r))"

text \<open>
  The inner loop of getCloudGroups for one range. Reading \<open>cloud.orbit.rotation\<close> of an
  object with no orbit is a TypeError.
\<close>

fun cloudGroup :: "(ref \<Rightarrow> celestialObject) \<Rightarrow> real \<times> real \<Rightarrow> ref list \<Rightarrow> error + ref list" where
  "cloudGroup h r [] = Inr []"
| "cloudGroup h r (cloud # cs) =
     (case orbit (h cloud) of
        None \<Rightarrow> Inl TypeError
      | Some ob \<Rightarrow>
          (case cloudGroup h r cs of
             Inl e \<Rightarrow> Inl e
           | Inr g \<Rightarrow> Inr (if inCloudRange r (orbit_rotation ob) then cloud # g else g)))"

definition getCloudGroups :: "(ref \<Rightarrow> celestialObject) \<Rightarrow> ref list \<Rightarrow> error + ref list list" where
  "getCloudGroups h cs = mapE (\<lambda>r. cloudGroup h r cs) cloudRanges"

text \<open>
  The body of the innermost clustering loop, for \<open>cloud\<close> and \<open>otherCloud\<close> of one group.
  Both \<open>cloudShape\<close> and \<open>otherCloudShape\<close> are read from \<open>cloud.shape\<close>.
\<close>

definition clusterPair :: "ref \<Rightarrow> ref \<Rightarrow> worldState \<Rightarrow> error + worldState" where
  "clusterPair cloud otherCloud ws =
     (case shape (objects ws cloud) of
        Circle r \<Rightarrow> Inl CloudMustHaveTuple
      | Ellipse a b \<Rightarrow>
          (let cloudShape = (a, b);
               otherCloudShape = (a, b)
           in if cloud = otherCloud then Inr ws
              else
                (let distance = magnitude (subtract (location (objects ws otherCloud))
                                                    (location (objects ws cloud)))
                 in if distance < min (fst cloudShape) (snd cloudShape)
                                  + min (fst otherCloudShape) (snd otherCloudShape) / 4
                    then
                      (case orbit (objects ws otherCloud) of
                         None \<Rightarrow> Inl TypeError
                       | Some otherOrbit \<Rightarrow>
                           (case orbit (objects ws cloud) of
                              None \<Rightarrow> Inl TypeError
                            | Some cloudOrbit \<Rightarrow>
                                (let ws1 = ws\<lparr>objects := (objects ws)(otherCloud :=
                                             (objects ws otherCloud)\<lparr>orbit := Some
                                               (otherOrbit\<lparr>orbit_rotationalVelocity :=
                                                  orbit_rotationalVelocity cloudOrbit\<rparr>)\<rparr>)\<rparr>;
                                     ws2 = ws1\<lparr>cloudParts := (cloudParts ws1)(otherCloud :=
                                             (cloudParts ws1 otherCloud)\<lparr>friends :=
                                                setAdd cloud (friends (cloudParts ws1 otherCloud))\<rparr>)\<rparr>
                                 in Inr (ws2\<lparr>cloudParts := (cloudParts ws2)(cloud :=
                                             (cloudParts ws2 cloud)\<lparr>friends :=
                                                setAdd otherCloud (friends (cloudParts ws2 cloud))\<rparr>)\<rparr>))))
                    else Inr ws)))"

definition clusterGroup :: "ref list \<Rightarrow> worldState \<Rightarrow> error + worldState" where
  "clusterGroup g ws = foldE (\<lambda>cloud. foldE (\<lambda>otherCloud. clusterPair cloud otherCloud) g) g ws"

definition clusterClouds :: "ref list list \<Rightarrow> worldState \<Rightarrow> error + worldState" where
  "clusterClouds cloudGroups ws = foldE clusterGroup cloudGroups ws"

definition collectiveMass :: "(ref \<Rightarrow> cloudPart) \<Rightarrow> ref \<Rightarrow> real" where
  "collectiveMass cp cloud =
     mass (cp cloud)
     + sum_list (map (\<lambda>friend. mass (cp friend)
                        + sum_list (map (\<lambda>c. mass (cp c)) (friends (cp friend))))
                     (friends (cp cloud)))"

definition setRaining :: "ref \<Rightarrow> (ref \<Rightarrow> cloudPart) \<Rightarrow> (ref \<Rightarrow> cloudPart)" where
  "setRaining c cp = cp(c := (cp c)\<lparr>state := Raining\<rparr>)"

definition startRaining :: "ref \<Rightarrow> (ref \<Rightarrow> cloudPart) \<Rightarrow> (ref \<Rightarrow> cloudPart)" where
  "startRaining cloud cp = fold setRaining (friends (cp cloud)) (setRaining cloud cp)"

definition addCloudJitter :: "(nat \<Rightarrow> real) \<Rightarrow> nat \<Rightarrow> celestialObject \<Rightarrow> vector2d" where
  "addCloudJitter rnd k cloudObject =
     (fst (location cloudObject) + (rnd k - 0.5) * 1.0,
      snd (location cloudObject) + (rnd (k + 1) - 0.5) * 0.3)"

text \<open>
  The loop over the clouds carries the world, \<open>remainingClouds\<close> and the number of
  draws made. The branch of a raining cloud:
\<close>

definition rainingCloud ::
  "(nat \<Rightarrow> real) \<Rightarrow> real \<Rightarrow> ref \<Rightarrow> real \<Rightarrow> worldState \<times> ref list \<times> nat
     \<Rightarrow> error + (worldState \<times> ref list \<times> nat)" where
  "rainingCloud rnd elapsedWorldTime cloud collective st =
     (case st of (ws, remainingClouds, k) \<Rightarrow>
        (let rainProbabilityAdjustment = max (min (0.01 * collective\<^sup>2) 1.0) 0.2;
             probability = min (0.1 * elapsedWorldTime * rainProbabilityAdjustment) 0.2
         in case orbit (objects ws cloud) of
              None \<Rightarrow> Inl TypeError
            | Some cloudOrbit \<Rightarrow>
                (case orbit_shape cloudOrbit of
                   Ellipse a b \<Rightarrow> Inl NonCircularCloudOrbit
                 | Circle cloudRadius \<Rightarrow>
                     (let cloudRotation = orbit_rotation cloudOrbit;
                          cloudRotationalVelocity = orbit_rotationalVelocity cloudOrbit;
                          ws1 = (if rnd k < probability
                                 then ws\<lparr>cloudParts := (cloudParts ws)(cloud :=
                                            (cloudParts ws cloud)\<lparr>mass :=
                                               mass (cloudParts ws cloud) - 0.1\<rparr>),
                                         rain := rain ws @
                                           [\<lparr>rain_location =
                                               addCloudJitter rnd (k + 1) (objects ws cloud),
                                             velocity =
                                               convertRotationalVelocityToEuclideanVelocity
                                                 cloudRadius cloudRotation cloudRotationalVelocity\<rparr>]\<rparr>
                                 else ws);
                          k1 = (if rnd k < probability then k + 3 else k + 1)
                      in Inr (ws1,
                              if mass (cloudParts ws1 cloud) > 0
                              then remainingClouds @ [cloud] else remainingClouds,
                              k1)))))"

text \<open>
  One iteration of the loop over the clouds; \<open>cloudsLength\<close> is the length of the
  array the loop runs over. After the assignment \<open>worldState.water.clouds =
  remainingClouds\<close> both names denote one array, so a spawned cloud is pushed to both.
\<close>

definition tickCloud ::
  "(nat \<Rightarrow> real) \<Rightarrow> real \<Rightarrow> nat \<Rightarrow> ref \<Rightarrow> worldState \<times> ref list \<times> nat
     \<Rightarrow> error + (worldState \<times> ref list \<times> nat)" where
  "tickCloud rnd elapsedWorldTime cloudsLength cloud st =
     (case st of (ws, remainingClouds, k) \<Rightarrow>
        (let collective = collectiveMass (cloudParts ws) cloud;
             ws1 = (if collective > rainThreshold
                    then ws\<lparr>cloudParts := startRaining cloud (cloudParts ws)\<rparr> else ws)
         in case (if state (cloudParts ws1 cloud) = Raining
                  then rainingCloud rnd elapsedWorldTime cloud collective (ws1, remainingClouds, k)
                  else Inr (ws1, remainingClouds @ [cloud], k)) of
              Inl e \<Rightarrow> Inl e
            | Inr (ws2, remaining2, k2) \<Rightarrow>
                (let ws3 = ws2\<lparr>clouds := remaining2\<rparr>
                 in if cloudsLength < 20
                    then
                      (if rnd k2 < 0.05
                       then
                         (case createRandomCloud rnd (k2 + 1) (objects ws3 (planet ws3)) (planet ws3) of
                            Inl e \<Rightarrow> Inl e
                          | Inr new \<Rightarrow>
                              Inr ((allocCloud ws3 new)\<lparr>clouds := remaining2 @ [nextRef ws3]\<rparr>,
                                   remaining2 @ [nextRef ws3], k2 + 6))
                       else Inr (ws3, remaining2, k2 + 1))
                    else Inr (ws3, remaining2, k2))))"

definition tickClouds ::
  "(nat \<Rightarrow> real) \<Rightarrow> ref list \<Rightarrow> worldState \<Rightarrow> real \<Rightarrow> error + (worldState \<times> nat)" where
  "tickClouds rnd cs worldState elapsedWorldTime =
     (case getCloudGroups (objects worldState) cs of
        Inl e \<Rightarrow> Inl e
      | Inr cloudGroups \<Rightarrow>
          (case clusterClouds cloudGroups worldState of
             Inl e \<Rightarrow> Inl e
           | Inr ws1 \<Rightarrow>
               (case foldE (tickCloud rnd elapsedWorldTime (length cs)) cs (ws1, [], 0) of
                  Inl e \<Rightarrow> Inl e
                | Inr st \<Rightarrow> Inr (fst st, snd (snd st)))))"

subsection \<open>Pass 4: tickPlants\<close>

definition mapPlantCoordinateToGlobal ::
  "worldState \<Rightarrow> plant \<Rightarrow> vector2d option \<times> vector2d option
     \<Rightarrow> error + (vector2d option \<times> vector2d option)" where
  "mapPlantCoordinateToGlobal ws pl ext =
     (case shape (objects ws (planet ws)) of
        Ellipse a b \<Rightarrow> Inl PlantPlanetNotCircular
      | Circle planetShape \<Rightarrow>
          (let plantRootLocation = circle_calcRotationalPoint planetShape
                 (rotation (objects ws (planet ws)) + plant_rotation pl);
               f = (\<lambda>p. add (rotate_vec p
                      (rotation (objects ws (planet ws)) + plant_rotation pl - pi / 2))
                      plantRootLocation)
           in Inr (map_option f (fst ext), map_option f (snd ext))))"

definition mapGlobalCoordinateToPlant ::
  "worldState \<Rightarrow> plant \<Rightarrow> vector2d option \<times> vector2d option
     \<Rightarrow> error + (vector2d option \<times> vector2d option)" where
  "mapGlobalCoordinateToPlant ws pl ext =
     (case shape (objects ws (planet ws)) of
        Ellipse a b \<Rightarrow> Inl PlantPlanetNotCircular
      | Circle planetShape \<Rightarrow>
          (let plantRootLocation = circle_calcRotationalPoint planetShape
                 (rotation (objects ws (planet ws)) + plant_rotation pl);
               f = (\<lambda>p. rotate_vec (subtract p plantRootLocation)
                      (- (rotation (objects ws (planet ws)) + plant_rotation pl) + pi / 2))
           in Inr (map_option f (fst ext), map_option f (snd ext))))"

definition constraintRadian :: "real \<Rightarrow> real" where
  "constraintRadian radian = remainder radian (pi * 2)"

definition grow :: "vector2d \<Rightarrow> real \<Rightarrow> vector2d option \<Rightarrow> vector2d option" where
  "grow sunLocation elapsedWorldTime q =
     (case q of
        None \<Rightarrow> None
      | Some p \<Rightarrow>
          (case unitVector (subtract sunLocation p) of
             None \<Rightarrow> None
           | Some u \<Rightarrow> Some (add p (multiply u (0.005 * elapsedWorldTime)))))"

fun tickPlant :: "worldState \<Rightarrow> plant \<Rightarrow> real \<Rightarrow> plantPart \<Rightarrow> error + plantPart"
  and tickPlantChildren :: "worldState \<Rightarrow> plant \<Rightarrow> real \<Rightarrow> plantPart list \<Rightarrow> error + plantPart list" where
  "tickPlant ws pl elapsedWorldTime (PlantPart ext ch d lg) =
     (case orbit (objects ws (sun ws)) of
        None \<Rightarrow> Inl TypeError
      | Some sunOrbit \<Rightarrow>
          (let rotationalDistance =
                 \<bar>constraintRadian (orbit_rotation sunOrbit)
                  - constraintRadian (rotation (objects ws (planet ws)) + plant_rotation pl)\<bar>
           in if rotationalDistance > pi / 2 then Inr (PlantPart ext ch d lg)
              else
                (case tickPlantChildren ws pl elapsedWorldTime ch of
                   Inl e \<Rightarrow> Inl e
                 | Inr ch' \<Rightarrow>
                     (case mapPlantCoordinateToGlobal ws pl ext of
                        Inl e \<Rightarrow> Inl e
                      | Inr g \<Rightarrow>
                          (case mapGlobalCoordinateToPlant ws pl
                                  (grow (location (objects ws (sun ws))) elapsedWorldTime (fst g),
                                   grow (location (objects ws (sun ws))) elapsedWorldTime (snd g)) of
                             Inl e \<Rightarrow> Inl e
                           | Inr ext' \<Rightarrow> Inr (PlantPart ext' ch' d lg))))))"
| "tickPlantChildren ws pl elapsedWorldTime [] = Inr []"
| "tickPlantChildren ws pl elapsedWorldTime (c # cs) =
     (case tickPlant ws pl elapsedWorldTime c of
        Inl e \<Rightarrow> Inl e
      | Inr c' \<Rightarrow>
          (case tickPlantChildren ws pl elapsedWorldTime cs of
             Inl e \<Rightarrow> Inl e
           | Inr cs' \<Rightarrow> Inr (c' # cs')))"

definition tickPlants :: "worldState \<Rightarrow> real \<Rightarrow> error + worldState" where
  "tickPlants ws elapsedWorldTime =
     (case mapE (\<lambda>pl. case tickPlant ws pl elapsedWorldTime (trunk pl) of
                         Inl e \<Rightarrow> Inl e | Inr t \<Rightarrow> Inr (pl\<lparr>trunk := t\<rparr>))
                (plants ws) of
        Inl e \<Rightarrow> Inl e
      | Inr ps \<Rightarrow> Inr (ws\<lparr>plants := ps\<rparr>))"

subsection \<open>tickWorld\<close>

definition timePerMs :: real where "timePerMs = 1 / 10"

definition things :: "worldState \<Rightarrow> ref list" where
  "things ws = [sun ws, planet ws] @ clouds ws"

definition elapsed :: "worldState \<Rightarrow> int \<Rightarrow> real" where
  "elapsed ws now = real_of_int (now - lastTick ws) * timePerMs"

definition tickWorld :: "worldState \<Rightarrow> int \<Rightarrow> (nat \<Rightarrow> real) \<Rightarrow> error + worldState" where
  "tickWorld worldState now rnd =
     (let elapsedWorldTime = elapsed worldState now;
          ws0 = worldState\<lparr>lastTick := now\<rparr>;
          ws1 = ws0\<lparr>objects := tickCelestialObjects (things worldState) elapsedWorldTime (objects ws0)\<rparr>
      in case tickClouds rnd (clouds worldState) ws1 elapsedWorldTime of
           Inl e \<Rightarrow> Inl e
         | Inr r \<Rightarrow> tickPlants (tickRain (fst r) (planet worldState) elapsedWorldTime) elapsedWorldTime)"

section \<open>Notions used in the statements\<close>

text \<open>The point of an orbit at its current rotation, relative to the target.\<close>

definition orbitPoint :: "orbit \<Rightarrow> vector2d" where
  "orbitPoint ob =
     (case orbit_shape ob of
        Circle r \<Rightarrow> circle_calcRotationalPoint r (orbit_rotation ob)
      | Ellipse a b \<Rightarrow> ellipse_calcRotationalPoint (a, b) (orbit_rotation ob))"

text \<open>
  An object is anchored when it has no orbit, or when its target has no orbit and its
  location is the point of its orbit added to the location of the target.
\<close>

definition anchored :: "(ref \<Rightarrow> celestialObject) \<Rightarrow> ref \<Rightarrow> bool" where
  "anchored h c =
     (case orbit (h c) of
        None \<Rightarrow> True
      | Some ob \<Rightarrow> orbit (h (target ob)) = None
                   \<and> location (h c) = add (orbitPoint ob) (location (h (target ob))))"

text \<open>
  The order the claim C1 describes: every orbit target that the pass processes is processed
  before the objects that orbit it.
\<close>

definition targetsFirst :: "worldState \<Rightarrow> bool" where
  "targetsFirst ws =
     list_all (\<lambda>c. case orbit (objects ws c) of
                      None \<Rightarrow> True
                    | Some ob \<Rightarrow> target ob \<notin> set (things ws)
                                 \<or> target ob \<in> set (takeWhile (\<lambda>x. x \<noteq> c) (things ws)))
              (things ws)"

text \<open>The worlds that ticks lead to, from a given world, for any clock and any draws.\<close>

inductive reachable :: "worldState \<Rightarrow> worldState \<Rightarrow> bool" where
  start: "reachable ws ws"
| tick: "reachable ws ws1 \<Longrightarrow> tickWorld ws1 now rnd = Inr ws2 \<Longrightarrow> reachable ws ws2"


text \<open>
  The world of a tick after its first pass, and the state of the loop over the clouds
  before its \<open>i\<close>-th iteration (the world, \<open>remainingClouds\<close>, the draws made).
\<close>

definition afterKinematics :: "worldState \<Rightarrow> int \<Rightarrow> worldState" where
  "afterKinematics ws now =
     ws\<lparr>lastTick := now,
        objects := tickCelestialObjects (things ws) (elapsed ws now) (objects ws)\<rparr>"

definition beforeIteration ::
  "worldState \<Rightarrow> int \<Rightarrow> (nat \<Rightarrow> real) \<Rightarrow> nat \<Rightarrow> error + (worldState \<times> ref list \<times> nat)" where
  "beforeIteration ws now rnd i =
     (case getCloudGroups (objects (afterKinematics ws now)) (clouds ws) of
        Inl e \<Rightarrow> Inl e
      | Inr cloudGroups \<Rightarrow>
          (case clusterClouds cloudGroups (afterKinematics ws now) of
             Inl e \<Rightarrow> Inl e
           | Inr ws1 \<Rightarrow>
               foldE (tickCloud rnd (elapsed ws now) (length (clouds ws)))
                 (take i (clouds ws)) (ws1, [], 0)))"

text \<open>Every cloud of the list, and every friend of such a cloud, is allocated.\<close>

definition allocated :: "worldState \<Rightarrow> bool" where
  "allocated ws =
     list_all (\<lambda>c. c < nextRef ws \<and> list_all (\<lambda>f. f < nextRef ws) (friends (cloudParts ws c)))
       (clouds ws)"

text \<open>
  The proximity test of the clustering step. \<open>specProximity\<close> follows the words of the
  specification (the minimum component of the first cloud's shape plus a quarter of the
  minimum component of the other cloud's shape); \<open>codeProximity\<close> is the condition
  that \<open>clusterPair\<close> evaluates.
\<close>

definition distanceBetween :: "(ref \<Rightarrow> celestialObject) \<Rightarrow> ref \<Rightarrow> ref \<Rightarrow> real" where
  "distanceBetween h cloud otherCloud =
     magnitude (subtract (location (h otherCloud)) (location (h cloud)))"

definition specProximity :: "(ref \<Rightarrow> celestialObject) \<Rightarrow> ref \<Rightarrow> ref \<Rightarrow> bool" where
  "specProximity h cloud otherCloud =
     (case shape (h cloud) of
        Circle r \<Rightarrow> False
      | Ellipse a b \<Rightarrow>
          (case shape (h otherCloud) of
             Circle r \<Rightarrow> False
           | Ellipse a' b' \<Rightarrow> distanceBetween h cloud otherCloud < min a b + min a' b' / 4))"

definition codeProximity :: "(ref \<Rightarrow> celestialObject) \<Rightarrow> ref \<Rightarrow> ref \<Rightarrow> bool" where
  "codeProximity h cloud otherCloud =
     (case shape (h cloud) of
        Circle r \<Rightarrow> False
      | Ellipse a b \<Rightarrow> distanceBetween h cloud otherCloud < min a b + min a b / 4)"

text \<open>A rain particle is aloft when it is not at the planet's centre and above its surface.\<close>

definition aloft :: "celestialObject \<Rightarrow> rain \<Rightarrow> bool" where
  "aloft planetObject r =
     (rain_location r \<noteq> location planetObject
      \<and> greaterThanShape (magnitude (subtract (rain_location r) (location planetObject)))
            (shape planetObject))"

text \<open>
  The worlds of the running program: what createInitialWorldState establishes and every
  tick keeps. The planet is allocated, has no orbit, lies at the origin and is a circle.
  The sun is allocated and anchored to the planet. The cloud list has no cloud twice,
  and each of its clouds is allocated, has a positive mass and allocated friends, is
  anchored to the planet on a circular orbit and has a pair of semi-axes for its shape.
  Every rain particle is aloft.
\<close>

definition planetSettled :: "worldState \<Rightarrow> bool" where
  "planetSettled ws =
     (planet ws < nextRef ws
      \<and> orbit (objects ws (planet ws)) = None
      \<and> location (objects ws (planet ws)) = (0, 0)
      \<and> (case shape (objects ws (planet ws)) of Circle r \<Rightarrow> 0 \<le> r | Ellipse a b \<Rightarrow> False))"

definition sunSettled :: "worldState \<Rightarrow> bool" where
  "sunSettled ws =
     (sun ws < nextRef ws
      \<and> anchored (objects ws) (sun ws)
      \<and> (case orbit (objects ws (sun ws)) of None \<Rightarrow> False | Some ob \<Rightarrow> target ob = planet ws))"

definition cloudSettled :: "worldState \<Rightarrow> ref \<Rightarrow> bool" where
  "cloudSettled ws c =
     (c < nextRef ws
      \<and> 0 < mass (cloudParts ws c)
      \<and> list_all (\<lambda>f. f < nextRef ws) (friends (cloudParts ws c))
      \<and> anchored (objects ws) c
      \<and> (case shape (objects ws c) of Circle r \<Rightarrow> False | Ellipse a b \<Rightarrow> True)
      \<and> (case orbit (objects ws c) of
            None \<Rightarrow> False
          | Some ob \<Rightarrow> target ob = planet ws
                       \<and> (case orbit_shape ob of Circle r \<Rightarrow> True | Ellipse a b \<Rightarrow> False)))"

definition settled :: "worldState \<Rightarrow> bool" where
  "settled ws =
     (planetSettled ws \<and> sunSettled ws \<and> distinct (clouds ws)
      \<and> list_all (cloudSettled ws) (clouds ws)
      \<and> list_all (aloft (objects ws (planet ws))) (rain ws))"

text \<open>
  The worlds of the running program. \<open>Math.random()\<close> returns a number that is at
  least 0 and less than 1, so the draws of the program are unit draws. A world is running
  when createInitialWorldState built it, or when a tick of a running world returned it,
  for any clock and any unit draws.
\<close>

definition unitDraws :: "(nat \<Rightarrow> real) \<Rightarrow> bool" where
  "unitDraws rnd = (\<forall>k. 0 \<le> rnd k \<and> rnd k < 1)"

inductive running :: "worldState \<Rightarrow> bool" where
  initial: "unitDraws rnd \<Longrightarrow> createInitialWorldState now rnd = Inr ws \<Longrightarrow> running ws"
| tick: "running ws \<Longrightarrow> unitDraws rnd \<Longrightarrow> tickWorld ws now rnd = Inr ws' \<Longrightarrow> running ws'"

text \<open>
  A cloud is high when its orbit is a circle whose radius is at least the minimum cloud
  height of createRandomCloud.
\<close>

definition cloudHigh :: "worldState \<Rightarrow> ref \<Rightarrow> bool" where
  "cloudHigh ws c =
     (case orbit (objects ws c) of
        None \<Rightarrow> False
      | Some ob \<Rightarrow> (case orbit_shape ob of Circle r \<Rightarrow> 1 \<le> r | Ellipse a b \<Rightarrow> False))"

text \<open>
  What the worlds of the running program have in common (lemma \<open>running_programWorld\<close>):
  they are settled, they have no plant, and their clouds are high.
\<close>

definition programWorld :: "worldState \<Rightarrow> bool" where
  "programWorld ws = (settled ws \<and> plants ws = [] \<and> list_all (cloudHigh ws) (clouds ws))"

section \<open>Worlds used in the examples\<close>

text \<open>
  The planet and the sun as createInitialWorldState builds them, and clouds at orbit
  rotation 0 with a given orbital radius, silhouette and angular velocity. References:
  0 is the planet, 1 the sun, clouds from 2.
\<close>

definition planetObject :: celestialObject where
  "planetObject =
     \<lparr>location = (0, 0), rotation = 0, orbit = None, shape = Circle 3,
      rotationalVelocity = (2 * pi) / ticksInADay\<rparr>"

definition sunObject :: celestialObject where
  "sunObject =
     \<lparr>location = (175, 0), rotation = 0,
      orbit = Some \<lparr>orbit_rotation = 0, orbit_rotationalVelocity = (2 * pi) / ticksInAYear,
                    target = 0, orbit_shape = Ellipse 175 200\<rparr>,
      shape = Circle 20, rotationalVelocity = 0\<rparr>"

definition cloudObject :: "real \<Rightarrow> real \<times> real \<Rightarrow> real \<Rightarrow> celestialObject" where
  "cloudObject r s v =
     \<lparr>location = (r, 0), rotation = 0,
      orbit = Some \<lparr>orbit_rotation = 0, orbit_rotationalVelocity = v,
                    target = 0, orbit_shape = Circle r\<rparr>,
      shape = Ellipse (fst s) (snd s), rotationalVelocity = 0\<rparr>"

definition emptyWorld :: worldState where
  "emptyWorld =
     \<lparr>lastTick = 0, tick = 0, planet = 0, sun = 1, clouds = [], rain = [], ground = 0,
      plants = [], objects = (\<lambda>r. if r = 1 then sunObject else planetObject),
      cloudParts = (\<lambda>r. \<lparr>mass = 5, state = Floating, friends = []\<rparr>), nextRef = 2\<rparr>"

text \<open>Two clouds in one sector, 0.61 apart, with silhouettes (0.6, 0.4) and (0.7, 0.5).\<close>

definition pairWorld :: worldState where
  "pairWorld =
     emptyWorld\<lparr>clouds := [2, 3],
       objects := (\<lambda>r. if r = 1 then sunObject
                        else if r = 2 then cloudObject 7 (0.6, 0.4) (2 * pi / 1000)
                        else if r = 3 then cloudObject (7 + 61 / 100) (0.7, 0.5) (2 * pi / 900)
                        else planetObject),
       nextRef := 4\<rparr>"

text \<open>A rain particle at rest at the centre of the planet, and one above the surface.\<close>

definition centreRain :: rain where
  "centreRain = \<lparr>rain_location = (0, 0), velocity = (0, 0)\<rparr>"

definition highRain :: rain where
  "highRain = \<lparr>rain_location = (7, 0), velocity = (0, 0)\<rparr>"

definition centreRainWorld :: worldState where
  "centreRainWorld = emptyWorld\<lparr>rain := [centreRain]\<rparr>"

text \<open>A world without clouds whose planet spins the other way.\<close>

definition retrogradeWorld :: worldState where
  "retrogradeWorld =
     emptyWorld\<lparr>objects := (\<lambda>r. if r = 1 then sunObject
                  else planetObject\<lparr>rotationalVelocity := - ((2 * pi) / ticksInADay)\<rparr>)\<rparr>"


definition heavyWorld :: worldState where
  "heavyWorld =
     emptyWorld\<lparr>clouds := [2],
       objects := (\<lambda>r. if r = 1 then sunObject
                        else if r = 2 then cloudObject 7 (0.6, 0.4) (2 * pi / 1000)
                        else planetObject),
       cloudParts := (\<lambda>r. if r = 2 then \<lparr>mass = 31, state = Floating, friends = []\<rparr>
                           else \<lparr>mass = 5, state = Floating, friends = []\<rparr>),
       nextRef := 3\<rparr>"

text \<open>
  Two clouds 0.1 apart with masses 31 and 5 and no friends yet, and the same world after
  the clustering step.
\<close>

definition nearWorld :: worldState where
  "nearWorld =
     emptyWorld\<lparr>clouds := [2, 3],
       objects := (\<lambda>r. if r = 1 then sunObject
                        else if r = 2 then cloudObject 7 (0.6, 0.4) (2 * pi / 1000)
                        else if r = 3 then cloudObject (7 + 1 / 10) (0.6, 0.4) (2 * pi / 1000)
                        else planetObject),
       cloudParts := (\<lambda>r. if r = 2 then \<lparr>mass = 31, state = Floating, friends = []\<rparr>
                           else \<lparr>mass = 5, state = Floating, friends = []\<rparr>),
       nextRef := 4\<rparr>"

definition nearWorldClustered :: worldState where
  "nearWorldClustered =
     nearWorld\<lparr>cloudParts :=
       (\<lambda>r. if r = 2 then \<lparr>mass = 31, state = Floating, friends = [3]\<rparr>
             else if r = 3 then \<lparr>mass = 5, state = Floating, friends = [2]\<rparr>
             else \<lparr>mass = 5, state = Floating, friends = []\<rparr>)\<rparr>"

definition nearWorldRaining :: worldState where
  "nearWorldRaining =
     nearWorld\<lparr>cloudParts :=
       (\<lambda>r. if r = 2 then \<lparr>mass = 31, state = Raining, friends = [3]\<rparr>
             else if r = 3 then \<lparr>mass = 5, state = Raining, friends = [2]\<rparr>
             else \<lparr>mass = 5, state = Floating, friends = []\<rparr>)\<rparr>"

text \<open>One floating cloud of mass 5, and a rain particle above the surface.\<close>

definition loneWorld :: worldState where
  "loneWorld =
     emptyWorld\<lparr>clouds := [2],
       objects := (\<lambda>r. if r = 1 then sunObject
                        else if r = 2 then cloudObject 7 (0.6, 0.4) (2 * pi / 1000)
                        else planetObject),
       rain := [highRain],
       nextRef := 3\<rparr>"

definition twoFriends :: "ref \<Rightarrow> cloudPart" where
  "twoFriends r =
     (if r = 0 then \<lparr>mass = 5, state = Floating, friends = [1]\<rparr>
      else if r = 1 then \<lparr>mass = 5, state = Floating, friends = [0]\<rparr>
      else \<lparr>mass = 5, state = Floating, friends = []\<rparr>)"

section \<open>Vector algebra\<close>

lemma magnitude_nonneg: "0 \<le> magnitude v"
  by (simp add: magnitude_def)

lemma magnitude_zero_iff: "magnitude v = 0 \<longleftrightarrow> v = (0, 0)"
  by (cases v) (simp add: magnitude_def sum_power2_eq_zero_iff)

lemma unitVector_None_iff: "unitVector v = None \<longleftrightarrow> v = (0, 0)"
  by (simp add: unitVector_def divide_vec_def magnitude_zero_iff)

lemma magnitude_multiply: "magnitude (multiply v b) = magnitude v * \<bar>b\<bar>"
proof -
  have "(fst v * b)\<^sup>2 + (snd v * b)\<^sup>2 = ((fst v)\<^sup>2 + (snd v)\<^sup>2) * b\<^sup>2"
    by (simp add: power_mult_distrib distrib_right)
  then show ?thesis
    by (simp add: magnitude_def multiply_def real_sqrt_mult)
qed

lemma magnitude_unitVector: "unitVector v = Some u \<Longrightarrow> magnitude u = 1"
proof -
  assume a: "unitVector v = Some u"
  define n where "n = magnitude v"
  from a have nz: "n \<noteq> 0" and u: "u = (fst v / n, snd v / n)"
    by (auto simp: unitVector_def divide_vec_def n_def split: if_splits)
  have n2: "n\<^sup>2 = (fst v)\<^sup>2 + (snd v)\<^sup>2"
    by (simp add: n_def magnitude_def)
  have "(fst v / n)\<^sup>2 + (snd v / n)\<^sup>2 = ((fst v)\<^sup>2 + (snd v)\<^sup>2) / n\<^sup>2"
    by (simp add: power_divide add_divide_distrib)
  also have "\<dots> = 1" unfolding n2[symmetric] using nz by simp
  finally show ?thesis by (simp add: u magnitude_def)
qed

text \<open>
  C8. For a positive maximum \<open>m\<close>, \<open>clipMagnitude v m\<close> is a finite vector of magnitude
  at most \<open>m\<close>: it is \<open>v\<close> itself when the magnitude of \<open>v\<close> is at most \<open>m\<close>, and the
  unit vector of \<open>v\<close> multiplied by \<open>m\<close> otherwise.
\<close>

theorem clipMagnitude_bounded:
  assumes "0 < m"
  shows "\<exists>w. clipMagnitude v m = Some w \<and> magnitude w \<le> m
            \<and> (magnitude v \<le> m \<longrightarrow> w = v)
            \<and> (m < magnitude v \<longrightarrow> (\<exists>u. unitVector v = Some u \<and> w = multiply u m))"
proof (cases "m < magnitude v")
  case True
  then have "magnitude v \<noteq> 0" using assms by linarith
  then obtain u where u: "unitVector v = Some u"
    by (auto simp: unitVector_def divide_vec_def)
  have "magnitude (multiply u m) = m"
    using magnitude_unitVector[OF u] assms by (simp add: magnitude_multiply)
  then show ?thesis using True u by (simp add: clipMagnitude_def)
next
  case False
  then show ?thesis by (simp add: clipMagnitude_def)
qed

theorem clipMagnitude_bounded_witness:
  "(0::real) < 1 \<and> clipMagnitude (3, 4) 1 = Some (3 / 5, 4 / 5) \<and> magnitude (3 / 5, 4 / 5) \<le> 1"
proof -
  have m: "magnitude (3, 4) = 5" by (simp add: magnitude_def real_sqrt_unique)
  have u: "unitVector (3, 4) = Some (3 / 5, 4 / 5)"
    by (simp add: unitVector_def divide_vec_def m)
  have c: "clipMagnitude (3, 4) 1 = Some (3 / 5, 4 / 5)"
    by (simp add: clipMagnitude_def m u multiply_def)
  from clipMagnitude_bounded[of 1 "(3, 4)"]
  obtain w where "clipMagnitude (3, 4) 1 = Some w" and "magnitude w \<le> 1" by auto
  with c show ?thesis by simp
qed

section \<open>Collective mass\<close>

text \<open>
  C9. When \<open>B\<close> is a friend of \<open>A\<close> and \<open>A\<close> a friend of \<open>B\<close>, the collective mass of
  \<open>A\<close> holds the mass of \<open>A\<close> twice: once as its own mass and once among the masses of the
  friends of \<open>B\<close>. The other summands are the mass of \<open>B\<close>, the masses of the other
  friends of \<open>B\<close>, and the contributions of the other friends of \<open>A\<close>.
\<close>

theorem collectiveMass_counts_own_mass_twice:
  assumes "B \<in> set (friends (cp A))" and "A \<in> set (friends (cp B))"
  shows "collectiveMass cp A =
           2 * mass (cp A) + mass (cp B)
           + sum_list (map (\<lambda>c. mass (cp c)) (remove1 A (friends (cp B))))
           + sum_list (map (\<lambda>friend. mass (cp friend)
                              + sum_list (map (\<lambda>c. mass (cp c)) (friends (cp friend))))
                           (remove1 B (friends (cp A))))"
  unfolding collectiveMass_def
  by (simp add: sum_list_map_remove1[OF assms(1)] sum_list_map_remove1[OF assms(2)])

theorem collectiveMass_counts_own_mass_twice_witness:
  "(1::ref) \<in> set (friends (twoFriends 0)) \<and> (0::ref) \<in> set (friends (twoFriends 1))
   \<and> collectiveMass twoFriends 0 = 2 * mass (twoFriends 0) + mass (twoFriends 1)
   \<and> collectiveMass twoFriends 0 = 15"
  using collectiveMass_counts_own_mass_twice[of 1 twoFriends 0]
  by (simp add: twoFriends_def)

section \<open>The remainder operator\<close>

lemma remainder_nonneg:
  assumes "0 < m" and "0 \<le> x"
  shows "0 \<le> remainder x m \<and> remainder x m < m"
proof -
  have q: "0 \<le> x / m" using assms by simp
  define k where "k = \<lfloor>x / m\<rfloor>"
  have "of_int k \<le> x / m" and "x / m < of_int k + 1"
    unfolding k_def by linarith+
  then have "m * of_int k \<le> x" and "x < m * of_int k + m"
    using assms(1) by (simp_all add: field_simps)
  then show ?thesis using q by (simp add: remainder_def trunc_def k_def)
qed

lemma remainder_neg:
  assumes "0 < m" and "x < 0"
  shows "- m < remainder x m \<and> remainder x m \<le> 0"
proof -
  have q: "\<not> 0 \<le> x / m" using assms by (simp add: field_simps)
  define k where "k = \<lceil>x / m\<rceil>"
  have "x / m \<le> of_int k" and "of_int k - 1 < x / m"
    unfolding k_def by linarith+
  then have "x \<le> m * of_int k" and "m * of_int k - m < x"
    using assms(1) by (simp_all add: field_simps)
  then show ?thesis using q by (simp add: remainder_def trunc_def k_def)
qed

lemma remainder_small:
  assumes "0 < m" and "\<bar>x\<bar> < m"
  shows "remainder x m = x"
proof -
  have "- 1 < x / m" and "x / m < 1" using assms by (simp_all add: field_simps)
  then have "trunc (x / m) = 0"
    unfolding trunc_def by (auto simp: floor_eq_iff ceiling_eq_iff)
  then show ?thesis by (simp add: remainder_def)
qed

lemma cos_remainder: "cos (remainder x (pi * 2)) = cos x"
proof -
  have h: "cos (x - (2 * pi) * of_int k) = cos x" for k :: int
    by (simp only: cos_diff cos_int_2pin sin_int_2pin)
  have "pi * 2 = 2 * pi" by simp
  then show ?thesis unfolding remainder_def by (simp only: h)
qed

lemma sin_remainder: "sin (remainder x (pi * 2)) = sin x"
proof -
  have h: "sin (x - (2 * pi) * of_int k) = sin x" for k :: int
    by (simp only: sin_diff cos_int_2pin sin_int_2pin)
  have "pi * 2 = 2 * pi" by simp
  then show ?thesis unfolding remainder_def by (simp only: h)
qed

section \<open>Pass 1: kinematics\<close>

lemma tickCelestial_other: "x \<noteq> c \<Longrightarrow> tickCelestial dt c h x = h x"
  by (simp add: tickCelestial_def Let_def split: option.splits)

lemma tickCelestial_no_orbit:
  "orbit (h c) = None \<Longrightarrow>
   tickCelestial dt c h c =
     (h c)\<lparr>rotation := remainder (rotation (h c) + rotationalVelocity (h c) * dt) (pi * 2)\<rparr>"
  by (simp add: tickCelestial_def Let_def)

lemma tickCelestial_orbit:
  "orbit (h c) = Some ob \<Longrightarrow>
   tickCelestial dt c h c =
     (h c)\<lparr>rotation := remainder (rotation (h c) + rotationalVelocity (h c) * dt) (pi * 2),
           orbit := Some (ob\<lparr>orbit_rotation :=
                      remainder (orbit_rotation ob + orbit_rotationalVelocity ob * dt) (pi * 2)\<rparr>),
           location := add (orbitPoint (ob\<lparr>orbit_rotation :=
                      remainder (orbit_rotation ob + orbit_rotationalVelocity ob * dt) (pi * 2)\<rparr>))
                        (location (h (target ob)))\<rparr>"
  by (simp add: tickCelestial_def Let_def orbitPoint_def)

lemma tickCelestial_orbit_None:
  "orbit (tickCelestial dt c h x) = None \<longleftrightarrow> orbit (h x) = None"
  by (cases "x = c"; cases "orbit (h c)")
     (simp_all add: tickCelestial_other tickCelestial_no_orbit tickCelestial_orbit)

lemma tickCelestial_target:
  "map_option target (orbit (tickCelestial dt c h x)) = map_option target (orbit (h x))"
  by (cases "x = c"; cases "orbit (h c)")
     (simp_all add: tickCelestial_other tickCelestial_no_orbit tickCelestial_orbit)

lemma tickCelestial_location_no_orbit:
  "orbit (h x) = None \<Longrightarrow> location (tickCelestial dt c h x) = location (h x)"
  by (cases "x = c") (simp_all add: tickCelestial_other tickCelestial_no_orbit)

lemma tickCelestial_anchors:
  assumes "orbit (h c) = Some ob" and "orbit (h (target ob)) = None"
  shows "anchored (tickCelestial dt c h) c"
proof -
  have ne: "target ob \<noteq> c" using assms by auto
  show ?thesis
    using assms ne
    by (simp add: anchored_def tickCelestial_orbit tickCelestial_other)
qed

lemma tickCelestial_keeps_anchored:
  assumes "anchored h x" and "x \<noteq> c"
  shows "anchored (tickCelestial dt c h) x"
proof (cases "orbit (h x)")
  case None
  then show ?thesis using assms by (simp add: anchored_def tickCelestial_other)
next
  case (Some ob)
  with assms have t: "orbit (h (target ob)) = None"
    and l: "location (h x) = add (orbitPoint ob) (location (h (target ob)))"
    by (simp_all add: anchored_def)
  show ?thesis
    using Some t l assms(2)
    by (simp add: anchored_def tickCelestial_other tickCelestial_orbit_None
        tickCelestial_location_no_orbit)
qed

lemma tickCelestialObjects_orbit_None:
  "orbit (tickCelestialObjects cs dt h x) = None \<longleftrightarrow> orbit (h x) = None"
  by (induction cs arbitrary: h) (simp_all add: tickCelestial_orbit_None)

lemma tickCelestialObjects_target:
  "map_option target (orbit (tickCelestialObjects cs dt h x)) = map_option target (orbit (h x))"
  by (induction cs arbitrary: h) (simp_all add: tickCelestial_target)

lemma tickCelestialObjects_location_no_orbit:
  "orbit (h x) = None \<Longrightarrow> location (tickCelestialObjects cs dt h x) = location (h x)"
  by (induction cs arbitrary: h)
     (simp_all add: tickCelestial_location_no_orbit tickCelestial_orbit_None)

lemma tickCelestialObjects_anchors:
  assumes "orbit (h c) = Some ob" and "orbit (h (target ob)) = None"
    and "c \<in> set cs \<or> anchored h c"
  shows "anchored (tickCelestialObjects cs dt h) c"
  using assms
proof (induction cs arbitrary: h ob)
  case Nil
  then show ?case by simp
next
  case (Cons y cs)
  let ?h = "tickCelestial dt y h"
  from tickCelestial_target[of dt y h c] Cons.prems(1)
  obtain ob' where ob': "orbit (?h c) = Some ob'" and t': "target ob' = target ob"
    by (cases "orbit (?h c)") auto
  have tn: "orbit (?h (target ob')) = None"
    using Cons.prems(2) t' by (simp add: tickCelestial_orbit_None)
  have "c \<in> set cs \<or> anchored ?h c"
  proof (cases "y = c")
    case True
    then show ?thesis using tickCelestial_anchors[OF Cons.prems(1,2)] by simp
  next
    case False
    then show ?thesis using Cons.prems(3) tickCelestial_keeps_anchored[of h c y dt] by auto
  qed
  from Cons.IH[OF ob' tn this] show ?case by simp
qed

section \<open>The order of the kinematics pass\<close>

text \<open>
  C1 (as stated). The claim has every orbit target that the pass processes processed before
  the objects orbiting it. In the two-cloud world the sun is processed first and its
  target, the planet, second.
\<close>

theorem sun_processed_before_its_target:
  "\<not> targetsFirst pairWorld"
  by (simp add: targetsFirst_def things_def pairWorld_def emptyWorld_def sunObject_def)

text \<open>
  C1 (amended). The pass processes the sun, then the planet, then the clouds in the order
  of the cloud list. For every processed object whose orbit target has no orbit of its
  own, the pass leaves the location of the target as it was, and the location of the
  object after the pass is the point of its orbit at the new orbit rotation added to
  that location of the target.
\<close>

theorem tickCelestialObjects_anchored:
  assumes "c \<in> set (things ws)"
    and "orbit (objects ws c) = Some ob"
    and "orbit (objects ws (target ob)) = None"
  shows "things ws = sun ws # planet ws # clouds ws
         \<and> anchored (tickCelestialObjects (things ws) dt (objects ws)) c
         \<and> map_option target (orbit (tickCelestialObjects (things ws) dt (objects ws) c))
             = Some (target ob)
         \<and> location (tickCelestialObjects (things ws) dt (objects ws) (target ob))
             = location (objects ws (target ob))"
proof -
  have "anchored (tickCelestialObjects (things ws) dt (objects ws)) c"
    using assms by (intro tickCelestialObjects_anchors) auto
  moreover have "map_option target (orbit (tickCelestialObjects (things ws) dt (objects ws) c))
      = Some (target ob)"
    using assms(2) by (simp add: tickCelestialObjects_target)
  moreover have "location (tickCelestialObjects (things ws) dt (objects ws) (target ob))
      = location (objects ws (target ob))"
    using assms(3) by (rule tickCelestialObjects_location_no_orbit)
  ultimately show ?thesis by (simp add: things_def)
qed

theorem tickCelestialObjects_anchored_witness:
  "sun pairWorld \<in> set (things pairWorld)
   \<and> map_option target (orbit (objects pairWorld (sun pairWorld))) = Some (planet pairWorld)
   \<and> orbit (objects pairWorld (planet pairWorld)) = None
   \<and> anchored (tickCelestialObjects (things pairWorld) 1 (objects pairWorld)) (sun pairWorld)
   \<and> location (tickCelestialObjects (things pairWorld) 1 (objects pairWorld) (planet pairWorld)) = (0, 0)"
proof -
  have p: "planet pairWorld = 0" by (simp add: pairWorld_def emptyWorld_def)
  have a: "sun pairWorld \<in> set (things pairWorld)" by (simp add: things_def)
  have b: "orbit (objects pairWorld (sun pairWorld)) =
      Some \<lparr>orbit_rotation = 0, orbit_rotationalVelocity = (2 * pi) / ticksInAYear,
            target = 0, orbit_shape = Ellipse 175 200\<rparr>"
    by (simp add: pairWorld_def emptyWorld_def sunObject_def)
  have c: "orbit (objects pairWorld (target \<lparr>orbit_rotation = 0,
      orbit_rotationalVelocity = (2 * pi) / ticksInAYear,
      target = 0, orbit_shape = Ellipse 175 200\<rparr>)) = None"
    by (simp add: pairWorld_def emptyWorld_def planetObject_def)
  have l: "location (objects pairWorld 0) = (0, 0)"
    by (simp add: pairWorld_def emptyWorld_def planetObject_def)
  note t = tickCelestialObjects_anchored[OF a b c, of 1]
  have x: "anchored (tickCelestialObjects (things pairWorld) 1 (objects pairWorld)) (sun pairWorld)"
    using t by blast
  have y: "location (tickCelestialObjects (things pairWorld) 1 (objects pairWorld) 0) = (0, 0)"
    using t[THEN conjunct2, THEN conjunct2, THEN conjunct2] l by simp
  note x y
  with a b c show ?thesis by (simp add: p)
qed

section \<open>The direction of falling rain\<close>

lemma subtract_zero_iff: "subtract a b = (0, 0) \<longleftrightarrow> b = a"
  by (cases a; cases b) (auto simp: subtract_def)

lemma clipMagnitude_positive:
  assumes "0 < m"
  shows "\<exists>w. clipMagnitude v m = Some w \<and> magnitude w \<le> m"
proof (cases "m < magnitude v")
  case True
  then have "magnitude v \<noteq> 0" using assms by linarith
  then obtain u where u: "unitVector v = Some u"
    by (auto simp: unitVector_def divide_vec_def)
  have "magnitude (multiply u m) = m"
    using magnitude_unitVector[OF u] assms by (simp add: magnitude_multiply)
  then show ?thesis using True u by (simp add: clipMagnitude_def)
next
  case False
  then show ?thesis by (simp add: clipMagnitude_def)
qed

text \<open>
  The rain pass has no check of its own. Handed a particle at the planet's centre, it gives
  the zero vector to \<open>unitVector\<close>, whose result is not finite, and the particle is
  gone after the pass. The last section shows that no tick of the running program hands
  such a particle to the pass.
\<close>

lemma rain_at_centre_normalises_zero_vector:
  "magnitude (subtract (location (objects centreRainWorld (planet centreRainWorld)))
                       (rain_location centreRain)) = 0
   \<and> unitVector (subtract (location (objects centreRainWorld (planet centreRainWorld)))
                          (rain_location centreRain)) = None
   \<and> tickRainDrop (objects centreRainWorld (planet centreRainWorld)) 1 centreRain = None
   \<and> rain centreRainWorld = [centreRain]
   \<and> rain (tickRain centreRainWorld (planet centreRainWorld) 1) = []"
  by (simp add: centreRainWorld_def emptyWorld_def planetObject_def centreRain_def
      tickRain_def tickRainDrop_def unitVector_def divide_vec_def magnitude_def subtract_def
      List.map_filter_def)

text \<open>
  The vector from a particle to the planet's centre is zero exactly for a particle at the
  centre. For every other particle the direction is a unit vector, and the
  \<open>clipMagnitude\<close> of the pass returns a finite velocity of magnitude at most
  \<open>maxRainVelocity\<close>.
\<close>

lemma tickRainDrop_direction:
  "(unitVector (subtract (location p) (rain_location r)) = None \<longleftrightarrow> rain_location r = location p)
   \<and> (rain_location r = location p \<longrightarrow> tickRainDrop p dt r = None)
   \<and> (rain_location r \<noteq> location p \<longrightarrow>
        (\<exists>d v. unitVector (subtract (location p) (rain_location r)) = Some d
               \<and> magnitude d = 1
               \<and> clipMagnitude (add (velocity r) (multiply d (gravity * dt))) maxRainVelocity
                   = Some v
               \<and> magnitude v \<le> maxRainVelocity))"
proof -
  have iff: "unitVector (subtract (location p) (rain_location r)) = None
      \<longleftrightarrow> rain_location r = location p"
    by (simp add: unitVector_None_iff subtract_zero_iff)
  have centre: "tickRainDrop p dt r = None" if "rain_location r = location p"
    using that iff by (simp add: tickRainDrop_def)
  have other: "\<exists>d v. unitVector (subtract (location p) (rain_location r)) = Some d
               \<and> magnitude d = 1
               \<and> clipMagnitude (add (velocity r) (multiply d (gravity * dt))) maxRainVelocity
                   = Some v
               \<and> magnitude v \<le> maxRainVelocity" if "rain_location r \<noteq> location p"
  proof -
    from that iff obtain d where d: "unitVector (subtract (location p) (rain_location r)) = Some d"
      by auto
    have "0 < maxRainVelocity" by (simp add: maxRainVelocity_def)
    from clipMagnitude_positive[OF this]
    obtain v where "clipMagnitude (add (velocity r) (multiply d (gravity * dt))) maxRainVelocity
        = Some v" and "magnitude v \<le> maxRainVelocity" by blast
    with d magnitude_unitVector[OF d] show ?thesis by blast
  qed
  from iff centre other show ?thesis by blast
qed

lemma tickRainDrop_direction_example:
  "rain_location centreRain = location planetObject
   \<and> tickRainDrop planetObject 1 centreRain = None
   \<and> rain_location highRain \<noteq> location planetObject
   \<and> unitVector (subtract (location planetObject) (rain_location highRain)) = Some (- 1, 0)
   \<and> (\<exists>v. clipMagnitude (add (velocity highRain) (multiply (- 1, 0) (gravity * 1)))
              maxRainVelocity = Some v
            \<and> magnitude v \<le> maxRainVelocity)"
proof -
  have c: "rain_location centreRain = location planetObject"
    by (simp add: centreRain_def planetObject_def)
  have h: "rain_location highRain \<noteq> location planetObject"
    by (simp add: highRain_def planetObject_def)
  have u: "unitVector (subtract (location planetObject) (rain_location highRain)) = Some (- 1, 0)"
    by (simp add: highRain_def planetObject_def unitVector_def divide_vec_def magnitude_def
        subtract_def)
  from tickRainDrop_direction[of planetObject centreRain 1] c
  have n: "tickRainDrop planetObject 1 centreRain = None" by blast
  from tickRainDrop_direction[of planetObject highRain 1] h u
  have "\<exists>v. clipMagnitude (add (velocity highRain) (multiply (- 1, 0) (gravity * 1)))
              maxRainVelocity = Some v
            \<and> magnitude v \<le> maxRainVelocity"
    by auto
  with c h u n show ?thesis by simp
qed

section \<open>Loops, worlds without clouds, and the sign of rotations\<close>


lemma foldE_invariant:
  assumes "foldE f xs s = Inr s'" and "P s"
    and "\<And>x t t'. x \<in> set xs \<Longrightarrow> P t \<Longrightarrow> f x t = Inr t' \<Longrightarrow> P t'"
  shows "P s'"
  using assms
proof (induction xs arbitrary: s)
  case Nil
  then show ?case by simp
next
  case (Cons x xs)
  from Cons.prems(1) obtain t where t: "f x s = Inr t" and r: "foldE f xs t = Inr s'"
    by (auto split: sum.splits)
  have "P t" using Cons.prems(2,3) t by auto
  then show ?case using Cons.IH[OF r] Cons.prems(3) by auto
qed

lemma foldE_unchanged:
  "(\<And>x. x \<in> set xs \<Longrightarrow> f x s = Inr s) \<Longrightarrow> foldE f xs s = Inr s"
  by (induction xs) auto

lemma mapE_const: "mapE (\<lambda>r. Inr y) xs = Inr (map (\<lambda>r. y) xs)"
  by (induction xs) auto

lemma getCloudGroups_empty: "getCloudGroups h [] = Inr (map (\<lambda>r. []) cloudRanges)"
  by (simp add: getCloudGroups_def mapE_const)

lemma clusterClouds_empty_groups:
  assumes "\<And>g. g \<in> set gs \<Longrightarrow> g = []"
  shows "clusterClouds gs ws = Inr ws"
  unfolding clusterClouds_def
proof (rule foldE_unchanged)
  fix g assume "g \<in> set gs"
  then have "g = []" by (rule assms)
  then show "clusterGroup g ws = Inr ws" by (simp add: clusterGroup_def)
qed

lemma tickClouds_empty: "tickClouds rnd [] ws dt = Inr (ws, 0)"
proof -
  have "clusterClouds (map (\<lambda>r. []) cloudRanges) ws = Inr ws"
    by (rule clusterClouds_empty_groups) auto
  then show ?thesis by (simp add: tickClouds_def getCloudGroups_empty)
qed

lemma tickPlants_frame:
  "tickPlants ws dt = Inr ws' \<Longrightarrow> \<exists>ps. ws' = ws\<lparr>plants := ps\<rparr>"
  by (auto simp: tickPlants_def split: sum.splits)

lemma tickPlants_no_plants: "plants ws = [] \<Longrightarrow> tickPlants ws dt = Inr ws"
  by (simp add: tickPlants_def)

lemma tickWorld_no_clouds:
  "clouds ws = [] \<Longrightarrow>
   tickWorld ws now rnd =
     tickPlants (tickRain (ws\<lparr>lastTick := now,
                    objects := tickCelestialObjects (things ws) (elapsed ws now) (objects ws)\<rparr>)
                  (planet ws) (elapsed ws now)) (elapsed ws now)"
  by (simp add: tickWorld_def tickClouds_empty Let_def)

lemma tickWorld_no_clouds_kept:
  assumes "clouds ws = []" and "tickWorld ws now rnd = Inr ws'"
  shows "clouds ws' = []"
proof -
  from assms have "tickPlants (tickRain (ws\<lparr>lastTick := now,
                    objects := tickCelestialObjects (things ws) (elapsed ws now) (objects ws)\<rparr>)
                  (planet ws) (elapsed ws now)) (elapsed ws now) = Inr ws'"
    by (simp add: tickWorld_no_clouds)
  from tickPlants_frame[OF this] obtain ps where "ws' = (tickRain (ws\<lparr>lastTick := now,
                    objects := tickCelestialObjects (things ws) (elapsed ws now) (objects ws)\<rparr>)
                  (planet ws) (elapsed ws now))\<lparr>plants := ps\<rparr>" by blast
  then show ?thesis using assms(1) by (simp add: tickRain_def)
qed

text \<open>
  C10. In a world with no clouds the cloud pass makes no draw and changes nothing, so
  the spawn check is not reached. Every tick of such a world that returns leaves the
  cloud list empty, and so does every sequence of ticks; a tick of such a world with no
  plants returns.
\<close>

theorem no_clouds_stay_no_clouds:
  assumes "clouds ws = []"
  shows "tickClouds rnd (clouds ws) ws dt = Inr (ws, 0)
         \<and> (\<forall>ws'. tickWorld ws now rnd = Inr ws' \<longrightarrow> clouds ws' = [])
         \<and> (\<forall>ws'. reachable ws ws' \<longrightarrow> clouds ws' = [])
         \<and> (plants ws = [] \<longrightarrow> (\<exists>ws'. tickWorld ws now rnd = Inr ws'))"
proof -
  have r: "clouds ws' = []" if "reachable ws ws'" for ws'
    using that assms
    by (induction rule: reachable.induct) (auto intro: tickWorld_no_clouds_kept)
  have t: "\<exists>ws'. tickWorld ws now rnd = Inr ws'" if "plants ws = []"
    using that assms by (simp add: tickWorld_no_clouds tickRain_def tickPlants_no_plants)
  show ?thesis
    using assms r t by (auto simp: tickClouds_empty intro: tickWorld_no_clouds_kept)
qed

theorem no_clouds_stay_no_clouds_witness:
  "clouds emptyWorld = [] \<and> plants emptyWorld = []
   \<and> tickClouds (\<lambda>k. 0) (clouds emptyWorld) emptyWorld 1 = Inr (emptyWorld, 0)
   \<and> (\<exists>ws'. tickWorld emptyWorld 10 (\<lambda>k. 0) = Inr ws' \<and> clouds ws' = [] \<and> reachable emptyWorld ws')"
proof -
  have c: "clouds emptyWorld = []" and p: "plants emptyWorld = []"
    by (simp_all add: emptyWorld_def)
  note t = no_clouds_stay_no_clouds[OF c, of "\<lambda>k. 0" 1 10]
  from t p obtain ws' where w: "tickWorld emptyWorld 10 (\<lambda>k. 0) = Inr ws'" by blast
  have "reachable emptyWorld ws'" using reachable.start reachable.tick w by blast
  with t w c p show ?thesis by auto
qed


lemma retrogradeWorld_fields:
  "lastTick retrogradeWorld = 0" "planet retrogradeWorld = 0" "sun retrogradeWorld = 1"
  "clouds retrogradeWorld = []" "rain retrogradeWorld = []" "plants retrogradeWorld = []"
  "objects retrogradeWorld 0 = planetObject\<lparr>rotationalVelocity := - ((2 * pi) / ticksInADay)\<rparr>"
  "objects retrogradeWorld 1 = sunObject"
  by (simp_all add: retrogradeWorld_def emptyWorld_def)

text \<open>
  C6 (failing input). A world whose planet spins the other way, ticked 10 ms after its
  last tick: the rotation of the planet after the tick is negative.
\<close>

theorem retrograde_rotation_negative:
  "(case tickWorld retrogradeWorld 10 (\<lambda>k. 1 / 2) of
      Inl e \<Rightarrow> False
    | Inr ws' \<Rightarrow> rotation (objects ws' (planet ws')) = - ((2 * pi) / ticksInADay)
                 \<and> rotation (objects ws' (planet ws')) < 0)"
proof -
  have e: "elapsed retrogradeWorld 10 = 1"
    by (simp add: elapsed_def retrogradeWorld_fields timePerMs_def)
  have r: "remainder (- ((2 * pi) / ticksInADay)) (pi * 2) = - ((2 * pi) / ticksInADay)"
    by (rule remainder_small) (simp_all add: ticksInADay_def)
  have k: "rotation (tickCelestialObjects [1, 0] 1 (objects retrogradeWorld) 0)
      = - ((2 * pi) / ticksInADay)"
    by (simp add: tickCelestial_other tickCelestial_no_orbit retrogradeWorld_fields
        planetObject_def r)
  have t: "tickWorld retrogradeWorld 10 (\<lambda>k. 1 / 2) =
      Inr (retrogradeWorld\<lparr>lastTick := 10,
             objects := tickCelestialObjects [1, 0] 1 (objects retrogradeWorld),
             rain := []\<rparr>)"
    by (simp add: tickWorld_no_clouds e tickRain_def tickPlants_no_plants things_def
        retrogradeWorld_fields List.map_filter_def)
  show ?thesis using k by (simp add: t retrogradeWorld_fields ticksInADay_def)
qed

section \<open>Pass 2: what the clustering and the loop over the clouds keep\<close>



lemma set_setAdd: "set (setAdd x xs) = insert x (set xs)"
  by (auto simp: setAdd_def)

text \<open>What one comparison of the clustering loop does when it returns.\<close>

lemma clusterPair_cases:
  assumes "clusterPair c oc ws = Inr ws'"
  shows "ws' = ws
    \<or> (c \<noteq> oc \<and> (\<exists>oo co. orbit (objects ws oc) = Some oo \<and> orbit (objects ws c) = Some co
         \<and> ws' = ws\<lparr>objects := (objects ws)(oc := (objects ws oc)\<lparr>orbit :=
                       Some (oo\<lparr>orbit_rotationalVelocity := orbit_rotationalVelocity co\<rparr>)\<rparr>),
                     cloudParts := ((cloudParts ws)(oc := (cloudParts ws oc)\<lparr>friends :=
                         setAdd c (friends (cloudParts ws oc))\<rparr>))
                       (c := (cloudParts ws c)\<lparr>friends := setAdd oc (friends (cloudParts ws c))\<rparr>)\<rparr>))"
  using assms
  by (auto simp: clusterPair_def Let_def split: shape.splits if_splits option.splits)



lemma clusterClouds_invariant:
  assumes "clusterClouds gs ws = Inr ws'" and "P ws"
    and "\<And>g c oc t t'. g \<in> set gs \<Longrightarrow> c \<in> set g \<Longrightarrow> oc \<in> set g \<Longrightarrow> P t
           \<Longrightarrow> clusterPair c oc t = Inr t' \<Longrightarrow> P t'"
  shows "P ws'"
proof -
  have inner: "P t'" if "g \<in> set gs" "c \<in> set g" "P t"
    "foldE (\<lambda>otherCloud. clusterPair c otherCloud) g t = Inr t'" for g c t t'
    using that(4,3) by (rule foldE_invariant) (use that(1,2) assms(3) in blast)
  have middle: "P t'" if "g \<in> set gs" "P t" "clusterGroup g t = Inr t'" for g t t'
    using that(3)[unfolded clusterGroup_def] that(2)
    by (rule foldE_invariant) (use that(1) inner in blast)
  show ?thesis
    using assms(1)[unfolded clusterClouds_def] assms(2)
    by (rule foldE_invariant) (use middle in blast)
qed


lemma setRaining_apply:
  "setRaining f cp x = (if x = f then (cp x)\<lparr>state := Raining\<rparr> else cp x)"
  by (simp add: setRaining_def)

lemma fold_setRaining:
  "fold setRaining fs cp x = (cp x)\<lparr>state := (if x \<in> set fs then Raining else state (cp x))\<rparr>"
  by (induction fs arbitrary: cp) (auto simp: setRaining_apply)

lemma startRaining_apply:
  "startRaining c cp x =
     (cp x)\<lparr>state := (if x = c \<or> x \<in> set (friends (cp c)) then Raining else state (cp x))\<rparr>"
  by (simp add: startRaining_def fold_setRaining setRaining_apply)

text \<open>What the branch of a raining cloud does when it returns.\<close>

lemma rainingCloud_cases:
  assumes "rainingCloud rnd dt c cm (ws, rem, k) = Inr (ws', rem', k')"
  shows "(ws' = ws \<and> \<not> rnd k < min (0.1 * dt * max (min (0.01 * cm\<^sup>2) 1.0) 0.2) 0.2
           \<or> (\<exists>r. ws' = ws\<lparr>cloudParts := (cloudParts ws)(c := (cloudParts ws c)\<lparr>mass :=
                              mass (cloudParts ws c) - 0.1\<rparr>),
                          rain := rain ws @ [r]\<rparr>
                 \<and> rnd k < min (0.1 * dt * max (min (0.01 * cm\<^sup>2) 1.0) 0.2) 0.2))
         \<and> rem' = (if mass (cloudParts ws' c) > 0 then rem @ [c] else rem)"
  using assms
  by (auto simp: rainingCloud_def Let_def split: option.splits shape.splits if_splits)

text \<open>What one iteration of the loop over the clouds does when it returns.\<close>

lemma tickCloud_cases:
  assumes "tickCloud rnd dt n c (ws, rem, k) = Inr (ws', rem', k')"
  obtains w1 w2 rem2 k2 where
    "w1 = (if collectiveMass (cloudParts ws) c > rainThreshold
           then ws\<lparr>cloudParts := startRaining c (cloudParts ws)\<rparr> else ws)"
    and "if state (cloudParts w1 c) = Raining
         then rainingCloud rnd dt c (collectiveMass (cloudParts ws) c) (w1, rem, k) = Inr (w2, rem2, k2)
         else w2 = w1 \<and> rem2 = rem @ [c] \<and> k2 = k"
    and "(ws' = w2\<lparr>clouds := rem2\<rparr> \<and> rem' = rem2 \<and> \<not> (n < 20 \<and> rnd k2 < 0.05))
         \<or> (\<exists>new. ws' = (allocCloud (w2\<lparr>clouds := rem2\<rparr>) new)\<lparr>clouds := rem2 @ [nextRef w2]\<rparr>
                \<and> rem' = rem2 @ [nextRef w2] \<and> n < 20 \<and> rnd k2 < 0.05)"
  using assms
  by (auto simp: tickCloud_def Let_def split: sum.splits if_splits prod.splits)




text \<open>An iteration writes no object allocated before it, and allocates at most one.\<close>

lemma tickCloud_objects:
  assumes "tickCloud rnd dt n c (ws, rem, k) = Inr (ws', rem', k')"
  shows "nextRef ws \<le> nextRef ws' \<and> planet ws' = planet ws \<and> sun ws' = sun ws
         \<and> lastTick ws' = lastTick ws \<and> plants ws' = plants ws \<and> clouds ws' = rem'
         \<and> (\<forall>x. x < nextRef ws \<longrightarrow> objects ws' x = objects ws x
                \<and> friends (cloudParts ws' x) = friends (cloudParts ws x))"
  using assms
proof (cases rule: tickCloud_cases)
  case (1 w1 w2 rem2 k2)
  have a: "nextRef w1 = nextRef ws \<and> planet w1 = planet ws \<and> sun w1 = sun ws
      \<and> lastTick w1 = lastTick ws \<and> plants w1 = plants ws \<and> objects w1 = objects ws
      \<and> (\<forall>x. friends (cloudParts w1 x) = friends (cloudParts ws x))"
    using 1(1) by (auto simp: startRaining_apply)
  have b: "nextRef w2 = nextRef w1 \<and> planet w2 = planet w1 \<and> sun w2 = sun w1
      \<and> lastTick w2 = lastTick w1 \<and> plants w2 = plants w1 \<and> objects w2 = objects w1
      \<and> (\<forall>x. friends (cloudParts w2 x) = friends (cloudParts w1 x))"
  proof (cases "state (cloudParts w1 c) = Raining")
    case True
    with 1(2) have "rainingCloud rnd dt c (collectiveMass (cloudParts ws) c) (w1, rem, k)
        = Inr (w2, rem2, k2)" by simp
    from rainingCloud_cases[OF this] show ?thesis by auto
  next
    case False
    with 1(2) show ?thesis by simp
  qed
  have c: "nextRef w2 \<le> nextRef ws' \<and> planet ws' = planet w2 \<and> sun ws' = sun w2
      \<and> lastTick ws' = lastTick w2 \<and> plants ws' = plants w2 \<and> clouds ws' = rem'
      \<and> (\<forall>x. x < nextRef w2 \<longrightarrow> objects ws' x = objects w2 x
                \<and> friends (cloudParts ws' x) = friends (cloudParts w2 x))"
    using 1(3) by (auto simp: allocCloud_def)
  from a b c show ?thesis by simp
qed


text \<open>An iteration with no elapsed time.\<close>

lemma tickCloud_still:
  assumes "tickCloud rnd 0 n c (ws, rem, k) = Inr (ws', rem', k')"
    and "\<And>j. 0 \<le> rnd j"
  shows "rain ws' = rain ws
         \<and> (\<forall>x. x < nextRef ws \<longrightarrow> mass (cloudParts ws' x) = mass (cloudParts ws x))
         \<and> (0 < mass (cloudParts ws c) \<longrightarrow> rem' = rem @ [c] \<or> (n < 20 \<and> (\<exists>j. rnd j < 0.05)))"
  using assms(1)
proof (cases rule: tickCloud_cases)
  case (1 w1 w2 rem2 k2)
  have a: "rain w1 = rain ws \<and> nextRef w1 = nextRef ws
      \<and> (\<forall>x. mass (cloudParts w1 x) = mass (cloudParts ws x))"
    using 1(1) by (auto simp: startRaining_apply)
  have b: "rain w2 = rain w1 \<and> nextRef w2 = nextRef w1
      \<and> (\<forall>x. mass (cloudParts w2 x) = mass (cloudParts w1 x))
      \<and> (0 < mass (cloudParts w1 c) \<longrightarrow> rem2 = rem @ [c])"
  proof (cases "state (cloudParts w1 c) = Raining")
    case True
    with 1(2) have "rainingCloud rnd 0 c (collectiveMass (cloudParts ws) c) (w1, rem, k)
        = Inr (w2, rem2, k2)" by simp
    from rainingCloud_cases[OF this] assms(2)[of k] show ?thesis
      by (auto simp: not_less[symmetric])
  next
    case False
    with 1(2) show ?thesis by simp
  qed
  have c: "rain ws' = rain w2
      \<and> (\<forall>x. x < nextRef w2 \<longrightarrow> mass (cloudParts ws' x) = mass (cloudParts w2 x))
      \<and> (rem' = rem2 \<or> (n < 20 \<and> (\<exists>j. rnd j < 0.05)))"
    using 1(3) by (auto simp: allocCloud_def)
  from a b c show ?thesis by auto
qed

lemma cloudGroup_subset: "cloudGroup h r cs = Inr g \<Longrightarrow> set g \<subseteq> set cs"
  by (induction cs arbitrary: g) (auto split: option.splits sum.splits if_splits)

lemma mapE_members:
  "mapE f xs = Inr ys \<Longrightarrow> y \<in> set ys \<Longrightarrow> \<exists>x \<in> set xs. f x = Inr y"
  by (induction xs arbitrary: ys) (auto split: sum.splits)

lemma getCloudGroups_subset:
  "getCloudGroups h cs = Inr gs \<Longrightarrow> g \<in> set gs \<Longrightarrow> set g \<subseteq> set cs"
  unfolding getCloudGroups_def
  by (drule (1) mapE_members) (auto dest: cloudGroup_subset)

text \<open>What the clustering keeps, and which friends it can add.\<close>

lemma clusterPair_frame:
  assumes "clusterPair c oc ws = Inr ws'"
  shows "nextRef ws' = nextRef ws \<and> planet ws' = planet ws \<and> sun ws' = sun ws
         \<and> lastTick ws' = lastTick ws \<and> plants ws' = plants ws \<and> clouds ws' = clouds ws
         \<and> rain ws' = rain ws
         \<and> (\<forall>x. location (objects ws' x) = location (objects ws x)
                \<and> shape (objects ws' x) = shape (objects ws x)
                \<and> mass (cloudParts ws' x) = mass (cloudParts ws x)
                \<and> state (cloudParts ws' x) = state (cloudParts ws x))"
  using clusterPair_cases[OF assms] by auto

lemma clusterPair_friends:
  assumes "clusterPair c oc ws = Inr ws'"
  shows "set (friends (cloudParts ws' x)) \<subseteq> set (friends (cloudParts ws x)) \<union> {c, oc}"
  using clusterPair_cases[OF assms] by (auto simp: set_setAdd split: if_splits)

lemma clusterClouds_frame:
  assumes "clusterClouds gs ws = Inr ws'"
  shows "nextRef ws' = nextRef ws \<and> planet ws' = planet ws \<and> sun ws' = sun ws
         \<and> lastTick ws' = lastTick ws \<and> plants ws' = plants ws \<and> clouds ws' = clouds ws
         \<and> rain ws' = rain ws
         \<and> (\<forall>x. location (objects ws' x) = location (objects ws x)
                \<and> shape (objects ws' x) = shape (objects ws x)
                \<and> mass (cloudParts ws' x) = mass (cloudParts ws x)
                \<and> state (cloudParts ws' x) = state (cloudParts ws x))"
  using assms
proof (rule clusterClouds_invariant)
  show "nextRef ws = nextRef ws \<and> planet ws = planet ws \<and> sun ws = sun ws
         \<and> lastTick ws = lastTick ws \<and> plants ws = plants ws \<and> clouds ws = clouds ws
         \<and> rain ws = rain ws
         \<and> (\<forall>x. location (objects ws x) = location (objects ws x)
                \<and> shape (objects ws x) = shape (objects ws x)
                \<and> mass (cloudParts ws x) = mass (cloudParts ws x)
                \<and> state (cloudParts ws x) = state (cloudParts ws x))"
    by simp
next
  fix g c oc t t'
  assume t: "nextRef t = nextRef ws \<and> planet t = planet ws \<and> sun t = sun ws
         \<and> lastTick t = lastTick ws \<and> plants t = plants ws \<and> clouds t = clouds ws
         \<and> rain t = rain ws
         \<and> (\<forall>x. location (objects t x) = location (objects ws x)
                \<and> shape (objects t x) = shape (objects ws x)
                \<and> mass (cloudParts t x) = mass (cloudParts ws x)
                \<and> state (cloudParts t x) = state (cloudParts ws x))"
    and s: "clusterPair c oc t = Inr t'"
  from clusterPair_frame[OF s] t
  show "nextRef t' = nextRef ws \<and> planet t' = planet ws \<and> sun t' = sun ws
         \<and> lastTick t' = lastTick ws \<and> plants t' = plants ws \<and> clouds t' = clouds ws
         \<and> rain t' = rain ws
         \<and> (\<forall>x. location (objects t' x) = location (objects ws x)
                \<and> shape (objects t' x) = shape (objects ws x)
                \<and> mass (cloudParts t' x) = mass (cloudParts ws x)
                \<and> state (cloudParts t' x) = state (cloudParts ws x))"
    by simp
qed

lemma clusterClouds_friends:
  assumes "clusterClouds gs ws = Inr ws'" and "\<And>g. g \<in> set gs \<Longrightarrow> set g \<subseteq> S"
  shows "\<forall>x. set (friends (cloudParts ws' x)) \<subseteq> set (friends (cloudParts ws x)) \<union> S"
  using assms(1)
proof (rule clusterClouds_invariant)
  show "\<forall>x. set (friends (cloudParts ws x)) \<subseteq> set (friends (cloudParts ws x)) \<union> S"
    by simp
next
  fix g c oc t t'
  assume g: "g \<in> set gs" "c \<in> set g" "oc \<in> set g"
    and t: "\<forall>x. set (friends (cloudParts t x)) \<subseteq> set (friends (cloudParts ws x)) \<union> S"
    and s: "clusterPair c oc t = Inr t'"
  have "c \<in> S" "oc \<in> S" using g assms(2) by auto
  with clusterPair_friends[OF s] t
  show "\<forall>x. set (friends (cloudParts t' x)) \<subseteq> set (friends (cloudParts ws x)) \<union> S"
    by blast
qed


lemma cloudLoop_objects:
  assumes "foldE (tickCloud rnd dt n) cs st = Inr st'"
  shows "nextRef (fst st) \<le> nextRef (fst st') \<and> planet (fst st') = planet (fst st)
         \<and> sun (fst st') = sun (fst st) \<and> lastTick (fst st') = lastTick (fst st)
         \<and> plants (fst st') = plants (fst st)
         \<and> (\<forall>x. x < nextRef (fst st) \<longrightarrow> objects (fst st') x = objects (fst st) x
                \<and> friends (cloudParts (fst st') x) = friends (cloudParts (fst st) x))"
  using assms
proof (rule foldE_invariant)
  show "nextRef (fst st) \<le> nextRef (fst st) \<and> planet (fst st) = planet (fst st)
         \<and> sun (fst st) = sun (fst st) \<and> lastTick (fst st) = lastTick (fst st)
         \<and> plants (fst st) = plants (fst st)
         \<and> (\<forall>x. x < nextRef (fst st) \<longrightarrow> objects (fst st) x = objects (fst st) x
                \<and> friends (cloudParts (fst st) x) = friends (cloudParts (fst st) x))"
    by simp
next
  fix x t t'
  assume t: "nextRef (fst st) \<le> nextRef (fst t) \<and> planet (fst t) = planet (fst st)
         \<and> sun (fst t) = sun (fst st) \<and> lastTick (fst t) = lastTick (fst st)
         \<and> plants (fst t) = plants (fst st)
         \<and> (\<forall>x. x < nextRef (fst st) \<longrightarrow> objects (fst t) x = objects (fst st) x
                \<and> friends (cloudParts (fst t) x) = friends (cloudParts (fst st) x))"
    and s: "tickCloud rnd dt n x t = Inr t'"
  obtain w r k w' r' k' where e: "t = (w, r, k)" "t' = (w', r', k')"
    by (cases t; cases t') auto
  from tickCloud_objects[OF s[unfolded e]] t
  show "nextRef (fst st) \<le> nextRef (fst t') \<and> planet (fst t') = planet (fst st)
         \<and> sun (fst t') = sun (fst st) \<and> lastTick (fst t') = lastTick (fst st)
         \<and> plants (fst t') = plants (fst st)
         \<and> (\<forall>x. x < nextRef (fst st) \<longrightarrow> objects (fst t') x = objects (fst st) x
                \<and> friends (cloudParts (fst t') x) = friends (cloudParts (fst st) x))"
    by (simp add: e)
qed

section \<open>The passes of a tick\<close>

text \<open>The passes of a tick that returns.\<close>

lemma tickWorld_stages:
  assumes "tickWorld ws now rnd = Inr ws'"
  obtains gs w1 st ps where
    "getCloudGroups (objects (afterKinematics ws now)) (clouds ws) = Inr gs"
    and "clusterClouds gs (afterKinematics ws now) = Inr w1"
    and "foldE (tickCloud rnd (elapsed ws now) (length (clouds ws))) (clouds ws) (w1, [], 0) = Inr st"
    and "ws' = (tickRain (fst st) (planet ws) (elapsed ws now))\<lparr>plants := ps\<rparr>"
proof -
  from assms obtain r where
    r: "tickClouds rnd (clouds ws) (afterKinematics ws now) (elapsed ws now) = Inr r"
    and p: "tickPlants (tickRain (fst r) (planet ws) (elapsed ws now)) (elapsed ws now) = Inr ws'"
    by (auto simp: tickWorld_def afterKinematics_def Let_def split: sum.splits)
  from r obtain gs w1 st where
    "getCloudGroups (objects (afterKinematics ws now)) (clouds ws) = Inr gs"
    "clusterClouds gs (afterKinematics ws now) = Inr w1"
    "foldE (tickCloud rnd (elapsed ws now) (length (clouds ws))) (clouds ws) (w1, [], 0) = Inr st"
    "fst r = fst st"
    by (auto simp: tickClouds_def split: sum.splits)
  moreover from tickPlants_frame[OF p] obtain ps where
    "ws' = (tickRain (fst r) (planet ws) (elapsed ws now))\<lparr>plants := ps\<rparr>" by blast
  ultimately show ?thesis using that by simp
qed




section \<open>Friend sets across ticks\<close>

lemma tickWorld_passes:
  "tickWorld ws now rnd =
     (case tickClouds rnd (clouds ws) (afterKinematics ws now) (elapsed ws now) of
        Inl e \<Rightarrow> Inl e
      | Inr r \<Rightarrow> tickPlants (tickRain (fst r) (planet ws) (elapsed ws now)) (elapsed ws now))"
  by (simp add: tickWorld_def afterKinematics_def Let_def)

lemma remainder_zero: "remainder 0 m = 0"
  by (simp add: remainder_def trunc_def)

lemma upt10: "[0..<10] = [0, Suc 0, 2, 3, 4, 5, 6, 7, 8, 9]"
  by code_simp











section \<open>The proximity test of the clustering step\<close>

lemma pairWorld_fields:
  "lastTick pairWorld = 0" "planet pairWorld = 0" "sun pairWorld = 1"
  "clouds pairWorld = [2, 3]" "rain pairWorld = []" "plants pairWorld = []" "nextRef pairWorld = 4"
  "objects pairWorld 0 = planetObject" "objects pairWorld 1 = sunObject"
  "objects pairWorld 2 = cloudObject 7 (0.6, 0.4) (2 * pi / 1000)"
  "objects pairWorld 3 = cloudObject (7 + 61 / 100) (0.7, 0.5) (2 * pi / 900)"
  "cloudParts pairWorld = (\<lambda>r. \<lparr>mass = 5, state = Floating, friends = []\<rparr>)"
  by (simp_all add: pairWorld_def emptyWorld_def)

lemma pairWorld_groups:
  "getCloudGroups (objects pairWorld) [2, 3] = Inr [[2, 3], [], [], [], [], [], [], [], [], [2, 3]]"
  by (simp add: getCloudGroups_def cloudRanges_def cloudRangeCount_def upt10 cloudRange_def
      pairWorld_fields cloudObject_def inCloudRange_def Let_def)

text \<open>The condition of \<open>clusterPair\<close> is \<open>codeProximity\<close>.\<close>

lemma clusterPair_codeProximity:
  assumes "clusterPair c oc ws = Inr ws'" and "c \<noteq> oc"
  shows "if codeProximity (objects ws) c oc
         then oc \<in> set (friends (cloudParts ws' c)) \<and> c \<in> set (friends (cloudParts ws' oc))
              \<and> map_option orbit_rotationalVelocity (orbit (objects ws' oc))
                  = map_option orbit_rotationalVelocity (orbit (objects ws c))
         else ws' = ws"
  using assms
  by (auto simp: clusterPair_def codeProximity_def distanceBetween_def Let_def set_setAdd
      split: shape.splits option.splits if_splits)

text \<open>
  C2 (failing input). Two clouds of one sector, 0.61 apart, the first with silhouette
  (0.6, 0.4) and the second with (0.7, 0.5). In neither order is the distance below the
  minimum component of the first plus a quarter of the minimum component of the other
  (0.525 and 0.6). The clustering step makes them friends and overwrites the angular
  velocity of the first with that of the second, because it compares with 0.5 + 0.5 / 4.
\<close>

theorem clustering_ignores_other_shape:
  "(case getCloudGroups (objects pairWorld) (clouds pairWorld) of
      Inl e \<Rightarrow> False
    | Inr gs \<Rightarrow>
        (case clusterClouds gs pairWorld of
           Inl e \<Rightarrow> False
         | Inr w \<Rightarrow> friends (cloudParts w 2) = [3] \<and> friends (cloudParts w 3) = [2]
                    \<and> map_option orbit_rotationalVelocity (orbit (objects w 2))
                        = map_option orbit_rotationalVelocity (orbit (objects pairWorld 3))))
   \<and> friends (cloudParts pairWorld 2) = [] \<and> friends (cloudParts pairWorld 3) = []
   \<and> distanceBetween (objects pairWorld) 2 3 = 61 / 100
   \<and> \<not> specProximity (objects pairWorld) 2 3 \<and> \<not> specProximity (objects pairWorld) 3 2
   \<and> codeProximity (objects pairWorld) 3 2"
proof -
  have "(case clusterClouds [[2, 3], [], [], [], [], [], [], [], [], [2, 3]] pairWorld of
      Inl e \<Rightarrow> False
    | Inr w \<Rightarrow> friends (cloudParts w 2) = [3] \<and> friends (cloudParts w 3) = [2]
               \<and> map_option orbit_rotationalVelocity (orbit (objects w 2)) = Some (2 * pi / 900))"
    by (simp add: clusterClouds_def clusterGroup_def clusterPair_def pairWorld_fields cloudObject_def
        Let_def magnitude_def subtract_def setAdd_def)
  then obtain w where
    "clusterClouds [[2, 3], [], [], [], [], [], [], [], [], [2, 3]] pairWorld = Inr w"
    "friends (cloudParts w 2) = [3]" "friends (cloudParts w 3) = [2]"
    "map_option orbit_rotationalVelocity (orbit (objects w 2)) = Some (2 * pi / 900)"
    by (auto split: sum.splits)
  then show ?thesis
    by (simp add: pairWorld_groups pairWorld_fields distanceBetween_def specProximity_def
        codeProximity_def cloudObject_def magnitude_def subtract_def)
qed

section \<open>The rain threshold\<close>





lemma heavyWorld_fields:
  "lastTick heavyWorld = 0" "planet heavyWorld = 0" "sun heavyWorld = 1"
  "clouds heavyWorld = [2]" "rain heavyWorld = []" "plants heavyWorld = []"
  "nextRef heavyWorld = 3"
  "objects heavyWorld 0 = planetObject" "objects heavyWorld 1 = sunObject"
  "objects heavyWorld 2 = cloudObject 7 (0.6, 0.4) (2 * pi / 1000)"
  "cloudParts heavyWorld 2 = \<lparr>mass = 31, state = Floating, friends = []\<rparr>"
  by (simp_all add: heavyWorld_def emptyWorld_def)

lemma heavyWorld_kinematics: "afterKinematics heavyWorld 0 = heavyWorld"
proof -
  have "tickCelestialObjects [1, 0, 2] 0 (objects heavyWorld) = objects heavyWorld"
    by (rule ext)
       (simp add: tickCelestial_def heavyWorld_def emptyWorld_def cloudObject_def sunObject_def
          planetObject_def Let_def circle_calcRotationalPoint_def ellipse_calcRotationalPoint_def
          add_def remainder_zero)
  then show ?thesis
    by (simp add: afterKinematics_def things_def elapsed_def heavyWorld_fields)
qed

lemma heavyWorld_groups:
  "getCloudGroups (objects heavyWorld) [2] = Inr [[2], [], [], [], [], [], [], [], [], [2]]"
  by (simp add: getCloudGroups_def cloudRanges_def cloudRangeCount_def upt10 cloudRange_def
      heavyWorld_fields cloudObject_def inCloudRange_def Let_def)

lemma heavyWorld_cluster:
  "clusterClouds [[2], [], [], [], [], [], [], [], [], [2]] heavyWorld = Inr heavyWorld"
  by (simp add: clusterClouds_def clusterGroup_def clusterPair_def heavyWorld_fields cloudObject_def)

lemma heavyWorld_before:
  "beforeIteration heavyWorld 0 rnd 0 = Inr (heavyWorld, [], 0)"
  by (simp add: beforeIteration_def heavyWorld_kinematics heavyWorld_fields heavyWorld_groups
      heavyWorld_cluster)

lemma heavyWorld_tick:
  "tickWorld heavyWorld 0 (\<lambda>k. 1 / 2) =
     Inr (heavyWorld\<lparr>clouds := [2],
            cloudParts := (cloudParts heavyWorld)(2 := \<lparr>mass = 31, state = Raining, friends = []\<rparr>)\<rparr>)"
proof -
  have "tickClouds (\<lambda>k. 1 / 2) [2] heavyWorld 0 =
     Inr (heavyWorld\<lparr>cloudParts := (cloudParts heavyWorld)
                      (2 := \<lparr>mass = 31, state = Raining, friends = []\<rparr>), clouds := [2]\<rparr>, 2)"
    by (simp add: tickClouds_def heavyWorld_groups heavyWorld_cluster tickCloud_def
        rainingCloud_def collectiveMass_def heavyWorld_fields rainThreshold_def Let_def
        startRaining_def setRaining_def cloudObject_def)
  then show ?thesis
    by (simp add: tickWorld_passes heavyWorld_kinematics heavyWorld_fields
        elapsed_def tickRain_def tickPlants_def List.map_filter_def)
qed


lemma nearWorld_fields:
  "lastTick nearWorld = 0" "planet nearWorld = 0" "sun nearWorld = 1"
  "clouds nearWorld = [2, 3]" "rain nearWorld = []" "plants nearWorld = []"
  "nextRef nearWorld = 4"
  "objects nearWorld 0 = planetObject" "objects nearWorld 1 = sunObject"
  "objects nearWorld 2 = cloudObject 7 (0.6, 0.4) (2 * pi / 1000)"
  "objects nearWorld 3 = cloudObject (7 + 1 / 10) (0.6, 0.4) (2 * pi / 1000)"
  "cloudParts nearWorld 2 = \<lparr>mass = 31, state = Floating, friends = []\<rparr>"
  "cloudParts nearWorld 3 = \<lparr>mass = 5, state = Floating, friends = []\<rparr>"
  by (simp_all add: nearWorld_def emptyWorld_def)

lemma nearWorld_kinematics: "afterKinematics nearWorld 0 = nearWorld"
proof -
  have "tickCelestialObjects [1, 0, 2, 3] 0 (objects nearWorld) = objects nearWorld"
    by (rule ext)
       (simp add: tickCelestial_def nearWorld_def emptyWorld_def cloudObject_def sunObject_def
          planetObject_def Let_def circle_calcRotationalPoint_def ellipse_calcRotationalPoint_def
          add_def remainder_zero)
  then show ?thesis
    by (simp add: afterKinematics_def things_def elapsed_def nearWorld_fields)
qed

lemma nearWorld_groups:
  "getCloudGroups (objects nearWorld) [2, 3] = Inr [[2, 3], [], [], [], [], [], [], [], [], [2, 3]]"
  by (simp add: getCloudGroups_def cloudRanges_def cloudRangeCount_def upt10 cloudRange_def
      nearWorld_fields cloudObject_def inCloudRange_def Let_def)

lemma nearWorld_cluster:
  "clusterClouds [[2, 3], [], [], [], [], [], [], [], [], [2, 3]] nearWorld = Inr nearWorldClustered"
  apply (simp add: clusterClouds_def clusterGroup_def clusterPair_def cloudObject_def
      Let_def magnitude_def subtract_def setAdd_def nearWorldClustered_def nearWorld_def emptyWorld_def)
  apply (auto simp: fun_eq_iff cloudObject_def)
  done


lemma nearWorldClustered_fields:
  "planet nearWorldClustered = 0" "clouds nearWorldClustered = [2, 3]"
  "rain nearWorldClustered = []" "plants nearWorldClustered = []"
  "nextRef nearWorldClustered = 4"
  "objects nearWorldClustered = objects nearWorld"
  "cloudParts nearWorldClustered 2 = \<lparr>mass = 31, state = Floating, friends = [3]\<rparr>"
  "cloudParts nearWorldClustered 3 = \<lparr>mass = 5, state = Floating, friends = [2]\<rparr>"
  by (simp_all add: nearWorldClustered_def nearWorld_fields)


lemma nearWorld_clouds:
  "tickClouds (\<lambda>k. 1 / 2) [2, 3] nearWorld 0 = Inr (nearWorldRaining, 4)"
  apply (simp add: tickClouds_def nearWorld_groups nearWorld_cluster tickCloud_def
        rainingCloud_def collectiveMass_def nearWorldClustered_fields nearWorld_fields
        rainThreshold_def Let_def startRaining_def setRaining_def cloudObject_def)
  apply (auto simp: nearWorldRaining_def nearWorldClustered_def nearWorld_def emptyWorld_def fun_eq_iff)
  done

lemma nearWorld_tick: "tickWorld nearWorld 0 (\<lambda>k. 1 / 2) = Inr nearWorldRaining"
  by (simp add: tickWorld_passes nearWorld_kinematics nearWorld_fields nearWorld_clouds
      elapsed_def tickRain_def tickPlants_def List.map_filter_def nearWorldRaining_def)



section \<open>A tick with no elapsed time\<close>

text \<open>The kinematics pass with no elapsed time.\<close>

lemma tickCelestial_shape: "shape (tickCelestial dt c h x) = shape (h x)"
  by (cases "x = c"; cases "orbit (h c)")
     (simp_all add: tickCelestial_other tickCelestial_no_orbit tickCelestial_orbit)

lemma tickCelestialObjects_shape: "shape (tickCelestialObjects cs dt h x) = shape (h x)"
  by (induction cs arbitrary: h) (simp_all add: tickCelestial_shape)

lemma orbitPoint_remainder:
  "orbitPoint (ob\<lparr>orbit_rotation := remainder (orbit_rotation ob) (pi * 2)\<rparr>) = orbitPoint ob"
  by (cases "orbit_shape ob")
     (simp_all add: orbitPoint_def circle_calcRotationalPoint_def ellipse_calcRotationalPoint_def
        cos_remainder sin_remainder)

lemma tickCelestial_still:
  assumes "anchored h c"
  shows "location (tickCelestial 0 c h x) = location (h x)"
proof (cases "x = c")
  case False
  then show ?thesis by (simp add: tickCelestial_other)
next
  case True
  show ?thesis
  proof (cases "orbit (h c)")
    case None
    then show ?thesis using True by (simp add: tickCelestial_no_orbit)
  next
    case (Some ob)
    with assms have "location (h c) = add (orbitPoint ob) (location (h (target ob)))"
      by (simp add: anchored_def)
    then show ?thesis using True Some by (simp add: tickCelestial_orbit orbitPoint_remainder)
  qed
qed

lemma tickCelestial_all_anchored:
  assumes "anchored h c" and "anchored h y"
  shows "anchored (tickCelestial dt c h) y"
proof (cases "y = c")
  case False
  with assms(2) show ?thesis by (rule tickCelestial_keeps_anchored)
next
  case True
  show ?thesis
  proof (cases "orbit (h c)")
    case None
    then show ?thesis using True
      by (simp add: anchored_def tickCelestial_no_orbit)
  next
    case (Some ob)
    with assms(1) have "orbit (h (target ob)) = None" by (simp add: anchored_def)
    with Some show ?thesis using True by (simp add: tickCelestial_anchors)
  qed
qed

lemma tickCelestialObjects_still:
  assumes "\<And>c. c \<in> set cs \<Longrightarrow> anchored h c"
  shows "location (tickCelestialObjects cs 0 h x) = location (h x)"
  using assms
proof (induction cs arbitrary: h)
  case Nil
  then show ?case by simp
next
  case (Cons y cs)
  have "location (tickCelestialObjects cs 0 (tickCelestial 0 y h) x)
      = location (tickCelestial 0 y h x)"
    by (rule Cons.IH) (simp add: Cons.prems tickCelestial_all_anchored)
  then show ?case by (simp add: tickCelestial_still Cons.prems)
qed

text \<open>The rain pass with no elapsed time.\<close>

lemma multiply_zero: "multiply v 0 = (0, 0)"
  by (simp add: multiply_def)

lemma add_zero: "add v (0, 0) = v"
  by (simp add: add_def)

lemma tickRainDrop_still:
  assumes "aloft p r"
  shows "\<exists>v. tickRainDrop p 0 r = Some \<lparr>rain_location = rain_location r, velocity = v\<rparr>"
proof -
  from assms have ne: "rain_location r \<noteq> location p"
    and g: "greaterThanShape (magnitude (subtract (rain_location r) (location p))) (shape p)"
    by (simp_all add: aloft_def)
  from ne obtain d where d: "unitVector (subtract (location p) (rain_location r)) = Some d"
    using unitVector_None_iff subtract_zero_iff by (metis not_Some_eq)
  have "0 < maxRainVelocity" by (simp add: maxRainVelocity_def)
  from clipMagnitude_positive[OF this]
  obtain v where v: "clipMagnitude (velocity r) maxRainVelocity = Some v" by blast
  show ?thesis
    using d v g by (simp add: tickRainDrop_def multiply_zero add_zero)
qed

lemma map_filter_still:
  assumes "\<And>x. x \<in> set xs \<Longrightarrow> \<exists>y. f x = Some y \<and> g y = g x"
  shows "map g (List.map_filter f xs) = map g xs"
  using assms
proof (induction xs)
  case Nil
  then show ?case by simp
next
  case (Cons x xs)
  then obtain y where "f x = Some y" "g y = g x" by auto
  with Cons show ?case by simp
qed

lemma tickRain_still:
  assumes "\<And>r. r \<in> set (rain ws) \<Longrightarrow> aloft (objects ws p) r"
  shows "map rain_location (rain (tickRain ws p 0)) = map rain_location (rain ws)"
proof -
  have "map rain_location (List.map_filter (tickRainDrop (objects ws p) 0) (rain ws))
      = map rain_location (rain ws)"
  proof (rule map_filter_still)
    fix r assume "r \<in> set (rain ws)"
    then have "aloft (objects ws p) r" by (rule assms)
    from tickRainDrop_still[OF this]
    show "\<exists>y. tickRainDrop (objects ws p) 0 r = Some y \<and> rain_location y = rain_location r"
      by auto
  qed
  then show ?thesis by (simp add: tickRain_def)
qed

text \<open>The loop over the clouds with no elapsed time.\<close>

lemma cloudLoop_still:
  assumes "foldE (tickCloud rnd 0 n) cs st = Inr st'" and "\<And>j. 0 \<le> rnd j"
  shows "rain (fst st') = rain (fst st) \<and> nextRef (fst st) \<le> nextRef (fst st')
         \<and> (\<forall>x. x < nextRef (fst st) \<longrightarrow>
                mass (cloudParts (fst st') x) = mass (cloudParts (fst st) x))"
  using assms(1)
proof (rule foldE_invariant)
  show "rain (fst st) = rain (fst st) \<and> nextRef (fst st) \<le> nextRef (fst st)
         \<and> (\<forall>x. x < nextRef (fst st) \<longrightarrow>
                mass (cloudParts (fst st) x) = mass (cloudParts (fst st) x))"
    by simp
next
  fix x t t'
  assume t: "rain (fst t) = rain (fst st) \<and> nextRef (fst st) \<le> nextRef (fst t)
         \<and> (\<forall>x. x < nextRef (fst st) \<longrightarrow>
                mass (cloudParts (fst t) x) = mass (cloudParts (fst st) x))"
    and s: "tickCloud rnd 0 n x t = Inr t'"
  obtain w r k w' r' k' where e: "t = (w, r, k)" "t' = (w', r', k')"
    by (cases t; cases t') auto
  from tickCloud_still[OF s[unfolded e] assms(2)] tickCloud_objects[OF s[unfolded e]] t
  show "rain (fst t') = rain (fst st) \<and> nextRef (fst st) \<le> nextRef (fst t')
         \<and> (\<forall>x. x < nextRef (fst st) \<longrightarrow>
                mass (cloudParts (fst t') x) = mass (cloudParts (fst st) x))"
    by (simp add: e)
qed

lemma cloudLoop_still_clouds:
  assumes "foldE (tickCloud rnd 0 n) cs (w, rem, k) = Inr (w', rem', k')"
    and "\<And>j. 0 \<le> rnd j"
    and "\<not> n < 20 \<or> (\<forall>j. 0.05 \<le> rnd j)"
    and "\<And>c. c \<in> set cs \<Longrightarrow> c < nextRef w \<and> 0 < mass (cloudParts w c)"
  shows "rem' = rem @ cs \<and> (cs \<noteq> [] \<longrightarrow> clouds w' = rem')"
  using assms(1,4)
proof (induction cs arbitrary: w rem k)
  case Nil
  then show ?case by simp
next
  case (Cons c cs)
  from Cons.prems(1) obtain w2 rem2 k2 where
    s: "tickCloud rnd 0 n c (w, rem, k) = Inr (w2, rem2, k2)"
    and r: "foldE (tickCloud rnd 0 n) cs (w2, rem2, k2) = Inr (w', rem', k')"
    by (auto split: sum.splits)
  have c: "c < nextRef w" "0 < mass (cloudParts w c)" using Cons.prems(2) by simp_all
  have nospawn: "\<not> (n < 20 \<and> (\<exists>j. rnd j < 0.05))"
    using assms(3) by (auto simp: not_less)
  from tickCloud_still[OF s assms(2)] c(2) nospawn have rem2: "rem2 = rem @ [c]" by blast
  have keep: "nextRef w \<le> nextRef w2" "clouds w2 = rem2"
    "\<forall>x. x < nextRef w \<longrightarrow> mass (cloudParts w2 x) = mass (cloudParts w x)"
    using tickCloud_objects[OF s] tickCloud_still[OF s assms(2)] by simp_all
  have ih: "rem' = rem2 @ cs \<and> (cs \<noteq> [] \<longrightarrow> clouds w' = rem')"
  proof (rule Cons.IH[OF r])
    fix d assume "d \<in> set cs"
    then have "d < nextRef w \<and> 0 < mass (cloudParts w d)" using Cons.prems(2) by simp
    then show "d < nextRef w2 \<and> 0 < mass (cloudParts w2 d)" using keep by auto
  qed
  show ?case
  proof (cases cs)
    case Nil
    with r have "w' = w2" "rem' = rem2" by simp_all
    then show ?thesis using rem2 keep(2) Nil by simp
  next
    case (Cons d ds)
    then show ?thesis using ih rem2 by simp
  qed
qed

lemma aloft_cong:
  "location p = location q \<Longrightarrow> shape p = shape q \<Longrightarrow> aloft p r = aloft q r"
  by (simp add: aloft_def)

lemma elapsed_zero: "elapsed ws (lastTick ws) = 0"
  by (simp add: elapsed_def)

text \<open>
  C4 (amended). A tick with no elapsed time that returns, of a world whose sun, planet
  and clouds are allocated and anchored, with draws that are not negative: the location
  of every allocated object and the mass of every allocated cloud are as before. If
  every rain particle is aloft, the rain particles are as many as before, at the same
  locations. If every cloud of the list has a positive mass, and the list has 20 clouds
  or more or no draw is below 0.05, the cloud list is as before.
\<close>

theorem tick_without_elapsed_time:
  assumes t: "tickWorld ws (lastTick ws) rnd = Inr ws'"
    and rnd: "\<And>j. 0 \<le> rnd j"
    and anch: "list_all (anchored (objects ws)) (things ws)"
    and al: "list_all (\<lambda>c. c < nextRef ws) (things ws)"
  shows "elapsed ws (lastTick ws) = 0
    \<and> (\<forall>x. x < nextRef ws \<longrightarrow>
          location (objects ws' x) = location (objects ws x)
          \<and> mass (cloudParts ws' x) = mass (cloudParts ws x))
    \<and> (list_all (aloft (objects ws (planet ws))) (rain ws) \<longrightarrow>
          map rain_location (rain ws') = map rain_location (rain ws)
          \<and> length (rain ws') = length (rain ws))
    \<and> (list_all (\<lambda>c. 0 < mass (cloudParts ws c)) (clouds ws)
        \<and> (20 \<le> length (clouds ws) \<or> (\<forall>j. 0.05 \<le> rnd j)) \<longrightarrow>
          clouds ws' = clouds ws \<and> length (clouds ws') = length (clouds ws))"
  using t
proof (cases rule: tickWorld_stages)
  case (1 gs w1 st ps)
  let ?A = "afterKinematics ws (lastTick ws)"
  note e = elapsed_zero[of ws]
  have A: "cloudParts ?A = cloudParts ws" "nextRef ?A = nextRef ws" "rain ?A = rain ws"
    "clouds ?A = clouds ws" "planet ?A = planet ws"
    "\<And>x. location (objects ?A x) = location (objects ws x)"
    "\<And>x. shape (objects ?A x) = shape (objects ws x)"
    using anch
    by (simp_all add: afterKinematics_def e tickCelestialObjects_still
        tickCelestialObjects_shape list_all_iff)
  note c = clusterClouds_frame[OF 1(2)]
  have loop: "foldE (tickCloud rnd 0 (length (clouds ws))) (clouds ws) (w1, [], 0) = Inr st"
    using 1(3) by (simp add: e)
  note o = cloudLoop_objects[OF loop] and s = cloudLoop_still[OF loop rnd]
  have n1: "nextRef w1 = nextRef ws" using c A by simp
  have w: "objects ws' = objects (fst st)" "cloudParts ws' = cloudParts (fst st)"
    "clouds ws' = clouds (fst st)"
    "rain ws' = rain (tickRain (fst st) (planet ws) 0)"
    by (simp_all add: 1(4) tickRain_def e)
  have p: "planet ws < nextRef ws" using al by (simp add: things_def)
  \<comment> \<open>locations and masses\<close>
  have lm: "location (objects ws' x) = location (objects ws x)
          \<and> mass (cloudParts ws' x) = mass (cloudParts ws x)" if "x < nextRef ws" for x
    using that o s c A n1 w by simp
  \<comment> \<open>rain\<close>
  have rn: "map rain_location (rain ws') = map rain_location (rain ws)"
    if "list_all (aloft (objects ws (planet ws))) (rain ws)"
  proof -
    have "objects (fst st) (planet ws) = objects w1 (planet ws)"
      using o p n1 by simp
    then have "aloft (objects (fst st) (planet ws)) r = aloft (objects ws (planet ws)) r" for r
      using c A by (intro aloft_cong) simp_all
    moreover have "rain (fst st) = rain ws" using s c A by simp
    ultimately have "map rain_location (rain (tickRain (fst st) (planet ws) 0))
        = map rain_location (rain (fst st))"
      using that by (intro tickRain_still) (simp add: list_all_iff)
    then show ?thesis using w \<open>rain (fst st) = rain ws\<close> by simp
  qed
  \<comment> \<open>the cloud list\<close>
  have cl: "clouds ws' = clouds ws"
    if pos: "list_all (\<lambda>c. 0 < mass (cloudParts ws c)) (clouds ws)"
      and ns: "20 \<le> length (clouds ws) \<or> (\<forall>j. 0.05 \<le> rnd j)"
  proof -
    obtain w3 rem3 k3 where st: "st = (w3, rem3, k3)" by (cases st) auto
    have "rem3 = [] @ clouds ws \<and> (clouds ws \<noteq> [] \<longrightarrow> clouds w3 = rem3)"
      using loop[unfolded st] rnd
    proof (rule cloudLoop_still_clouds)
      show "\<not> length (clouds ws) < 20 \<or> (\<forall>j. 0.05 \<le> rnd j)" using ns by auto
      fix d assume d: "d \<in> set (clouds ws)"
      then have "d < nextRef ws" using al by (simp add: things_def list_all_iff)
      moreover have "0 < mass (cloudParts ws d)" using pos d by (simp add: list_all_iff)
      ultimately show "d < nextRef w1 \<and> 0 < mass (cloudParts w1 d)" using n1 c A by simp
    qed
    moreover have "clouds w3 = clouds ws" if "clouds ws = []"
      using loop that c A by (simp add: st)
    ultimately show ?thesis using w by (cases "clouds ws = []") (simp_all add: st)
  qed
  from lm rn cl e show ?thesis by (metis length_map)
qed

lemma loneWorld_fields:
  "lastTick loneWorld = 0" "planet loneWorld = 0" "sun loneWorld = 1"
  "clouds loneWorld = [2]" "rain loneWorld = [highRain]" "plants loneWorld = []"
  "nextRef loneWorld = 3"
  "objects loneWorld 0 = planetObject" "objects loneWorld 1 = sunObject"
  "objects loneWorld 2 = cloudObject 7 (0.6, 0.4) (2 * pi / 1000)"
  "cloudParts loneWorld 2 = \<lparr>mass = 5, state = Floating, friends = []\<rparr>"
  by (simp_all add: loneWorld_def emptyWorld_def)

lemma loneWorld_kinematics: "afterKinematics loneWorld 0 = loneWorld"
proof -
  have "tickCelestialObjects [1, 0, 2] 0 (objects loneWorld) = objects loneWorld"
    by (rule ext)
       (simp add: tickCelestial_def loneWorld_def emptyWorld_def cloudObject_def sunObject_def
          planetObject_def Let_def circle_calcRotationalPoint_def ellipse_calcRotationalPoint_def
          add_def remainder_zero)
  then show ?thesis
    by (simp add: afterKinematics_def things_def elapsed_def loneWorld_fields)
qed

lemma loneWorld_groups:
  "getCloudGroups (objects loneWorld) [2] = Inr [[2], [], [], [], [], [], [], [], [], [2]]"
  by (simp add: getCloudGroups_def cloudRanges_def cloudRangeCount_def upt10 cloudRange_def
      loneWorld_fields cloudObject_def inCloudRange_def Let_def)

lemma loneWorld_cluster:
  "clusterClouds [[2], [], [], [], [], [], [], [], [], [2]] loneWorld = Inr loneWorld"
  by (simp add: clusterClouds_def clusterGroup_def clusterPair_def loneWorld_fields cloudObject_def)

lemma loneWorld_spawns:
  "\<exists>w k. tickClouds (\<lambda>k. 1 / 100) [2] loneWorld 0 = Inr (w, k)
         \<and> clouds w = [2, 3] \<and> plants w = []"
  by (simp add: tickClouds_def loneWorld_groups loneWorld_cluster tickCloud_def
      collectiveMass_def loneWorld_fields rainThreshold_def Let_def createRandomCloud_def
      allocCloud_def planetObject_def)

lemma loneWorld_rain: "tickRainDrop planetObject 0 highRain = Some highRain"
  by (simp add: tickRainDrop_def highRain_def planetObject_def unitVector_def divide_vec_def
      magnitude_def subtract_def multiply_def add_def clipMagnitude_def maxRainVelocity_def
      greaterThanShape_def)

lemma loneWorld_tick: "tickWorld loneWorld 0 (\<lambda>k. 1 / 2) = Inr loneWorld"
proof -
  have "tickClouds (\<lambda>k. 1 / 2) [2] loneWorld 0 = Inr (loneWorld, 1)"
    by (simp add: tickClouds_def loneWorld_groups loneWorld_cluster tickCloud_def
        collectiveMass_def loneWorld_fields rainThreshold_def Let_def)
  then show ?thesis
    by (simp add: tickWorld_passes loneWorld_kinematics loneWorld_fields elapsed_def
        tickRain_def tickPlants_def List.map_filter_def loneWorld_rain)
qed

text \<open>
  C4 (as stated). The claim has the cloud count unchanged by a tick with no elapsed
  time. A world with one floating cloud, ticked at the time of its last tick with draws
  of 0.01: the spawn check, which does not depend on the elapsed time, succeeds, and the
  world has two clouds after the tick.
\<close>

theorem tick_without_elapsed_time_spawns:
  "elapsed loneWorld (lastTick loneWorld) = 0
   \<and> length (clouds loneWorld) = 1
   \<and> (case tickWorld loneWorld (lastTick loneWorld) (\<lambda>k. 1 / 100) of
         Inl e \<Rightarrow> False
       | Inr ws' \<Rightarrow> length (clouds ws') = 2)"
proof -
  from loneWorld_spawns obtain w k where
    w: "tickClouds (\<lambda>k. 1 / 100) [2] loneWorld 0 = Inr (w, k)" "clouds w = [2, 3]" "plants w = []"
    by blast
  show ?thesis
    by (simp add: elapsed_zero loneWorld_fields tickWorld_passes loneWorld_kinematics w
        elapsed_def tickRain_def tickPlants_def)
qed


theorem tick_without_elapsed_time_witness:
  "tickWorld nearWorld (lastTick nearWorld) (\<lambda>k. 1 / 2) = Inr nearWorldRaining
   \<and> list_all (anchored (objects nearWorld)) (things nearWorld)
   \<and> list_all (\<lambda>c. c < nextRef nearWorld) (things nearWorld)
   \<and> list_all (\<lambda>c. 0 < mass (cloudParts nearWorld c)) (clouds nearWorld)
   \<and> state (cloudParts nearWorldRaining 2) \<noteq> state (cloudParts nearWorld 2)
   \<and> location (objects nearWorldRaining 2) = location (objects nearWorld 2)
   \<and> mass (cloudParts nearWorldRaining 2) = mass (cloudParts nearWorld 2)
   \<and> clouds nearWorldRaining = clouds nearWorld
   \<and> tickWorld loneWorld (lastTick loneWorld) (\<lambda>k. 1 / 2) = Inr loneWorld
   \<and> list_all (anchored (objects loneWorld)) (things loneWorld)
   \<and> list_all (\<lambda>c. c < nextRef loneWorld) (things loneWorld)
   \<and> list_all (aloft (objects loneWorld (planet loneWorld))) (rain loneWorld)
   \<and> length (rain loneWorld) = 1"
proof -
  have r: "0 \<le> (\<lambda>k. 1 / 2 :: real) j" for j :: nat by simp
  have n1: "tickWorld nearWorld (lastTick nearWorld) (\<lambda>k. 1 / 2) = Inr nearWorldRaining"
    by (simp add: nearWorld_fields nearWorld_tick)
  have n2: "list_all (anchored (objects nearWorld)) (things nearWorld)"
    by (simp add: things_def nearWorld_def emptyWorld_def anchored_def orbitPoint_def
        cloudObject_def sunObject_def planetObject_def circle_calcRotationalPoint_def
        ellipse_calcRotationalPoint_def add_def)
  have n3: "list_all (\<lambda>c. c < nextRef nearWorld) (things nearWorld)"
    by (simp add: things_def nearWorld_fields)
  have n4: "list_all (\<lambda>c. 0 < mass (cloudParts nearWorld c)) (clouds nearWorld)"
    by (simp add: nearWorld_fields)
  have n5: "state (cloudParts nearWorldRaining 2) \<noteq> state (cloudParts nearWorld 2)"
    by (simp add: nearWorldRaining_def nearWorld_fields)
  have n6: "2 < nextRef nearWorld" by (simp add: nearWorld_fields)
  note a = tick_without_elapsed_time[OF n1 r n2 n3]
  have a1: "location (objects nearWorldRaining 2) = location (objects nearWorld 2)
      \<and> mass (cloudParts nearWorldRaining 2) = mass (cloudParts nearWorld 2)"
    using a n6 by blast
  have a2: "clouds nearWorldRaining = clouds nearWorld"
    using a n4 by simp
  have l1: "tickWorld loneWorld (lastTick loneWorld) (\<lambda>k. 1 / 2) = Inr loneWorld"
    by (simp add: loneWorld_fields loneWorld_tick)
  have l2: "list_all (anchored (objects loneWorld)) (things loneWorld)"
    by (simp add: things_def loneWorld_def emptyWorld_def anchored_def orbitPoint_def
        cloudObject_def sunObject_def planetObject_def circle_calcRotationalPoint_def
        ellipse_calcRotationalPoint_def add_def)
  have l3: "list_all (\<lambda>c. c < nextRef loneWorld) (things loneWorld)"
    by (simp add: things_def loneWorld_fields)
  have l4: "list_all (aloft (objects loneWorld (planet loneWorld))) (rain loneWorld)"
    by (simp add: loneWorld_fields aloft_def highRain_def planetObject_def greaterThanShape_def
        magnitude_def subtract_def)
  note b = tick_without_elapsed_time[OF l1 r l2 l3]
  have b1: "length (rain loneWorld) = 1"
    using b l4 by (simp add: loneWorld_fields)
  from n1 n2 n3 n4 n5 a1 a2 l1 l2 l3 l4 b1 show ?thesis by blast
qed

section \<open>The range of rotations after the kinematics pass\<close>

text \<open>
  What the wrap of the kinematics pass does give: a rotation strictly between \<open>-2\<pi>\<close> and
  \<open>2\<pi>\<close>, and in the interval from 0 to \<open>2\<pi>\<close> when the advanced rotation is not negative.
\<close>

lemma remainder_range:
  assumes "0 < m"
  shows "- m < remainder x m \<and> remainder x m < m \<and> (0 \<le> x \<longrightarrow> 0 \<le> remainder x m)"
proof (cases "0 \<le> x")
  case True
  from remainder_nonneg[OF assms True] assms show ?thesis by simp
next
  case False
  then have "x < 0" by simp
  from remainder_neg[OF assms this] assms False show ?thesis by simp
qed

lemma tickCelestial_rotation:
  "rotation (tickCelestial dt c h c)
     = remainder (rotation (h c) + rotationalVelocity (h c) * dt) (pi * 2)"
  by (cases "orbit (h c)") (simp_all add: tickCelestial_no_orbit tickCelestial_orbit)

lemma tickCelestial_rotation_range:
  "- (pi * 2) < rotation (tickCelestial dt c h c)
   \<and> rotation (tickCelestial dt c h c) < pi * 2
   \<and> (0 \<le> rotation (h c) + rotationalVelocity (h c) * dt
        \<longrightarrow> 0 \<le> rotation (tickCelestial dt c h c))"
  unfolding tickCelestial_rotation by (rule remainder_range) simp

lemma tickCelestial_orbit_rotation_range:
  assumes "orbit (h c) = Some ob"
  shows "\<exists>ob'. orbit (tickCelestial dt c h c) = Some ob'
     \<and> - (pi * 2) < orbit_rotation ob' \<and> orbit_rotation ob' < pi * 2
     \<and> (0 \<le> orbit_rotation ob + orbit_rotationalVelocity ob * dt \<longrightarrow> 0 \<le> orbit_rotation ob')"
  using remainder_range[of "pi * 2" "orbit_rotation ob + orbit_rotationalVelocity ob * dt"] assms
  by (simp add: tickCelestial_orbit)

section \<open>The worlds of the running program: the kinematics pass\<close>

text \<open>What anchoring and settling depend on.\<close>

lemma anchored_cong:
  assumes "\<And>x. location (h' x) = location (h x)"
    and "\<And>x. map_option (\<lambda>ob. (orbit_rotation ob, target ob, orbit_shape ob)) (orbit (h' x))
             = map_option (\<lambda>ob. (orbit_rotation ob, target ob, orbit_shape ob)) (orbit (h x))"
  shows "anchored h' c = anchored h c"
proof -
  have n: "orbit (h' x) = None \<longleftrightarrow> orbit (h x) = None" for x
    using assms(2)[of x] by (cases "orbit (h' x)"; cases "orbit (h x)") auto
  show ?thesis
  proof (cases "orbit (h c)")
    case None
    then show ?thesis using n[of c] by (simp add: anchored_def)
  next
    case (Some ob)
    with n[of c] obtain ob' where ob': "orbit (h' c) = Some ob'" by auto
    with assms(2)[of c] Some have e: "orbit_rotation ob' = orbit_rotation ob"
      "target ob' = target ob" "orbit_shape ob' = orbit_shape ob" by simp_all
    then have "orbitPoint ob' = orbitPoint ob"
      by (cases "orbit_shape ob") (simp_all add: orbitPoint_def)
    then show ?thesis using Some ob' e assms(1) n by (simp add: anchored_def)
  qed
qed

lemma tickCelestial_orbit_shape:
  "map_option orbit_shape (orbit (tickCelestial dt c h x)) = map_option orbit_shape (orbit (h x))"
  by (cases "x = c"; cases "orbit (h c)")
     (simp_all add: tickCelestial_other tickCelestial_no_orbit tickCelestial_orbit)

lemma tickCelestialObjects_orbit_shape:
  "map_option orbit_shape (orbit (tickCelestialObjects cs dt h x))
     = map_option orbit_shape (orbit (h x))"
  by (induction cs arbitrary: h) (simp_all add: tickCelestial_orbit_shape)

text \<open>The kinematics pass keeps a settled world settled.\<close>

lemma afterKinematics_fields:
  "cloudParts (afterKinematics ws now) = cloudParts ws"
  "nextRef (afterKinematics ws now) = nextRef ws"
  "clouds (afterKinematics ws now) = clouds ws"
  "rain (afterKinematics ws now) = rain ws"
  "plants (afterKinematics ws now) = plants ws"
  "planet (afterKinematics ws now) = planet ws"
  "sun (afterKinematics ws now) = sun ws"
  "objects (afterKinematics ws now) = tickCelestialObjects (things ws) (elapsed ws now) (objects ws)"
  by (simp_all add: afterKinematics_def)

lemma afterKinematics_planetSettled:
  "planetSettled ws \<Longrightarrow> planetSettled (afterKinematics ws now)"
  by (simp add: planetSettled_def afterKinematics_fields tickCelestialObjects_orbit_None
      tickCelestialObjects_location_no_orbit tickCelestialObjects_shape)

lemma kinematics_anchors_to_planet:
  assumes p: "orbit (objects ws (planet ws)) = None"
    and c: "c \<in> set (things ws)"
    and o: "case orbit (objects ws c) of None \<Rightarrow> False | Some ob \<Rightarrow> target ob = planet ws"
  shows "anchored (objects (afterKinematics ws now)) c
    \<and> (case orbit (objects (afterKinematics ws now) c) of
          None \<Rightarrow> False | Some ob \<Rightarrow> target ob = planet ws)"
proof -
  from o obtain ob where ob: "orbit (objects ws c) = Some ob" "target ob = planet ws"
    by (auto split: option.splits)
  have a: "anchored (tickCelestialObjects (things ws) (elapsed ws now) (objects ws)) c"
    using ob p c by (intro tickCelestialObjects_anchors) auto
  have "map_option target (orbit (tickCelestialObjects (things ws) (elapsed ws now) (objects ws) c))
      = Some (planet ws)"
    using ob by (simp add: tickCelestialObjects_target)
  with a show ?thesis by (auto simp: afterKinematics_fields split: option.splits)
qed

lemma afterKinematics_sunSettled:
  assumes "planetSettled ws" and "sunSettled ws"
  shows "sunSettled (afterKinematics ws now)"
proof -
  have "sun ws \<in> set (things ws)" by (simp add: things_def)
  from kinematics_anchors_to_planet[OF _ this, of now] assms
  show ?thesis
    by (auto simp: planetSettled_def sunSettled_def afterKinematics_fields(1-7)
        split: option.splits)
qed

lemma afterKinematics_cloudSettled:
  assumes "planetSettled ws" and "cloudSettled ws c" and "c \<in> set (clouds ws)"
  shows "cloudSettled (afterKinematics ws now) c"
proof -
  have c: "c \<in> set (things ws)" using assms(3) by (simp add: things_def)
  have o: "case orbit (objects ws c) of None \<Rightarrow> False | Some ob \<Rightarrow> target ob = planet ws"
    using assms(2) by (auto simp: cloudSettled_def split: option.splits)
  have p: "orbit (objects ws (planet ws)) = None" using assms(1) by (simp add: planetSettled_def)
  note k = kinematics_anchors_to_planet[OF p c o, of now]
  have s: "map_option orbit_shape (orbit (objects (afterKinematics ws now) c))
      = map_option orbit_shape (orbit (objects ws c))"
    by (simp add: afterKinematics_fields tickCelestialObjects_orbit_shape)
  have sh: "shape (objects (afterKinematics ws now) c) = shape (objects ws c)"
    by (simp add: afterKinematics_fields tickCelestialObjects_shape)
  show ?thesis
    using assms(2) k s
    by (auto simp: cloudSettled_def afterKinematics_fields(1-7) sh split: option.splits)
qed

section \<open>The worlds of the running program: the clustering\<close>

text \<open>Loops that return.\<close>

lemma foldE_total:
  assumes "P s"
    and "\<And>x t. x \<in> set xs \<Longrightarrow> P t \<Longrightarrow> \<exists>t'. f x t = Inr t' \<and> P t'"
  shows "\<exists>s'. foldE f xs s = Inr s' \<and> P s'"
  using assms
proof (induction xs arbitrary: s)
  case Nil
  then show ?case by simp
next
  case (Cons x xs)
  from Cons.prems obtain t where t: "f x s = Inr t" "P t" by (meson list.set_intros(1))
  from Cons.IH[OF t(2)] Cons.prems(2) obtain s' where "foldE f xs t = Inr s'" "P s'"
    by (meson list.set_intros(2))
  with t show ?case by simp
qed

lemma mapE_total:
  "(\<And>x. x \<in> set xs \<Longrightarrow> \<exists>y. f x = Inr y) \<Longrightarrow> \<exists>ys. mapE f xs = Inr ys"
proof (induction xs)
  case Nil
  then show ?case by simp
next
  case (Cons x xs)
  then obtain y ys where "f x = Inr y" "mapE f xs = Inr ys" by (meson list.set_intros)
  then show ?case by simp
qed

lemma cloudGroup_total:
  "(\<And>c. c \<in> set cs \<Longrightarrow> orbit (h c) \<noteq> None) \<Longrightarrow> \<exists>g. cloudGroup h r cs = Inr g"
proof (induction cs)
  case Nil
  then show ?case by simp
next
  case (Cons c cs)
  then obtain g ob where "cloudGroup h r cs = Inr g" "orbit (h c) = Some ob"
    by (meson list.set_intros not_Some_eq)
  then show ?case by simp
qed

lemma getCloudGroups_total:
  "(\<And>c. c \<in> set cs \<Longrightarrow> orbit (h c) \<noteq> None) \<Longrightarrow> \<exists>gs. getCloudGroups h cs = Inr gs"
  unfolding getCloudGroups_def by (rule mapE_total) (rule cloudGroup_total)

text \<open>The clustering keeps the bodies but for the angular velocities of orbits.\<close>

lemma clusterPair_orbits:
  assumes "clusterPair c oc ws = Inr ws'"
  shows "map_option (\<lambda>ob. (orbit_rotation ob, target ob, orbit_shape ob)) (orbit (objects ws' x))
       = map_option (\<lambda>ob. (orbit_rotation ob, target ob, orbit_shape ob)) (orbit (objects ws x))"
  using clusterPair_cases[OF assms] by auto

lemma clusterPair_orbit_None:
  assumes "clusterPair c oc ws = Inr ws'"
  shows "orbit (objects ws' x) = None \<longleftrightarrow> orbit (objects ws x) = None"
  using clusterPair_orbits[OF assms, of x]
  by (cases "orbit (objects ws' x)"; cases "orbit (objects ws x)") auto

lemma clusterClouds_orbits:
  assumes "clusterClouds gs ws = Inr ws'"
  shows "\<forall>x. map_option (\<lambda>ob. (orbit_rotation ob, target ob, orbit_shape ob)) (orbit (objects ws' x))
       = map_option (\<lambda>ob. (orbit_rotation ob, target ob, orbit_shape ob)) (orbit (objects ws x))"
  using assms
proof (rule clusterClouds_invariant)
  show "\<forall>x. map_option (\<lambda>ob. (orbit_rotation ob, target ob, orbit_shape ob)) (orbit (objects ws x))
       = map_option (\<lambda>ob. (orbit_rotation ob, target ob, orbit_shape ob)) (orbit (objects ws x))"
    by simp
next
  fix g c oc t t'
  assume "\<forall>x. map_option (\<lambda>ob. (orbit_rotation ob, target ob, orbit_shape ob)) (orbit (objects t x))
       = map_option (\<lambda>ob. (orbit_rotation ob, target ob, orbit_shape ob)) (orbit (objects ws x))"
    and "clusterPair c oc t = Inr t'"
  then show "\<forall>x. map_option (\<lambda>ob. (orbit_rotation ob, target ob, orbit_shape ob)) (orbit (objects t' x))
       = map_option (\<lambda>ob. (orbit_rotation ob, target ob, orbit_shape ob)) (orbit (objects ws x))"
    by (simp add: clusterPair_orbits)
qed

lemma clusterPair_total:
  assumes "case shape (objects ws c) of Circle r \<Rightarrow> False | Ellipse a b \<Rightarrow> True"
    and "orbit (objects ws c) \<noteq> None" and "orbit (objects ws oc) \<noteq> None"
  shows "\<exists>ws'. clusterPair c oc ws = Inr ws'"
  using assms
  by (auto simp: clusterPair_def Let_def split: shape.splits option.splits)

lemma clusterClouds_total:
  assumes "\<And>g c. g \<in> set gs \<Longrightarrow> c \<in> set g \<Longrightarrow>
      (case shape (objects ws c) of Circle r \<Rightarrow> False | Ellipse a b \<Rightarrow> True)
      \<and> orbit (objects ws c) \<noteq> None"
  shows "\<exists>ws'. clusterClouds gs ws = Inr ws'"
proof -
  define P where "P t \<longleftrightarrow> (\<forall>x. shape (objects t x) = shape (objects ws x)
      \<and> (orbit (objects t x) = None \<longleftrightarrow> orbit (objects ws x) = None))" for t :: worldState
  have step: "\<exists>t'. clusterPair c oc t = Inr t' \<and> P t'"
    if "g \<in> set gs" "c \<in> set g" "oc \<in> set g" "P t" for g c oc t
  proof -
    from assms[OF that(1,2)] assms[OF that(1,3)] that(4)
    have "\<exists>t'. clusterPair c oc t = Inr t'"
      by (intro clusterPair_total) (simp_all add: P_def)
    then obtain t' where t': "clusterPair c oc t = Inr t'" by blast
    from clusterPair_frame[OF t'] clusterPair_orbit_None[OF t'] that(4) have "P t'"
      by (simp add: P_def)
    with t' show ?thesis by blast
  qed
  have inner: "\<exists>t'. foldE (\<lambda>otherCloud. clusterPair c otherCloud) g t = Inr t' \<and> P t'"
    if "g \<in> set gs" "c \<in> set g" "P t" for g c t
    using that(3) by (rule foldE_total) (use that(1,2) step in blast)
  have middle: "\<exists>t'. clusterGroup g t = Inr t' \<and> P t'" if "g \<in> set gs" "P t" for g t
    unfolding clusterGroup_def using that(2) by (rule foldE_total) (use that(1) inner in blast)
  have "P ws" by (simp add: P_def)
  then have "\<exists>ws'. foldE clusterGroup gs ws = Inr ws' \<and> P ws'"
    by (rule foldE_total) (use middle in blast)
  then show ?thesis by (auto simp: clusterClouds_def)
qed

text \<open>The clustering keeps settled clouds settled.\<close>

lemma clusterClouds_settled:
  assumes c: "clusterClouds gs ws = Inr ws'"
    and g: "\<And>g. g \<in> set gs \<Longrightarrow> set g \<subseteq> set cs"
    and cs: "\<And>d. d \<in> set cs \<Longrightarrow> d < nextRef ws"
  shows "(planetSettled ws \<longrightarrow> planetSettled ws')
       \<and> (sunSettled ws \<longrightarrow> sunSettled ws')
       \<and> (cloudSettled ws x \<longrightarrow> cloudSettled ws' x)"
proof -
  note f = clusterClouds_frame[OF c]
  note o = clusterClouds_orbits[OF c]
  note fr = clusterClouds_friends[OF c g]
  have a: "anchored (objects ws') y = anchored (objects ws) y" for y
    using f o by (intro anchored_cong) simp_all
  have n: "orbit (objects ws' y) = None \<longleftrightarrow> orbit (objects ws y) = None" for y
    using o[rule_format, of y] by (cases "orbit (objects ws' y)"; cases "orbit (objects ws y)") auto
  have t: "map_option target (orbit (objects ws' y)) = map_option target (orbit (objects ws y))"
    "map_option orbit_shape (orbit (objects ws' y)) = map_option orbit_shape (orbit (objects ws y))"
    for y
    using o[rule_format, of y] by (cases "orbit (objects ws' y)"; cases "orbit (objects ws y)"; auto)+
  have p: "planetSettled ws'" if "planetSettled ws"
    using that f n by (simp add: planetSettled_def)
  have s: "sunSettled ws'" if "sunSettled ws"
    using that f a t(1)[of "sun ws"] by (auto simp: sunSettled_def split: option.splits)
  have cl: "cloudSettled ws' x" if "cloudSettled ws x"
  proof -
    have "list_all (\<lambda>f. f < nextRef ws) (friends (cloudParts ws' x))"
      using that fr[rule_format, of x] cs by (auto simp: cloudSettled_def list_all_iff)
    then show ?thesis
      using that f a t(1)[of x] t(2)[of x]
      by (auto simp: cloudSettled_def split: option.splits)
  qed
  from p s cl show ?thesis by blast
qed

section \<open>The worlds of the running program: the loop over the clouds\<close>

text \<open>The loop over the clouds keeps settled clouds settled, and returns.\<close>

lemma startRaining_settled:
  "cloudSettled (ws\<lparr>cloudParts := startRaining c (cloudParts ws)\<rparr>) x = cloudSettled ws x"
  "planetSettled (ws\<lparr>cloudParts := cp\<rparr>) = planetSettled ws"
  "sunSettled (ws\<lparr>cloudParts := cp\<rparr>) = sunSettled ws"
  by (simp_all add: cloudSettled_def planetSettled_def sunSettled_def startRaining_apply
      cong: option.case_cong)

lemma clouds_update_settled:
  "cloudSettled (ws\<lparr>clouds := cs\<rparr>) x = cloudSettled ws x"
  "planetSettled (ws\<lparr>clouds := cs\<rparr>) = planetSettled ws"
  "sunSettled (ws\<lparr>clouds := cs\<rparr>) = sunSettled ws"
  by (simp_all add: cloudSettled_def planetSettled_def sunSettled_def cong: option.case_cong)

lemma rainingCloud_total:
  assumes "cloudSettled ws c"
  shows "\<exists>ws' rem' k'. rainingCloud rnd dt c cm (ws, rem, k) = Inr (ws', rem', k')"
  using assms
  by (auto simp: rainingCloud_def cloudSettled_def Let_def split: option.splits shape.splits)

lemma rainingCloud_settled:
  assumes r: "rainingCloud rnd dt c cm (ws, rem, k) = Inr (ws', rem', k')"
  shows "planetSettled ws' = planetSettled ws"
    and "sunSettled ws' = sunSettled ws"
    and "x \<noteq> c \<Longrightarrow> cloudSettled ws' x = cloudSettled ws x"
    and "nextRef ws' = nextRef ws"
    and "cloudSettled ws c \<Longrightarrow> rem' = rem \<or> rem' = rem @ [c] \<and> cloudSettled ws' c"
proof -
  note c = rainingCloud_cases[OF r]
  from c show "planetSettled ws' = planetSettled ws"
    by (auto simp: planetSettled_def)
  from c show "sunSettled ws' = sunSettled ws"
    by (auto simp: sunSettled_def cong: option.case_cong)
  from c show "cloudSettled ws' x = cloudSettled ws x" if "x \<noteq> c"
    using that by (auto simp: cloudSettled_def cong: option.case_cong)
  from c show "nextRef ws' = nextRef ws" by auto
  show "rem' = rem \<or> rem' = rem @ [c] \<and> cloudSettled ws' c" if s: "cloudSettled ws c"
  proof (cases "mass (cloudParts ws' c) > 0")
    case True
    with c have "rem' = rem @ [c]" by simp
    moreover from c s True have "cloudSettled ws' c"
      by (auto simp: cloudSettled_def cong: option.case_cong)
    ultimately show ?thesis by simp
  next
    case False
    with c show ?thesis by simp
  qed
qed

text \<open>A cloud that createRandomCloud makes around a circular planet.\<close>

lemma createRandomCloud_total:
  assumes "shape po = Circle r"
  shows "\<exists>new ob. createRandomCloud rnd k po pr = Inr new
      \<and> mass (snd new) = 5 \<and> friends (snd new) = []
      \<and> (\<exists>a b. shape (fst new) = Ellipse a b)
      \<and> orbit (fst new) = Some ob \<and> target ob = pr
      \<and> (\<exists>r'. orbit_shape ob = Circle r')
      \<and> location (fst new) = orbitPoint ob"
  using assms by (simp add: createRandomCloud_def Let_def orbitPoint_def)

lemma allocCloud_settled:
  assumes p: "planetSettled ws"
    and m: "0 < mass (snd new)" and f: "friends (snd new) = []"
    and s: "shape (fst new) = Ellipse a b"
    and o: "orbit (fst new) = Some ob" "target ob = planet ws" "orbit_shape ob = Circle r'"
      "location (fst new) = orbitPoint ob"
  shows "planetSettled (allocCloud ws new)"
    and "sunSettled ws \<Longrightarrow> sunSettled (allocCloud ws new)"
    and "cloudSettled ws x \<Longrightarrow> cloudSettled (allocCloud ws new) x"
    and "cloudSettled (allocCloud ws new) (nextRef ws)"
proof -
  have pl: "planet ws < nextRef ws" "orbit (objects ws (planet ws)) = None"
    "location (objects ws (planet ws)) = (0, 0)"
    using p by (simp_all add: planetSettled_def)
  have old: "objects (allocCloud ws new) y = objects ws y"
    "cloudParts (allocCloud ws new) y = cloudParts ws y" if "y < nextRef ws" for y
    using that by (simp_all add: allocCloud_def)
  have fields: "planet (allocCloud ws new) = planet ws" "sun (allocCloud ws new) = sun ws"
    "nextRef (allocCloud ws new) = Suc (nextRef ws)"
    "objects (allocCloud ws new) (nextRef ws) = fst new"
    "cloudParts (allocCloud ws new) (nextRef ws) = snd new"
    by (simp_all add: allocCloud_def)
  have anch: "anchored (objects (allocCloud ws new)) y"
    if "y < nextRef ws" "anchored (objects ws) y"
      "case orbit (objects ws y) of None \<Rightarrow> False | Some ob \<Rightarrow> target ob = planet ws" for y
    using that pl by (auto simp: anchored_def old split: option.splits)
  show "planetSettled (allocCloud ws new)"
    using p pl by (simp add: planetSettled_def fields old)
  show "sunSettled (allocCloud ws new)" if "sunSettled ws"
    using that anch[of "sun ws"] by (auto simp: sunSettled_def fields old split: option.splits)
  show "cloudSettled (allocCloud ws new) x" if "cloudSettled ws x"
  proof -
    from that have x: "x < nextRef ws" by (simp add: cloudSettled_def)
    have "list_all (\<lambda>f. f < Suc (nextRef ws)) (friends (cloudParts ws x))"
      using that by (auto simp: cloudSettled_def list_all_iff)
    then show ?thesis
      using that anch[of x] x
      by (auto simp: cloudSettled_def fields old split: option.splits)
  qed
  show "cloudSettled (allocCloud ws new) (nextRef ws)"
    using m f s o pl
    by (simp add: cloudSettled_def fields old anchored_def add_def)
qed

text \<open>One iteration of the loop.\<close>

lemma tickCloud_settled:
  assumes p: "planetSettled ws" and s: "sunSettled ws" and c: "cloudSettled ws c"
  shows "\<exists>ws' ys k'. tickCloud rnd dt n c (ws, rem, k) = Inr (ws', rem @ ys, k')
      \<and> planetSettled ws' \<and> sunSettled ws'
      \<and> (\<forall>x. x \<noteq> c \<longrightarrow> cloudSettled ws x \<longrightarrow> cloudSettled ws' x)
      \<and> (\<forall>x\<in>set ys. cloudSettled ws' x)
      \<and> distinct ys \<and> set ys \<subseteq> {c, nextRef ws}
      \<and> clouds ws' = rem @ ys"
proof -
  define w1 where "w1 = (if collectiveMass (cloudParts ws) c > rainThreshold
    then ws\<lparr>cloudParts := startRaining c (cloudParts ws)\<rparr> else ws)"
  have w1: "planetSettled w1" "sunSettled w1" "cloudSettled w1 x = cloudSettled ws x"
    "nextRef w1 = nextRef ws" for x
    using p s by (simp_all add: w1_def startRaining_settled)
  define body where "body = (if state (cloudParts w1 c) = Raining
    then rainingCloud rnd dt c (collectiveMass (cloudParts ws) c) (w1, rem, k)
    else Inr (w1, rem @ [c], k))"
  have "\<exists>w2 zs k2. body = Inr (w2, rem @ zs, k2)
      \<and> planetSettled w2 \<and> sunSettled w2
      \<and> (\<forall>x. x \<noteq> c \<longrightarrow> cloudSettled w2 x = cloudSettled ws x)
      \<and> nextRef w2 = nextRef ws
      \<and> (zs = [] \<or> zs = [c] \<and> cloudSettled w2 c)"
  proof (cases "state (cloudParts w1 c) = Raining")
    case True
    from c w1(3) have "cloudSettled w1 c" by simp
    from rainingCloud_total[OF this] obtain w2 rem2 k2 where
      r: "rainingCloud rnd dt c (collectiveMass (cloudParts ws) c) (w1, rem, k) = Inr (w2, rem2, k2)"
      by blast
    note rs = rainingCloud_settled[OF r]
    from rs(5)[OF \<open>cloudSettled w1 c\<close>] obtain zs where
      "rem2 = rem @ zs" "zs = [] \<or> zs = [c] \<and> cloudSettled w2 c" by auto
    with r True rs(1,2,3,4) w1 show ?thesis by (simp add: body_def)
  next
    case False
    with w1 c show ?thesis by (simp add: body_def)
  qed
  then obtain w2 zs k2 where b: "body = Inr (w2, rem @ zs, k2)"
    and w2: "planetSettled w2" "sunSettled w2"
      "\<And>x. x \<noteq> c \<Longrightarrow> cloudSettled w2 x = cloudSettled ws x"
      "nextRef w2 = nextRef ws" "zs = [] \<or> zs = [c] \<and> cloudSettled w2 c"
    by blast
  define w3 where "w3 = w2\<lparr>clouds := rem @ zs\<rparr>"
  have w3: "planetSettled w3" "sunSettled w3" "cloudSettled w3 x = cloudSettled w2 x"
    "nextRef w3 = nextRef ws" "clouds w3 = rem @ zs" "planet w3 = planet w2" for x
    using w2(1,2,4) by (simp_all add: w3_def clouds_update_settled)
  have t: "tickCloud rnd dt n c (ws, rem, k) =
      (if n < 20
       then (if rnd k2 < 0.05
             then (case createRandomCloud rnd (k2 + 1) (objects w3 (planet w3)) (planet w3) of
                     Inl e \<Rightarrow> Inl e
                   | Inr new \<Rightarrow>
                       Inr ((allocCloud w3 new)\<lparr>clouds := (rem @ zs) @ [nextRef w3]\<rparr>,
                            (rem @ zs) @ [nextRef w3], k2 + 6))
             else Inr (w3, rem @ zs, k2 + 1))
       else Inr (w3, rem @ zs, k2))"
    unfolding tickCloud_def Let_def prod.case w1_def[symmetric] body_def[symmetric] b
    by (simp add: w3_def cong: sum.case_cong)
  have cr: "c < nextRef ws" using c by (simp add: cloudSettled_def)
  show ?thesis
  proof (cases "n < 20 \<and> rnd k2 < 0.05")
    case False
    define k3 where "k3 = (if n < 20 then k2 + 1 else k2)"
    from False have e: "tickCloud rnd dt n c (ws, rem, k) = Inr (w3, rem @ zs, k3)"
      unfolding t k3_def by (cases "n < 20") simp_all
    have f1: "\<forall>x. x \<noteq> c \<longrightarrow> cloudSettled ws x \<longrightarrow> cloudSettled w3 x"
      by (simp add: w3(3) w2(3))
    have f2: "\<forall>x\<in>set zs. cloudSettled w3 x" using w2(5) by (auto simp: w3(3))
    have f3: "distinct zs" "set zs \<subseteq> {c, nextRef ws}" using w2(5) by auto
    show ?thesis
      by (rule exI[of _ w3], rule exI[of _ zs], rule exI[of _ k3])
         (intro conjI e w3(1) w3(2) f1 f2 f3 w3(5))
  next
    case True
    from w3(1) obtain r where "shape (objects w3 (planet w3)) = Circle r"
      by (auto simp: planetSettled_def split: shape.splits)
    from createRandomCloud_total[OF this, of rnd "k2 + 1" "planet w3"]
    obtain new ob a b r' where n: "createRandomCloud rnd (k2 + 1) (objects w3 (planet w3)) (planet w3) = Inr new"
      "mass (snd new) = 5" "friends (snd new) = []" "shape (fst new) = Ellipse a b"
      "orbit (fst new) = Some ob" "target ob = planet w3" "orbit_shape ob = Circle r'"
      "location (fst new) = orbitPoint ob"
      by blast
    have m: "0 < mass (snd new)" using n(2) by simp
    note al = allocCloud_settled[OF w3(1) m n(3,4,5,6,7,8)]
    define w4 where "w4 = (allocCloud w3 new)\<lparr>clouds := rem @ zs @ [nextRef ws]\<rparr>"
    have e: "tickCloud rnd dt n c (ws, rem, k) = Inr (w4, rem @ (zs @ [nextRef ws]), k2 + 6)"
      using t True n(1) by (simp add: w4_def w3(4))
    have w4: "planetSettled w4" "sunSettled w4"
      "\<And>x. cloudSettled w3 x \<Longrightarrow> cloudSettled w4 x" "cloudSettled w4 (nextRef ws)"
      "clouds w4 = rem @ (zs @ [nextRef ws])"
      using al w3(2) by (simp_all add: w4_def clouds_update_settled w3(4))
    have f1: "\<forall>x. x \<noteq> c \<longrightarrow> cloudSettled ws x \<longrightarrow> cloudSettled w4 x"
      by (auto simp: w3(3) w2(3) intro: w4(3))
    have "cloudSettled w4 x" if "x \<in> set zs" for x
      using that w2(5) by (auto simp: w3(3) intro!: w4(3))
    with w4(4) have f2: "\<forall>x\<in>set (zs @ [nextRef ws]). cloudSettled w4 x"
      by simp
    have f3: "distinct (zs @ [nextRef ws])" "set (zs @ [nextRef ws]) \<subseteq> {c, nextRef ws}"
      using w2(5) cr by auto
    show ?thesis
      by (rule exI[of _ w4], rule exI[of _ "zs @ [nextRef ws]"], rule exI[of _ "k2 + 6"])
         (intro conjI e w4(1) w4(2) f1 f2 f3 w4(5))
  qed
qed

text \<open>The whole loop.\<close>

lemma cloudLoop_settled:
  assumes "planetSettled ws" and "sunSettled ws" and "distinct cs"
    and "\<forall>x\<in>set cs \<union> set rem. cloudSettled ws x"
    and "distinct rem" and "set rem \<inter> set cs = {}"
    and "cs = [] \<longrightarrow> clouds ws = rem"
  shows "\<exists>ws' rem' k'. foldE (tickCloud rnd dt n) cs (ws, rem, k) = Inr (ws', rem', k')
      \<and> planetSettled ws' \<and> sunSettled ws'
      \<and> (\<forall>x\<in>set rem'. cloudSettled ws' x) \<and> distinct rem' \<and> clouds ws' = rem'"
  using assms
proof (induction cs arbitrary: ws rem k)
  case Nil
  then show ?case by simp
next
  case (Cons c cs)
  from Cons.prems(4) have c: "cloudSettled ws c" by simp
  from tickCloud_settled[OF Cons.prems(1,2) c, of rnd dt n rem k]
  obtain w1 ys k1 where t: "tickCloud rnd dt n c (ws, rem, k) = Inr (w1, rem @ ys, k1)"
    and w1: "planetSettled w1" "sunSettled w1"
      "\<forall>x. x \<noteq> c \<longrightarrow> cloudSettled ws x \<longrightarrow> cloudSettled w1 x"
      "\<forall>x\<in>set ys. cloudSettled w1 x" "distinct ys" "set ys \<subseteq> {c, nextRef ws}"
      "clouds w1 = rem @ ys"
    by blast
  have below: "x < nextRef ws" if "x \<in> set cs \<union> set rem" for x
    using Cons.prems(4) that by (auto simp: cloudSettled_def)
  have notc: "x \<noteq> c" if "x \<in> set cs \<union> set rem" for x
    using Cons.prems(3,6) that by auto
  have a: "\<forall>x\<in>set cs \<union> set (rem @ ys). cloudSettled w1 x"
    using Cons.prems(4) w1(3,4) notc by auto
  have b: "distinct (rem @ ys)"
    using Cons.prems(5) w1(5,6) notc below by fastforce
  have d: "set (rem @ ys) \<inter> set cs = {}"
    using Cons.prems(3,6) w1(6) below by fastforce
  from Cons.prems(3) have "distinct cs" by simp
  moreover from w1(7) have "cs = [] \<longrightarrow> clouds w1 = rem @ ys" by simp
  ultimately show ?case using Cons.IH[OF w1(1,2) _ a b d, of k1] t by simp
qed

section \<open>The worlds of the running program: a whole tick\<close>

text \<open>The rain that tickRain retains is aloft.\<close>

lemma magnitude_self: "magnitude (subtract p p) = 0"
  by (cases p) (simp add: magnitude_def subtract_def)

lemma tickRainDrop_aloft:
  assumes "shape po = Circle r" and "0 \<le> r" and "tickRainDrop po dt d = Some d'"
  shows "aloft po d'"
proof -
  from assms(3) have g: "greaterThanShape (magnitude (subtract (rain_location d') (location po)))
      (shape po)"
    by (auto simp: tickRainDrop_def Let_def split: option.splits if_splits)
  with assms(1,2) have "0 < magnitude (subtract (rain_location d') (location po))"
    by (simp add: greaterThanShape_def)
  then have "rain_location d' \<noteq> location po"
    using magnitude_self[of "location po"] by auto
  with g show ?thesis by (simp add: aloft_def)
qed

lemma tickRain_aloft:
  assumes "shape (objects ws p) = Circle r" and "0 \<le> r"
  shows "list_all (aloft (objects ws p)) (rain (tickRain ws p dt))"
  using assms
  by (auto simp: tickRain_def List.map_filter_def list_all_iff intro: tickRainDrop_aloft)

lemma tickRain_settled:
  "planetSettled (tickRain ws p dt) = planetSettled ws"
  "sunSettled (tickRain ws p dt) = sunSettled ws"
  "cloudSettled (tickRain ws p dt) x = cloudSettled ws x"
  "clouds (tickRain ws p dt) = clouds ws"
  "plants (tickRain ws p dt) = plants ws"
  "objects (tickRain ws p dt) = objects ws"
  "planet (tickRain ws p dt) = planet ws"
  by (simp_all add: tickRain_def planetSettled_def sunSettled_def cloudSettled_def
      cong: option.case_cong)

lemma cloudSettled_orbit:
  assumes "cloudSettled ws c"
  shows "orbit (objects ws c) \<noteq> None"
    and "case shape (objects ws c) of Circle r \<Rightarrow> False | Ellipse a b \<Rightarrow> True"
    and "c < nextRef ws"
  using assms by (auto simp: cloudSettled_def split: option.splits)

text \<open>A tick of a settled world without plants returns a settled world without plants.\<close>

lemma tickWorld_settled:
  assumes s: "settled ws" and pl: "plants ws = []"
  shows "\<exists>ws'. tickWorld ws now rnd = Inr ws' \<and> settled ws' \<and> plants ws' = []"
proof -
  let ?a = "afterKinematics ws now"
  let ?dt = "elapsed ws now"
  from s have p: "planetSettled ws" and su: "sunSettled ws" and d: "distinct (clouds ws)"
    and cl: "\<And>c. c \<in> set (clouds ws) \<Longrightarrow> cloudSettled ws c"
    by (simp_all add: settled_def list_all_iff)
  have pa: "planetSettled ?a" using p by (rule afterKinematics_planetSettled)
  have sa: "sunSettled ?a" using p su by (rule afterKinematics_sunSettled)
  have ca: "cloudSettled ?a c" if "c \<in> set (clouds ws)" for c
    using p cl[OF that] that by (rule afterKinematics_cloudSettled)
  have "\<exists>gs. getCloudGroups (objects ?a) (clouds ws) = Inr gs"
    by (intro getCloudGroups_total cloudSettled_orbit(1) ca)
  then obtain gs where gs: "getCloudGroups (objects ?a) (clouds ws) = Inr gs" by blast
  note sub = getCloudGroups_subset[OF gs]
  have "\<exists>w1. clusterClouds gs ?a = Inr w1"
  proof (rule clusterClouds_total)
    fix g c assume "g \<in> set gs" "c \<in> set g"
    with sub have "c \<in> set (clouds ws)" by blast
    from cloudSettled_orbit[OF ca[OF this]]
    show "(case shape (objects ?a c) of Circle r \<Rightarrow> False | Ellipse a b \<Rightarrow> True)
        \<and> orbit (objects ?a c) \<noteq> None"
      by simp
  qed
  then obtain w1 where w1: "clusterClouds gs ?a = Inr w1" by blast
  have below: "c < nextRef ?a" if "c \<in> set (clouds ws)" for c
    using ca[OF that] by (rule cloudSettled_orbit)
  note k = clusterClouds_settled[OF w1 sub below]
  have p1: "planetSettled w1" and s1: "sunSettled w1"
    and c1: "\<forall>x\<in>set (clouds ws) \<union> set []. cloudSettled w1 x"
    using k pa sa ca by simp_all
  have f1: "clouds w1 = clouds ws" "plants w1 = plants ws" "planet w1 = planet ws"
    using clusterClouds_frame[OF w1] by (simp_all add: afterKinematics_fields)
  have "\<exists>w2 rem' k'. foldE (tickCloud rnd ?dt (length (clouds ws))) (clouds ws) (w1, [], 0)
        = Inr (w2, rem', k')
      \<and> planetSettled w2 \<and> sunSettled w2
      \<and> (\<forall>x\<in>set rem'. cloudSettled w2 x) \<and> distinct rem' \<and> clouds w2 = rem'"
    using p1 s1 d c1 by (rule cloudLoop_settled) (simp_all add: f1)
  then obtain w2 rem' k' where
    l: "foldE (tickCloud rnd ?dt (length (clouds ws))) (clouds ws) (w1, [], 0) = Inr (w2, rem', k')"
    and p2: "planetSettled w2" and s2: "sunSettled w2"
    and c2: "\<forall>x\<in>set rem'. cloudSettled w2 x" and d2: "distinct rem'" and r2: "clouds w2 = rem'"
    by blast
  have f2: "plants w2 = []" "planet w2 = planet ws"
    using cloudLoop_objects[OF l] f1 pl by simp_all
  have tc: "tickClouds rnd (clouds ws) ?a ?dt = Inr (w2, k')"
    by (simp add: tickClouds_def gs w1 l)
  let ?w3 = "tickRain w2 (planet ws) ?dt"
  have t: "tickWorld ws now rnd = Inr ?w3"
    by (simp add: tickWorld_passes tc tickPlants_no_plants tickRain_settled f2)
  from p2 obtain r where r: "shape (objects w2 (planet ws)) = Circle r" "0 \<le> r"
    by (auto simp: planetSettled_def f2 split: shape.splits)
  have "list_all (aloft (objects ?w3 (planet ?w3))) (rain ?w3)"
    using tickRain_aloft[OF r] by (simp add: tickRain_settled f2)
  then have "settled ?w3"
    using p2 s2 c2 d2 r2 by (simp add: settled_def tickRain_settled list_all_iff)
  with t show ?thesis by (simp add: tickRain_settled f2)
qed

lemma reachable_settled:
  assumes "reachable ws ws'" and "settled ws" and "plants ws = []"
  shows "settled ws' \<and> plants ws' = []"
  using assms
proof (induction rule: reachable.induct)
  case (start ws)
  then show ?case by simp
next
  case (tick ws ws1 now rnd ws2)
  then have "settled ws1" "plants ws1 = []" by simp_all
  from tickWorld_settled[OF this, of now rnd] tick.hyps(2) show ?case by simp
qed

text \<open>What the settled worlds give to the statements above.\<close>

lemma settled_things:
  assumes "settled ws"
  shows "list_all (anchored (objects ws)) (things ws)"
    and "list_all (\<lambda>c. c < nextRef ws) (things ws)"
    and "list_all (\<lambda>c. 0 < mass (cloudParts ws c)) (clouds ws)"
    and "allocated ws"
  using assms
  by (auto simp: settled_def planetSettled_def sunSettled_def cloudSettled_def things_def
      anchored_def allocated_def list_all_iff)

section \<open>The worlds of the running program: the initial world\<close>

text \<open>The initial world is settled.\<close>

lemma settled_extend:
  assumes p: "planetSettled ws"
    and o: "\<And>y. y < nextRef ws \<Longrightarrow> objects ws' y = objects ws y"
    and cp: "\<And>y. y < nextRef ws \<Longrightarrow> cloudParts ws' y = cloudParts ws y"
    and n: "nextRef ws \<le> nextRef ws'" and pl: "planet ws' = planet ws"
  shows "planetSettled ws'"
    and "cloudSettled ws x \<Longrightarrow> cloudSettled ws' x"
proof -
  have pp: "planet ws < nextRef ws" "orbit (objects ws (planet ws)) = None"
    using p by (simp_all add: planetSettled_def)
  show "planetSettled ws'"
    using p n by (simp add: planetSettled_def pl o[OF pp(1)])
  show "cloudSettled ws' x" if "cloudSettled ws x"
  proof -
    from that have x: "x < nextRef ws" by (simp add: cloudSettled_def)
    have "list_all (\<lambda>f. f < nextRef ws') (friends (cloudParts ws x))"
      using that n by (auto simp: cloudSettled_def list_all_iff)
    moreover have "anchored (objects ws') x"
      using that pp by (auto simp: cloudSettled_def anchored_def o[OF x] o[OF pp(1)]
          split: option.splits)
    ultimately show ?thesis
      using that n x by (auto simp: cloudSettled_def pl o[OF x] cp[OF x] split: option.splits)
  qed
qed

lemma createInitialCloud_settled:
  assumes p: "planetSettled ws" and d: "distinct (clouds ws)"
    and c: "\<forall>x\<in>set (clouds ws). cloudSettled ws x"
  shows "\<exists>ws'. createInitialCloud rnd i ws = Inr ws'
      \<and> planetSettled ws' \<and> distinct (clouds ws')
      \<and> (\<forall>x\<in>set (clouds ws'). cloudSettled ws' x)
      \<and> rain ws' = rain ws \<and> plants ws' = plants ws \<and> planet ws' = planet ws"
proof -
  from p obtain r where "shape (objects ws (planet ws)) = Circle r"
    by (auto simp: planetSettled_def split: shape.splits)
  from createRandomCloud_total[OF this, of rnd "5 * i" "planet ws"]
  obtain new ob a b r' where n: "createRandomCloud rnd (5 * i) (objects ws (planet ws)) (planet ws) = Inr new"
    "mass (snd new) = 5" "friends (snd new) = []" "shape (fst new) = Ellipse a b"
    "orbit (fst new) = Some ob" "target ob = planet ws" "orbit_shape ob = Circle r'"
    "location (fst new) = orbitPoint ob"
    by blast
  have m: "0 < mass (snd new)" using n(2) by simp
  note al = allocCloud_settled[OF p m n(3,4,5,6,7,8)]
  define w where "w = (allocCloud ws new)\<lparr>clouds := clouds ws @ [nextRef ws]\<rparr>"
  have e: "createInitialCloud rnd i ws = Inr w"
    by (simp add: createInitialCloud_def n(1) w_def)
  have w: "planetSettled w" "\<And>x. cloudSettled ws x \<Longrightarrow> cloudSettled w x"
    "cloudSettled w (nextRef ws)" "clouds w = clouds ws @ [nextRef ws]"
    "rain w = rain ws" "plants w = plants ws" "planet w = planet ws"
    using al by (simp_all add: w_def clouds_update_settled allocCloud_def)
  have "nextRef ws \<notin> set (clouds ws)"
    using c cloudSettled_orbit(3) by fastforce
  with d have d': "distinct (clouds w)" by (simp add: w(4))
  have c': "\<forall>x\<in>set (clouds w). cloudSettled w x"
    using c w(2,3) by (auto simp: w(4))
  show ?thesis
    by (rule exI[of _ w]) (intro conjI e w(1) d' c' w(5) w(6) w(7))
qed

lemma createInitialWorldState_settled:
  "\<exists>ws. createInitialWorldState now rnd = Inr ws \<and> settled ws \<and> plants ws = []"
proof -
  define po where "po = \<lparr>location = (0, 0), rotation = 0, orbit = None, shape = Circle 3,
    rotationalVelocity = (2 * pi) / ticksInADay\<rparr>"
  define ws0 where "ws0 = \<lparr>lastTick = now, tick = 0, planet = 0, sun = 0, clouds = [], rain = [],
    ground = 0, plants = [], objects = (\<lambda>r. po),
    cloudParts = (\<lambda>r. \<lparr>mass = 0, state = Floating, friends = []\<rparr>), nextRef = 1\<rparr>"
  define P where "P w \<longleftrightarrow> planetSettled w \<and> distinct (clouds w)
      \<and> (\<forall>x\<in>set (clouds w). cloudSettled w x) \<and> rain w = [] \<and> plants w = []"
    for w :: worldState
  have "P ws0" by (simp add: P_def ws0_def po_def planetSettled_def)
  then have "\<exists>ws1. foldE (createInitialCloud rnd) [0..<20] ws0 = Inr ws1 \<and> P ws1"
  proof (rule foldE_total)
    fix i t assume "P t"
    then show "\<exists>t'. createInitialCloud rnd i t = Inr t' \<and> P t'"
      using createInitialCloud_settled[of t rnd i] by (auto simp: P_def)
  qed
  then obtain ws1 where f: "foldE (createInitialCloud rnd) [0..<20] ws0 = Inr ws1" and "P ws1"
    by blast
  then have p1: "planetSettled ws1" and d1: "distinct (clouds ws1)"
    and c1: "\<And>x. x \<in> set (clouds ws1) \<Longrightarrow> cloudSettled ws1 x"
    and r1: "rain ws1 = []" "plants ws1 = []"
    by (simp_all add: P_def)
  define so where "so = \<lparr>location = ellipse_calcRotationalPoint sunOrbitEllipse 0,
    rotation = 0,
    orbit = Some \<lparr>orbit_rotation = 0, orbit_rotationalVelocity = (2 * pi) / ticksInAYear,
       target = planet ws1,
       orbit_shape = Ellipse (fst sunOrbitEllipse) (snd sunOrbitEllipse)\<rparr>,
    shape = Circle 20, rotationalVelocity = 0\<rparr>"
  define w where "w = ws1\<lparr>sun := nextRef ws1, objects := (objects ws1)(nextRef ws1 := so),
    nextRef := Suc (nextRef ws1)\<rparr>"
  have e: "createInitialWorldState now rnd = Inr w"
    unfolding createInitialWorldState_def Let_def po_def[symmetric] ws0_def[symmetric] f
    by (simp add: w_def so_def)
  have pp: "planet ws1 < nextRef ws1" "orbit (objects ws1 (planet ws1)) = None"
    "location (objects ws1 (planet ws1)) = (0, 0)"
    using p1 by (simp_all add: planetSettled_def)
  have ext: "planetSettled w" "\<And>x. cloudSettled ws1 x \<Longrightarrow> cloudSettled w x"
    using p1 by (rule settled_extend; simp add: w_def)+
  have su: "sunSettled w"
    using pp by (simp add: sunSettled_def w_def so_def anchored_def orbitPoint_def add_def)
  have fields: "clouds w = clouds ws1" "rain w = []" "plants w = []"
    using r1 by (simp_all add: w_def)
  have s: "settled w"
    using ext su d1 c1 by (simp add: settled_def fields list_all_iff)
  from e s fields(3) show ?thesis by simp
qed

text \<open>
  So every world of the running program is settled and has no plants, and each of its ticks
  returns.
\<close>

lemma running_worlds_settled:
  assumes "createInitialWorldState now0 rnd0 = Inr ws0" and "reachable ws0 ws"
  shows "settled ws \<and> plants ws = [] \<and> (\<exists>ws'. tickWorld ws now rnd = Inr ws')"
proof -
  from createInitialWorldState_settled[of now0 rnd0] assms(1)
  have "settled ws0" "plants ws0 = []" by auto
  from reachable_settled[OF assms(2) this] have "settled ws" "plants ws = []" by simp_all
  with tickWorld_settled[OF this, of now rnd] show ?thesis by blast
qed

section \<open>The rain pass in the worlds of the running program\<close>

text \<open>A jittered point of a circle of radius at least 1 around the origin is not the origin.\<close>

lemma half_square_bound:
  fixes x :: real
  assumes "0 \<le> x" and "x \<le> 1"
  shows "(x - 1 / 2)\<^sup>2 \<le> 1 / 4"
proof -
  have "x * (x - 1) \<le> 0" using assms by (simp add: mult_nonneg_nonpos)
  moreover have "(x - 1 / 2)\<^sup>2 = x * (x - 1) + 1 / 4"
    by (simp add: power2_eq_square algebra_simps)
  ultimately show ?thesis by simp
qed

lemma circle_point_square:
  "(fst (circle_calcRotationalPoint r t))\<^sup>2 + (snd (circle_calcRotationalPoint r t))\<^sup>2 = r\<^sup>2"
proof -
  have "(r * cos t)\<^sup>2 + (r * sin t)\<^sup>2 = r\<^sup>2 * (cos t)\<^sup>2 + r\<^sup>2 * (sin t)\<^sup>2"
    by (simp only: power_mult_distrib)
  also have "\<dots> = r\<^sup>2 * ((cos t)\<^sup>2 + (sin t)\<^sup>2)"
    by (simp only: distrib_left)
  also have "\<dots> = r\<^sup>2" by simp
  finally show ?thesis
    unfolding circle_calcRotationalPoint_def fst_conv snd_conv .
qed

lemma addCloudJitter_off_centre:
  assumes l: "location co = circle_calcRotationalPoint r t" and r: "1 \<le> r"
    and d: "unitDraws rnd"
  shows "addCloudJitter rnd k co \<noteq> (0, 0)"
proof
  assume z: "addCloudJitter rnd k co = (0, 0)"
  define a where "a = rnd k"
  define b where "b = rnd (k + 1)"
  from d have ab: "0 \<le> a" "a \<le> 1" "0 \<le> b" "b \<le> 1"
    by (simp_all add: unitDraws_def a_def b_def less_imp_le)
  from z have x: "fst (location co) = - (a - 1 / 2)" and y: "snd (location co) = - ((b - 1 / 2) * 0.3)"
    by (simp_all add: addCloudJitter_def a_def b_def)
  have "r\<^sup>2 = (fst (location co))\<^sup>2 + (snd (location co))\<^sup>2"
    by (simp add: l circle_point_square)
  also have "\<dots> = (a - 1 / 2)\<^sup>2 + (b - 1 / 2)\<^sup>2 * 0.09"
    by (simp add: x y power2_eq_square algebra_simps)
  also have "\<dots> \<le> 1 / 4 + 1 / 4 * 0.09"
    using half_square_bound[OF ab(1,2)] half_square_bound[OF ab(3,4)] by simp
  also have "\<dots> < 1" by simp
  finally have "r\<^sup>2 < 1" .
  moreover have "1 \<le> r\<^sup>2" using r by (simp add: one_le_power)
  ultimately show False by simp
qed

text \<open>A cloud that createRandomCloud makes orbits at the minimum cloud height or higher.\<close>

lemma createRandomCloud_high:
  assumes "createRandomCloud rnd k po pr = Inr new" and "shape po = Circle r0" and "0 \<le> r0"
    and "unitDraws rnd"
  shows "\<exists>ob r. orbit (fst new) = Some ob \<and> orbit_shape ob = Circle r \<and> 1 \<le> r"
  using assms by (auto simp: createRandomCloud_def Let_def unitDraws_def)

text \<open>What one iteration of the loop over the clouds adds to the rain and to the clouds.\<close>

lemma rainingCloud_effects:
  assumes "rainingCloud rnd dt c cm (ws, rem, k) = Inr (ws', rem', k')"
  shows "objects ws' = objects ws \<and> nextRef ws' = nextRef ws \<and> planet ws' = planet ws
      \<and> set rem' \<subseteq> set rem \<union> {c}
      \<and> (rain ws' = rain ws
          \<or> (\<exists>v. rain ws' = rain ws @
                [\<lparr>rain_location = addCloudJitter rnd (k + 1) (objects ws c), velocity = v\<rparr>]))"
  using assms
  by (auto simp: rainingCloud_def Let_def split: option.splits shape.splits if_splits)

lemma tickCloud_spawn_cases:
  assumes "tickCloud rnd dt n c (ws, rem, k) = Inr (ws', rem', k')"
  obtains w1 w2 rem2 k2 where
    "w1 = (if collectiveMass (cloudParts ws) c > rainThreshold
           then ws\<lparr>cloudParts := startRaining c (cloudParts ws)\<rparr> else ws)"
    and "if state (cloudParts w1 c) = Raining
         then rainingCloud rnd dt c (collectiveMass (cloudParts ws) c) (w1, rem, k) = Inr (w2, rem2, k2)
         else w2 = w1 \<and> rem2 = rem @ [c] \<and> k2 = k"
    and "(ws' = w2\<lparr>clouds := rem2\<rparr> \<and> rem' = rem2)
         \<or> (\<exists>new. createRandomCloud rnd (k2 + 1) (objects w2 (planet w2)) (planet w2) = Inr new
                \<and> ws' = (allocCloud (w2\<lparr>clouds := rem2\<rparr>) new)\<lparr>clouds := rem2 @ [nextRef w2]\<rparr>
                \<and> rem' = rem2 @ [nextRef w2])"
  using assms
  by (auto simp: tickCloud_def Let_def split: sum.splits if_splits prod.splits)

lemma tickCloud_effects:
  assumes t: "tickCloud rnd dt n c (ws, rem, k) = Inr (ws', rem', k')"
  shows "rain ws' = rain ws
      \<or> (\<exists>k1 v. rain ws' = rain ws @
            [\<lparr>rain_location = addCloudJitter rnd k1 (objects ws c), velocity = v\<rparr>])"
    and "x \<in> set rem' \<Longrightarrow> x \<in> set rem \<or> x = c
      \<or> (x = nextRef ws \<and> nextRef ws' = Suc (nextRef ws)
          \<and> (\<exists>k2 new. createRandomCloud rnd k2 (objects ws (planet ws)) (planet ws) = Inr new
                \<and> objects ws' (nextRef ws) = fst new))"
proof -
  from t obtain w1 w2 rem2 k2 where
    w1: "w1 = (if collectiveMass (cloudParts ws) c > rainThreshold
           then ws\<lparr>cloudParts := startRaining c (cloudParts ws)\<rparr> else ws)"
    and b: "if state (cloudParts w1 c) = Raining
         then rainingCloud rnd dt c (collectiveMass (cloudParts ws) c) (w1, rem, k) = Inr (w2, rem2, k2)
         else w2 = w1 \<and> rem2 = rem @ [c] \<and> k2 = k"
    and e: "(ws' = w2\<lparr>clouds := rem2\<rparr> \<and> rem' = rem2)
         \<or> (\<exists>new. createRandomCloud rnd (k2 + 1) (objects w2 (planet w2)) (planet w2) = Inr new
                \<and> ws' = (allocCloud (w2\<lparr>clouds := rem2\<rparr>) new)\<lparr>clouds := rem2 @ [nextRef w2]\<rparr>
                \<and> rem' = rem2 @ [nextRef w2])"
    by (rule tickCloud_spawn_cases)
  have f1: "objects w1 = objects ws" "nextRef w1 = nextRef ws" "planet w1 = planet ws"
    "rain w1 = rain ws"
    by (simp_all add: w1)
  have f2: "objects w2 = objects ws \<and> nextRef w2 = nextRef ws \<and> planet w2 = planet ws
      \<and> set rem2 \<subseteq> set rem \<union> {c}
      \<and> (rain w2 = rain ws
          \<or> (\<exists>v. rain w2 = rain ws @
                [\<lparr>rain_location = addCloudJitter rnd (k + 1) (objects ws c), velocity = v\<rparr>]))"
  proof (cases "state (cloudParts w1 c) = Raining")
    case True
    with b have "rainingCloud rnd dt c (collectiveMass (cloudParts ws) c) (w1, rem, k)
        = Inr (w2, rem2, k2)" by simp
    from rainingCloud_effects[OF this] show ?thesis by (simp add: f1)
  next
    case False
    with b show ?thesis by (auto simp: f1)
  qed
  have r: "rain ws' = rain w2"
    using e by (auto simp: allocCloud_def)
  with f2 show "rain ws' = rain ws
      \<or> (\<exists>k1 v. rain ws' = rain ws @
            [\<lparr>rain_location = addCloudJitter rnd k1 (objects ws c), velocity = v\<rparr>])"
    by auto
  show "x \<in> set rem \<or> x = c
      \<or> (x = nextRef ws \<and> nextRef ws' = Suc (nextRef ws)
          \<and> (\<exists>k2 new. createRandomCloud rnd k2 (objects ws (planet ws)) (planet ws) = Inr new
                \<and> objects ws' (nextRef ws) = fst new))" if x: "x \<in> set rem'"
    using e
  proof
    assume "ws' = w2\<lparr>clouds := rem2\<rparr> \<and> rem' = rem2"
    with x f2 show ?thesis by auto
  next
    assume "\<exists>new. createRandomCloud rnd (k2 + 1) (objects w2 (planet w2)) (planet w2) = Inr new
                \<and> ws' = (allocCloud (w2\<lparr>clouds := rem2\<rparr>) new)\<lparr>clouds := rem2 @ [nextRef w2]\<rparr>
                \<and> rem' = rem2 @ [nextRef w2]"
    then obtain new where n: "createRandomCloud rnd (k2 + 1) (objects w2 (planet w2)) (planet w2) = Inr new"
      "ws' = (allocCloud (w2\<lparr>clouds := rem2\<rparr>) new)\<lparr>clouds := rem2 @ [nextRef w2]\<rparr>"
      "rem' = rem2 @ [nextRef w2]" by blast
    from f2 have g: "objects w2 = objects ws" "nextRef w2 = nextRef ws" "planet w2 = planet ws"
      "set rem2 \<subseteq> set rem \<union> {c}" by simp_all
    have a: "nextRef ws' = Suc (nextRef ws)" and o: "objects ws' (nextRef ws) = fst new"
      by (simp_all add: n(2) allocCloud_def g)
    from n(1) have "createRandomCloud rnd (k2 + 1) (objects ws (planet ws)) (planet ws) = Inr new"
      by (simp only: g)
    with o have "\<exists>k2 new. createRandomCloud rnd k2 (objects ws (planet ws)) (planet ws) = Inr new
        \<and> objects ws' (nextRef ws) = fst new" by blast
    moreover have "x \<in> set rem \<or> x = c \<or> x = nextRef ws" using x n(3) g(2,4) by auto
    ultimately show ?thesis using a by blast
  qed
qed

lemma cloudHigh_cong: "objects ws' x = objects ws x \<Longrightarrow> cloudHigh ws' x = cloudHigh ws x"
  by (simp add: cloudHigh_def)

lemma settled_cloud_location:
  assumes "planetSettled ws" and "cloudSettled ws c" and "cloudHigh ws c"
  shows "\<exists>r t. location (objects ws c) = circle_calcRotationalPoint r t \<and> 1 \<le> r"
proof -
  from assms(2) obtain ob where ob: "orbit (objects ws c) = Some ob" "target ob = planet ws"
    and a: "anchored (objects ws) c"
    by (auto simp: cloudSettled_def split: option.splits)
  from assms(3) ob(1) obtain r where r: "orbit_shape ob = Circle r" "1 \<le> r"
    by (auto simp: cloudHigh_def split: shape.splits)
  from assms(1) have "location (objects ws (planet ws)) = (0, 0)"
    by (simp add: planetSettled_def)
  with a ob have "location (objects ws c) = add (orbitPoint ob) (0, 0)"
    by (simp add: anchored_def)
  then have "location (objects ws c) = circle_calcRotationalPoint r (orbit_rotation ob)"
    by (simp add: orbitPoint_def r(1) add_def)
  with r(2) show ?thesis by blast
qed

text \<open>
  The loop over the clouds, with draws in the unit interval: the clouds it keeps and the
  clouds it spawns orbit at the minimum cloud height or higher, and no particle of the rain
  it leaves is at the origin.
\<close>

lemma cloudLoop_clear:
  assumes l: "foldE (tickCloud rnd dt n) cs (w1, [], 0) = Inr (w2, rem', k')"
    and d: "unitDraws rnd"
    and p: "planetSettled w1"
    and c: "\<And>x. x \<in> set cs \<Longrightarrow> cloudSettled w1 x \<and> cloudHigh w1 x"
    and r: "\<forall>r\<in>set (rain w1). rain_location r \<noteq> (0, 0)"
  shows "(\<forall>x\<in>set rem'. cloudHigh w2 x) \<and> (\<forall>r\<in>set (rain w2). rain_location r \<noteq> (0, 0))
      \<and> set (rain w1) \<subseteq> set (rain w2)"
proof -
  define K where "K st \<longleftrightarrow> nextRef w1 \<le> nextRef (fst st) \<and> planet (fst st) = planet w1
      \<and> (\<forall>x<nextRef w1. objects (fst st) x = objects w1 x)
      \<and> (\<forall>x\<in>set (fst (snd st)). x < nextRef (fst st) \<and> cloudHigh (fst st) x)
      \<and> (\<forall>r\<in>set (rain (fst st)). rain_location r \<noteq> (0, 0))
      \<and> set (rain w1) \<subseteq> set (rain (fst st))"
    for st :: "worldState \<times> ref list \<times> nat"
  from p have pl: "planet w1 < nextRef w1"
    and "\<exists>r0. shape (objects w1 (planet w1)) = Circle r0 \<and> 0 \<le> r0"
    by (auto simp: planetSettled_def split: shape.splits)
  then obtain r0 where r0: "shape (objects w1 (planet w1)) = Circle r0" "0 \<le> r0" by blast
  have "K (w2, rem', k')"
    using l
  proof (rule foldE_invariant)
    show "K (w1, [], 0)" using r by (simp add: K_def)
  next
    fix x t t'
    assume x: "x \<in> set cs" and k: "K t" and s: "tickCloud rnd dt n x t = Inr t'"
    obtain w rem k0 where t: "t = (w, rem, k0)" by (cases t) auto
    obtain w' rem2 k2 where t': "t' = (w', rem2, k2)" by (cases t') auto
    note s' = s[unfolded t t']
    from k have k1: "nextRef w1 \<le> nextRef w" and k2: "planet w = planet w1"
      and k3: "\<And>y. y < nextRef w1 \<Longrightarrow> objects w y = objects w1 y"
      and k4: "\<And>y. y \<in> set rem \<Longrightarrow> y < nextRef w \<and> cloudHigh w y"
      and k5: "\<And>q. q \<in> set (rain w) \<Longrightarrow> rain_location q \<noteq> (0, 0)"
      and k6: "set (rain w1) \<subseteq> set (rain w)"
      by (simp_all add: K_def t)
    from tickCloud_objects[OF s']
    have o1: "nextRef w \<le> nextRef w'" and o2: "planet w' = planet w"
      and o3: "\<And>y. y < nextRef w \<Longrightarrow> objects w' y = objects w y"
      by simp_all
    from c[OF x] have cx: "cloudSettled w1 x" "cloudHigh w1 x" by simp_all
    then have xb: "x < nextRef w1" by (simp add: cloudSettled_def)
    from settled_cloud_location[OF p cx] obtain r t0 where
      loc: "location (objects w1 x) = circle_calcRotationalPoint r t0" "1 \<le> r" by blast
    have "location (objects w x) = circle_calcRotationalPoint r t0"
      using loc(1) k3[OF xb] by simp
    from addCloudJitter_off_centre[OF this loc(2) d]
    have j: "addCloudJitter rnd k1 (objects w x) \<noteq> (0, 0)" for k1 .
    have rain: "\<forall>q\<in>set (rain w'). rain_location q \<noteq> (0, 0)"
    proof
      fix q assume q: "q \<in> set (rain w')"
      from tickCloud_effects(1)[OF s'] show "rain_location q \<noteq> (0, 0)"
      proof
        assume "rain w' = rain w"
        with q k5 show ?thesis by simp
      next
        assume "\<exists>k1 v. rain w' = rain w @
            [\<lparr>rain_location = addCloudJitter rnd k1 (objects w x), velocity = v\<rparr>]"
        then obtain k1 v where "rain w' = rain w @
            [\<lparr>rain_location = addCloudJitter rnd k1 (objects w x), velocity = v\<rparr>]" by blast
        with q have "q \<in> set (rain w)
            \<or> q = \<lparr>rain_location = addCloudJitter rnd k1 (objects w x), velocity = v\<rparr>"
          by auto
        then show ?thesis using k5[of q] j[of k1] by auto
      qed
    qed
    have high: "y < nextRef w' \<and> cloudHigh w' y" if y: "y \<in> set rem2" for y
    proof -
      from tickCloud_effects(2)[OF s' y]
      consider "y \<in> set rem" | "y = x"
        | k3 new where "y = nextRef w" "nextRef w' = Suc (nextRef w)"
          "createRandomCloud rnd k3 (objects w (planet w)) (planet w) = Inr new"
          "objects w' (nextRef w) = fst new"
        by blast
      then show ?thesis
      proof cases
        case 1
        with k4[of y] o1 o3[of y] cloudHigh_cong[of w' y w] show ?thesis by simp
      next
        case 2
        have "y < nextRef w" using 2 xb k1 by simp
        moreover have "cloudHigh w y"
          using 2 cx(2) k3[OF xb] cloudHigh_cong[of w x w1] by simp
        ultimately show ?thesis using o1 o3[of y] cloudHigh_cong[of w' y w] by simp
      next
        case 3
        have "shape (objects w (planet w)) = Circle r0"
          using r0(1) k2 k3[OF pl] by simp
        from createRandomCloud_high[OF 3(3) this r0(2) d] 3(4)
        have "cloudHigh w' (nextRef w)" by (auto simp: cloudHigh_def)
        with 3(1,2) show ?thesis by simp
      qed
    qed
    have more: "set (rain w1) \<subseteq> set (rain w')"
      using tickCloud_effects(1)[OF s'] k6 by auto
    have "nextRef w1 \<le> nextRef w'" using k1 o1 by simp
    moreover have "planet w' = planet w1" using k2 o2 by simp
    moreover have "\<forall>y<nextRef w1. objects w' y = objects w1 y"
      using k3 o3 k1 by auto
    ultimately show "K t'" using high rain more by (simp add: K_def t')
  qed
  then show ?thesis by (simp add: K_def)
qed

lemma cloudHigh_orbit_shape:
  assumes "map_option orbit_shape (orbit (objects ws' x)) = map_option orbit_shape (orbit (objects ws x))"
  shows "cloudHigh ws' x = cloudHigh ws x"
  using assms
  by (cases "orbit (objects ws' x)"; cases "orbit (objects ws x)") (auto simp: cloudHigh_def)

text \<open>
  The world that the cloud pass of a tick hands to the rain pass: in it no rain particle is
  at the planet's centre, and its clouds again orbit at the minimum cloud height or higher.
\<close>

lemma tickWorld_clear:
  assumes s: "settled ws" and pl: "plants ws = []"
    and h: "list_all (cloudHigh ws) (clouds ws)" and dr: "unitDraws rnd"
  shows "\<exists>w k. tickClouds rnd (clouds ws) (afterKinematics ws now) (elapsed ws now) = Inr (w, k)
      \<and> tickWorld ws now rnd = Inr (tickRain w (planet ws) (elapsed ws now))
      \<and> plants w = [] \<and> planetSettled w \<and> planet w = planet ws
      \<and> list_all (cloudHigh w) (clouds w)
      \<and> location (objects w (planet ws)) = location (objects ws (planet ws))
      \<and> shape (objects w (planet ws)) = shape (objects ws (planet ws))
      \<and> set (rain ws) \<subseteq> set (rain w)
      \<and> (\<forall>r\<in>set (rain w). rain_location r \<noteq> location (objects w (planet ws)))"
proof -
  let ?a = "afterKinematics ws now"
  let ?dt = "elapsed ws now"
  from s have p: "planetSettled ws" and su: "sunSettled ws" and d: "distinct (clouds ws)"
    and cl: "\<And>c. c \<in> set (clouds ws) \<Longrightarrow> cloudSettled ws c"
    and al: "\<And>r. r \<in> set (rain ws) \<Longrightarrow> aloft (objects ws (planet ws)) r"
    by (simp_all add: settled_def list_all_iff)
  have pa: "planetSettled ?a" using p by (rule afterKinematics_planetSettled)
  have sa: "sunSettled ?a" using p su by (rule afterKinematics_sunSettled)
  have ca: "cloudSettled ?a c" if "c \<in> set (clouds ws)" for c
    using p cl[OF that] that by (rule afterKinematics_cloudSettled)
  have ha: "cloudHigh ?a c" if "c \<in> set (clouds ws)" for c
  proof -
    have "cloudHigh ?a c = cloudHigh ws c"
      by (rule cloudHigh_orbit_shape)
        (simp add: afterKinematics_fields tickCelestialObjects_orbit_shape)
    with h that show ?thesis by (simp add: list_all_iff)
  qed
  have "\<exists>gs. getCloudGroups (objects ?a) (clouds ws) = Inr gs"
    by (intro getCloudGroups_total cloudSettled_orbit(1) ca)
  then obtain gs where gs: "getCloudGroups (objects ?a) (clouds ws) = Inr gs" by blast
  note sub = getCloudGroups_subset[OF gs]
  have "\<exists>w1. clusterClouds gs ?a = Inr w1"
  proof (rule clusterClouds_total)
    fix g c assume "g \<in> set gs" "c \<in> set g"
    with sub have "c \<in> set (clouds ws)" by blast
    from cloudSettled_orbit[OF ca[OF this]]
    show "(case shape (objects ?a c) of Circle r \<Rightarrow> False | Ellipse a b \<Rightarrow> True)
        \<and> orbit (objects ?a c) \<noteq> None"
      by simp
  qed
  then obtain w1 where w1: "clusterClouds gs ?a = Inr w1" by blast
  have below: "c < nextRef ?a" if "c \<in> set (clouds ws)" for c
    using ca[OF that] by (rule cloudSettled_orbit)
  note k = clusterClouds_settled[OF w1 sub below]
  have p1: "planetSettled w1" and s1: "sunSettled w1"
    and c1: "\<forall>x\<in>set (clouds ws) \<union> set []. cloudSettled w1 x"
    using k pa sa ca by simp_all
  have h1: "cloudHigh w1 c" if "c \<in> set (clouds ws)" for c
  proof -
    from clusterClouds_orbits[OF w1]
    have "map_option orbit_shape (orbit (objects w1 c)) = map_option orbit_shape (orbit (objects ?a c))"
      by (cases "orbit (objects w1 c)"; cases "orbit (objects ?a c)") (auto dest: spec[of _ c])
    from cloudHigh_orbit_shape[OF this] ha[OF that] show ?thesis by simp
  qed
  have f1: "clouds w1 = clouds ws" "plants w1 = plants ws" "planet w1 = planet ws"
    "rain w1 = rain ws"
    using clusterClouds_frame[OF w1] by (simp_all add: afterKinematics_fields)
  have "\<exists>w2 rem' k'. foldE (tickCloud rnd ?dt (length (clouds ws))) (clouds ws) (w1, [], 0)
        = Inr (w2, rem', k')
      \<and> planetSettled w2 \<and> sunSettled w2
      \<and> (\<forall>x\<in>set rem'. cloudSettled w2 x) \<and> distinct rem' \<and> clouds w2 = rem'"
    using p1 s1 d c1 by (rule cloudLoop_settled) (simp_all add: f1)
  then obtain w2 rem' k' where
    l: "foldE (tickCloud rnd ?dt (length (clouds ws))) (clouds ws) (w1, [], 0) = Inr (w2, rem', k')"
    and p2: "planetSettled w2" and r2: "clouds w2 = rem'"
    by blast
  have f2: "plants w2 = []" "planet w2 = planet ws"
    using cloudLoop_objects[OF l] f1 pl by simp_all
  have z: "location (objects ws (planet ws)) = (0, 0)" using p by (simp add: planetSettled_def)
  have z2: "location (objects w2 (planet ws)) = (0, 0)"
    using p2 f2 by (simp add: planetSettled_def)
  have r1: "\<forall>r\<in>set (rain w1). rain_location r \<noteq> (0, 0)"
    using al z by (auto simp: f1 aloft_def)
  have cs1: "cloudSettled w1 x \<and> cloudHigh w1 x" if "x \<in> set (clouds ws)" for x
    using that c1 h1 by simp
  note cc = cloudLoop_clear[OF l dr p1 cs1 r1]
  have tc: "tickClouds rnd (clouds ws) ?a ?dt = Inr (w2, k')"
    by (simp add: tickClouds_def gs w1 l)
  have t: "tickWorld ws now rnd = Inr (tickRain w2 (planet ws) ?dt)"
    by (simp add: tickWorld_passes tc tickPlants_no_plants tickRain_settled f2)
  have hh: "list_all (cloudHigh w2) (clouds w2)" using cc by (simp add: r2 list_all_iff)
  have rr: "\<forall>r\<in>set (rain w2). rain_location r \<noteq> location (objects w2 (planet ws))"
    using cc by (simp add: z2)
  have sup: "set (rain ws) \<subseteq> set (rain w2)" using cc by (simp add: f1)
  have lo: "location (objects w2 (planet ws)) = location (objects ws (planet ws))"
    using z z2 by simp
  have "planet ws < nextRef w1" using p1 f1 by (simp add: planetSettled_def)
  with cloudLoop_objects[OF l] have "objects w2 (planet ws) = objects w1 (planet ws)" by simp
  moreover have "shape (objects w1 (planet ws)) = shape (objects ?a (planet ws))"
    using clusterClouds_frame[OF w1] by simp
  moreover have "shape (objects ?a (planet ws)) = shape (objects ws (planet ws))"
    by (simp add: afterKinematics_fields tickCelestialObjects_shape)
  ultimately have sh: "shape (objects w2 (planet ws)) = shape (objects ws (planet ws))"
    by simp
  show ?thesis
    by (rule exI[of _ w2], rule exI[of _ k'])
       (intro conjI tc t f2 p2 hh lo sh sup rr)
qed

text \<open>The clouds of the initial world orbit at the minimum cloud height or higher.\<close>

lemma createInitialWorldState_high:
  assumes e: "createInitialWorldState now rnd = Inr ws" and dr: "unitDraws rnd"
  shows "list_all (cloudHigh ws) (clouds ws)"
proof -
  define po where "po = \<lparr>location = (0, 0), rotation = 0, orbit = None, shape = Circle 3,
    rotationalVelocity = (2 * pi) / ticksInADay\<rparr>"
  define ws0 where "ws0 = \<lparr>lastTick = now, tick = 0, planet = 0, sun = 0, clouds = [], rain = [],
    ground = 0, plants = [], objects = (\<lambda>r. po),
    cloudParts = (\<lambda>r. \<lparr>mass = 0, state = Floating, friends = []\<rparr>), nextRef = 1\<rparr>"
  define I where "I w \<longleftrightarrow> planet w < nextRef w \<and> shape (objects w (planet w)) = Circle 3
      \<and> (\<forall>x\<in>set (clouds w). x < nextRef w \<and> cloudHigh w x)" for w :: worldState
  from e obtain ws1 where f: "foldE (createInitialCloud rnd) [0..<20] ws0 = Inr ws1"
    and w: "ws = ws1\<lparr>sun := nextRef ws1,
        objects := (objects ws1)(nextRef ws1 :=
          \<lparr>location = ellipse_calcRotationalPoint sunOrbitEllipse 0,
           rotation = 0,
           orbit = Some
             \<lparr>orbit_rotation = 0,
              orbit_rotationalVelocity = (2 * pi) / ticksInAYear,
              target = planet ws1,
              orbit_shape = Ellipse (fst sunOrbitEllipse) (snd sunOrbitEllipse)\<rparr>,
           shape = Circle 20,
           rotationalVelocity = 0\<rparr>),
        nextRef := Suc (nextRef ws1)\<rparr>"
    unfolding createInitialWorldState_def Let_def po_def[symmetric] ws0_def[symmetric]
    by (auto split: sum.splits)
  have "I ws1"
    using f
  proof (rule foldE_invariant)
    show "I ws0" by (simp add: I_def ws0_def po_def)
  next
    fix i t t'
    assume i: "I t" and c: "createInitialCloud rnd i t = Inr t'"
    from c obtain new where
      n: "createRandomCloud rnd (5 * i) (objects t (planet t)) (planet t) = Inr new"
      and t': "t' = (allocCloud t new)\<lparr>clouds := clouds t @ [nextRef t]\<rparr>"
      by (auto simp: createInitialCloud_def split: sum.splits)
    from i have sh: "shape (objects t (planet t)) = Circle 3" and pb: "planet t < nextRef t"
      and old: "\<And>x. x \<in> set (clouds t) \<Longrightarrow> x < nextRef t \<and> cloudHigh t x"
      by (simp_all add: I_def)
    from createRandomCloud_high[OF n sh _ dr]
    have nh: "cloudHigh t' (nextRef t)" by (auto simp: cloudHigh_def t' allocCloud_def)
    have keep: "objects t' x = objects t x" if "x < nextRef t" for x
      using that by (simp add: t' allocCloud_def)
    have "x < nextRef t' \<and> cloudHigh t' x" if "x \<in> set (clouds t')" for x
    proof (cases "x = nextRef t")
      case True
      with nh show ?thesis by (simp add: t' allocCloud_def)
    next
      case False
      with that have x: "x \<in> set (clouds t)" by (simp add: t')
      from old[OF this] keep[of x] cloudHigh_cong[of t' x t] show ?thesis
        by (simp add: t' allocCloud_def)
    qed
    moreover have "planet t' < nextRef t'" "shape (objects t' (planet t')) = Circle 3"
      using pb sh by (simp_all add: t' allocCloud_def)
    ultimately show "I t'" by (simp add: I_def)
  qed
  then have old: "\<And>x. x \<in> set (clouds ws1) \<Longrightarrow> x < nextRef ws1 \<and> cloudHigh ws1 x"
    by (simp add: I_def)
  have "cloudHigh ws x" if "x \<in> set (clouds ws)" for x
  proof -
    from that have x: "x \<in> set (clouds ws1)" by (simp add: w)
    from old[OF x] have "objects ws x = objects ws1 x" by (simp add: w)
    from cloudHigh_cong[OF this] old[OF x] show ?thesis by simp
  qed
  then show ?thesis by (simp add: list_all_iff)
qed

lemma tickRain_cloudHigh: "cloudHigh (tickRain ws p dt) x = cloudHigh ws x"
  by (simp add: cloudHigh_def tickRain_def)

text \<open>A tick of a program world, with unit draws, returns a program world.\<close>

lemma tickWorld_programWorld:
  assumes "programWorld ws" and "unitDraws rnd" and "tickWorld ws now rnd = Inr ws'"
  shows "programWorld ws'"
proof -
  from assms(1) have i: "settled ws" "plants ws = []" "list_all (cloudHigh ws) (clouds ws)"
    by (simp_all add: programWorld_def)
  from tickWorld_settled[OF i(1,2), of now rnd] assms(3)
  have a: "settled ws'" "plants ws' = []" by auto
  from tickWorld_clear[OF i assms(2), of now] assms(3)
  obtain w where "ws' = tickRain w (planet ws) (elapsed ws now)"
    "list_all (cloudHigh w) (clouds w)" by auto
  then have "list_all (cloudHigh ws') (clouds ws')"
    by (simp add: tickRain_cloudHigh tickRain_settled list_all_iff)
  with a show ?thesis by (simp add: programWorld_def)
qed

text \<open>Every world of the running program is a program world.\<close>

lemma running_programWorld:
  assumes "running ws"
  shows "programWorld ws"
  using assms
proof (induction rule: running.induct)
  case (initial rnd now ws)
  from createInitialWorldState_settled[of now rnd] initial(2)
  have "settled ws \<and> plants ws = []" by auto
  with createInitialWorldState_high[OF initial(2,1)] show ?case by (simp add: programWorld_def)
next
  case (tick ws rnd now ws')
  then show ?case by (auto intro: tickWorld_programWorld)
qed

text \<open>
  C7. The rain pass applies \<open>unitVector\<close> to the vector from a rain particle to the
  planet's centre, and that vector is guaranteed to be nonzero. Every world of the running
  program is a program world; and in every program world, for any clock and any unit draws,
  the cloud pass of the tick returns, and no particle of the rain it hands to the rain pass
  is at the planet's centre. The particles it hands over are those of the world before the
  tick and those that the clouds have just emitted, and the planet is where it was, with the
  shape it had. For each particle the direction is a unit vector, the clipped velocity is
  finite and of magnitude at most \<open>maxRainVelocity\<close> (so the \<open>unitVector\<close> inside
  \<open>clipMagnitude\<close> is not given a zero vector either), and the pass moves the particle
  by that velocity and retains it exactly when it is then above the planet's surface. The
  world that the rain pass leaves has no plant, so the plant pass calls no vector
  operation; the tick returns that world, and it is a program world again.
\<close>

theorem rain_pass_normalises_no_zero_vector:
  assumes "running ws \<or> programWorld ws" and "unitDraws rnd"
  shows "programWorld ws
      \<and> (\<exists>w k. tickClouds rnd (clouds ws) (afterKinematics ws now) (elapsed ws now) = Inr (w, k)
      \<and> tickWorld ws now rnd = Inr (tickRain w (planet ws) (elapsed ws now))
      \<and> programWorld (tickRain w (planet ws) (elapsed ws now))
      \<and> plants (tickRain w (planet ws) (elapsed ws now)) = []
      \<and> location (objects w (planet ws)) = location (objects ws (planet ws))
      \<and> shape (objects w (planet ws)) = shape (objects ws (planet ws))
      \<and> set (rain ws) \<subseteq> set (rain w)
      \<and> (\<forall>r\<in>set (rain w).
            rain_location r \<noteq> location (objects w (planet ws))
            \<and> (\<exists>d v. unitVector (subtract (location (objects w (planet ws))) (rain_location r))
                       = Some d
                  \<and> magnitude d = 1
                  \<and> clipMagnitude (add (velocity r) (multiply d (gravity * elapsed ws now)))
                       maxRainVelocity = Some v
                  \<and> magnitude v \<le> maxRainVelocity
                  \<and> tickRainDrop (objects w (planet ws)) (elapsed ws now) r =
                      (if greaterThanShape
                            (magnitude (subtract (add (rain_location r) (multiply v (elapsed ws now)))
                               (location (objects w (planet ws)))))
                            (shape (objects w (planet ws)))
                       then Some \<lparr>rain_location = add (rain_location r) (multiply v (elapsed ws now)),
                                  velocity = v\<rparr>
                       else None))))"
proof -
  let ?dt = "elapsed ws now"
  from assms(1) have pw: "programWorld ws" by (auto intro: running_programWorld)
  then have i: "settled ws" "plants ws = []" "list_all (cloudHigh ws) (clouds ws)"
    by (simp_all add: programWorld_def)
  from tickWorld_clear[OF i assms(2), of now]
  obtain w k where tc: "tickClouds rnd (clouds ws) (afterKinematics ws now) ?dt = Inr (w, k)"
    and t: "tickWorld ws now rnd = Inr (tickRain w (planet ws) ?dt)"
    and lo: "location (objects w (planet ws)) = location (objects ws (planet ws))"
    and sh: "shape (objects w (planet ws)) = shape (objects ws (planet ws))"
    and sup: "set (rain ws) \<subseteq> set (rain w)"
    and off: "\<And>r. r \<in> set (rain w) \<Longrightarrow> rain_location r \<noteq> location (objects w (planet ws))"
    by blast
  let ?p = "objects w (planet ws)"
  from pw assms(2) t have pw': "programWorld (tickRain w (planet ws) ?dt)"
    by (rule tickWorld_programWorld)
  then have pl: "plants (tickRain w (planet ws) ?dt) = []" by (simp add: programWorld_def)
  have each: "rain_location r \<noteq> location ?p
      \<and> (\<exists>d v. unitVector (subtract (location ?p) (rain_location r)) = Some d
            \<and> magnitude d = 1
            \<and> clipMagnitude (add (velocity r) (multiply d (gravity * ?dt))) maxRainVelocity = Some v
            \<and> magnitude v \<le> maxRainVelocity
            \<and> tickRainDrop ?p ?dt r =
                (if greaterThanShape
                      (magnitude (subtract (add (rain_location r) (multiply v ?dt)) (location ?p)))
                      (shape ?p)
                 then Some \<lparr>rain_location = add (rain_location r) (multiply v ?dt), velocity = v\<rparr>
                 else None))"
    if r: "r \<in> set (rain w)" for r
  proof -
    note o = off[OF r]
    then have "unitVector (subtract (location ?p) (rain_location r)) \<noteq> None"
      by (simp add: unitVector_None_iff subtract_zero_iff)
    then obtain d where d: "unitVector (subtract (location ?p) (rain_location r)) = Some d"
      by auto
    have "0 < maxRainVelocity" by (simp add: maxRainVelocity_def)
    from clipMagnitude_positive[OF this]
    obtain v where v: "clipMagnitude (add (velocity r) (multiply d (gravity * ?dt))) maxRainVelocity
        = Some v" and m: "magnitude v \<le> maxRainVelocity" by blast
    have e: "tickRainDrop ?p ?dt r =
        (if greaterThanShape
              (magnitude (subtract (add (rain_location r) (multiply v ?dt)) (location ?p)))
              (shape ?p)
         then Some \<lparr>rain_location = add (rain_location r) (multiply v ?dt), velocity = v\<rparr>
         else None)"
      by (simp add: tickRainDrop_def Let_def d v)
    from o d magnitude_unitVector[OF d] v m e show ?thesis by blast
  qed
  have "\<exists>w k. tickClouds rnd (clouds ws) (afterKinematics ws now) (elapsed ws now) = Inr (w, k)
      \<and> tickWorld ws now rnd = Inr (tickRain w (planet ws) (elapsed ws now))
      \<and> programWorld (tickRain w (planet ws) (elapsed ws now))
      \<and> plants (tickRain w (planet ws) (elapsed ws now)) = []
      \<and> location (objects w (planet ws)) = location (objects ws (planet ws))
      \<and> shape (objects w (planet ws)) = shape (objects ws (planet ws))
      \<and> set (rain ws) \<subseteq> set (rain w)
      \<and> (\<forall>r\<in>set (rain w).
            rain_location r \<noteq> location (objects w (planet ws))
            \<and> (\<exists>d v. unitVector (subtract (location (objects w (planet ws))) (rain_location r))
                       = Some d
                  \<and> magnitude d = 1
                  \<and> clipMagnitude (add (velocity r) (multiply d (gravity * elapsed ws now)))
                       maxRainVelocity = Some v
                  \<and> magnitude v \<le> maxRainVelocity
                  \<and> tickRainDrop (objects w (planet ws)) (elapsed ws now) r =
                      (if greaterThanShape
                            (magnitude (subtract (add (rain_location r) (multiply v (elapsed ws now)))
                               (location (objects w (planet ws)))))
                            (shape (objects w (planet ws)))
                       then Some \<lparr>rain_location = add (rain_location r) (multiply v (elapsed ws now)),
                                  velocity = v\<rparr>
                       else None)))"
    by (rule exI[of _ w], rule exI[of _ k]) (intro conjI tc t pw' pl lo sh sup ballI each; assumption)
  with pw show ?thesis by simp
qed

text \<open>A program world with a cloud and a rain particle above the surface.\<close>

lemma loneWorld_programWorld: "programWorld loneWorld"
proof -
  have p: "planetSettled loneWorld"
    by (simp add: planetSettled_def loneWorld_fields planetObject_def)
  have s: "sunSettled loneWorld"
    by (simp add: sunSettled_def loneWorld_def emptyWorld_def anchored_def orbitPoint_def
        sunObject_def planetObject_def ellipse_calcRotationalPoint_def add_def)
  have c: "cloudSettled loneWorld 2"
    by (simp add: cloudSettled_def loneWorld_fields anchored_def orbitPoint_def cloudObject_def
        planetObject_def circle_calcRotationalPoint_def add_def)
  have r: "aloft (objects loneWorld (planet loneWorld)) highRain"
    by (simp add: loneWorld_fields aloft_def highRain_def planetObject_def greaterThanShape_def
        magnitude_def subtract_def)
  have h: "cloudHigh loneWorld 2"
    by (simp add: cloudHigh_def loneWorld_fields cloudObject_def)
  from p s c r h show ?thesis
    by (simp add: programWorld_def settled_def loneWorld_fields)
qed

theorem rain_pass_normalises_no_zero_vector_witness:
  "(\<exists>ws. createInitialWorldState 0 (\<lambda>k. 1 / 2) = Inr ws \<and> running ws \<and> programWorld ws
       \<and> (\<exists>ws'. tickWorld ws 10 (\<lambda>k. 1 / 2) = Inr ws' \<and> programWorld ws'))
   \<and> programWorld loneWorld \<and> unitDraws (\<lambda>k. 1 / 2)
   \<and> (\<exists>w k. tickClouds (\<lambda>k. 1 / 2) (clouds loneWorld) (afterKinematics loneWorld 10)
                (elapsed loneWorld 10) = Inr (w, k)
         \<and> tickWorld loneWorld 10 (\<lambda>k. 1 / 2) = Inr (tickRain w (planet loneWorld) 1)
         \<and> highRain \<in> set (rain w)
         \<and> unitVector (subtract (location (objects w (planet loneWorld))) (rain_location highRain))
             = Some (- 1, 0)
         \<and> tickRainDrop (objects w (planet loneWorld)) 1 highRain
             = Some \<lparr>rain_location = (69 / 10, 0), velocity = (- (1 / 10), 0)\<rparr>)"
proof -
  have u: "unitDraws (\<lambda>k. 1 / 2)" by (simp add: unitDraws_def)
  from createInitialWorldState_settled[of 0 "\<lambda>k. 1 / 2"]
  obtain ws where e: "createInitialWorldState 0 (\<lambda>k. 1 / 2) = Inr ws" by blast
  from u e have r: "running ws" by (rule running.initial)
  from rain_pass_normalises_no_zero_vector[OF disjI1[OF r] u, of 10]
  have a: "programWorld ws \<and> (\<exists>ws'. tickWorld ws 10 (\<lambda>k. 1 / 2) = Inr ws' \<and> programWorld ws')"
    by blast
  have dt: "elapsed loneWorld 10 = 1" by (simp add: elapsed_def loneWorld_fields timePerMs_def)
  note l = loneWorld_programWorld
  from rain_pass_normalises_no_zero_vector[OF disjI2[OF l] u, of 10]
  obtain w k where tc: "tickClouds (\<lambda>k. 1 / 2) (clouds loneWorld) (afterKinematics loneWorld 10)
                (elapsed loneWorld 10) = Inr (w, k)"
    and t: "tickWorld loneWorld 10 (\<lambda>k. 1 / 2) = Inr (tickRain w (planet loneWorld) 1)"
    and lo: "location (objects w (planet loneWorld)) = location (objects loneWorld (planet loneWorld))"
    and sh: "shape (objects w (planet loneWorld)) = shape (objects loneWorld (planet loneWorld))"
    and sup: "set (rain loneWorld) \<subseteq> set (rain w)"
    unfolding dt by blast
  from sup have hr: "highRain \<in> set (rain w)" by (simp add: loneWorld_fields)
  have lo': "location (objects w (planet loneWorld)) = (0, 0)"
    and sh': "shape (objects w (planet loneWorld)) = Circle 3"
    using lo sh by (simp_all add: loneWorld_fields planetObject_def)
  have d: "unitVector (subtract (location (objects w (planet loneWorld))) (rain_location highRain))
      = Some (- 1, 0)"
    by (simp add: lo' highRain_def unitVector_def divide_vec_def magnitude_def subtract_def)
  have f: "tickRainDrop (objects w (planet loneWorld)) 1 highRain
      = Some \<lparr>rain_location = (69 / 10, 0), velocity = (- (1 / 10), 0)\<rparr>"
    by (simp add: tickRainDrop_def Let_def lo' sh' highRain_def unitVector_def
      divide_vec_def magnitude_def subtract_def multiply_def add_def clipMagnitude_def
      gravity_def maxRainVelocity_def greaterThanShape_def)
  from e r a l u tc t hr d f show ?thesis by blast
qed

end
